theory Spec2Isabelle
  imports Complex_Main
begin

section \<open>Notebook runs as event traces\<close>

text \<open>
  The repository consists of five tutorial notebooks: \<^verbatim>\<open>scone_train_bis.ipynb\<close> (SCoNe) and the
  four notebooks held in \<^verbatim>\<open>scn2_train.ipynb\<close> (SCN2, AMPSSCA, CAN, HMPNN).  A run executes the
  code cells top to bottom.  Each cell, and each iteration of a training cell's loops, is an
  event; a Python exception ends the run at the event that raised it.
\<close>

datatype error = ZeroDivisionError | NameError | IndexError | ValueError | LibraryError string

datatype event =
    LoadData                \<comment> \<open>\<^verbatim>\<open>karate_club(...)\<close>, \<^verbatim>\<open>shrec_16(size="small")\<close>, \<^verbatim>\<open>Planetoid(".", "cora")\<close>\<close>
  | BuildMatrices           \<comment> \<open>the cell computing the Laplacian or incidence matrices\<close>
  | PrepareInputs           \<comment> \<open>SCoNe only: edge features and labels\<close>
  | SplitData               \<comment> \<open>\<^verbatim>\<open>train_test_split\<close>\<close>
  | DefineModel             \<comment> \<open>the \<^verbatim>\<open>class ...(torch.nn.Module)\<close> cell\<close>
  | Instantiate             \<comment> \<open>\<^verbatim>\<open>model = ...; optimizer = Adam(model.parameters(), ...)\<close>\<close>
  | TrainStep nat nat       \<comment> \<open>epoch, sample: \<^verbatim>\<open>zero_grad\<close>, forward, loss, \<^verbatim>\<open>backward\<close>, \<^verbatim>\<open>step\<close>\<close>
  | ReportLoss nat          \<comment> \<open>\<^verbatim>\<open>print(f"Epoch: ... loss: {np.mean(epoch_loss)}")\<close>\<close>
  | ValEval nat             \<comment> \<open>HMPNN only: forward pass scored on the validation mask\<close>
  | TestEval nat nat        \<comment> \<open>epoch, sample: forward pass under \<^verbatim>\<open>no_grad\<close> on test data\<close>
  | ReportTest nat          \<comment> \<open>\<^verbatim>\<open>print(f"Test_loss: ...")\<close>\<close>
  | Raised error

fun until_raise :: "event list \<Rightarrow> event list" where
  "until_raise [] = []"
| "until_raise (Raised e # es) = [Raised e]"
| "until_raise (x # es) = x # until_raise es"

text \<open>
  The test block at the end of an epoch of the SCN2, AMPSSCA and CAN training cells:
  \<^verbatim>\<open>
    if epoch_i % test_interval == 0:
        with torch.no_grad():
            for ... in zip(x_0s_test, ...):
                ...
                y_hat = model(...)
                test_loss = loss_fn(y_hat, y)
            print(f"Test_loss: {test_loss:.4f}", flush=True)
  \<close>
  Python's \<^verbatim>\<open>%\<close> raises for a zero divisor, and \<^verbatim>\<open>test_loss\<close> is unbound when the test
  set is empty.
\<close>

definition test_block :: "nat \<Rightarrow> nat \<Rightarrow> nat \<Rightarrow> event list" where
  "test_block test_interval n_test epoch =
     (if test_interval = 0 then [Raised ZeroDivisionError]
      else if epoch mod test_interval = 0
           then map (TestEval epoch) [0..<n_test]
                @ [if n_test = 0 then Raised NameError else ReportTest epoch]
      else [])"

text \<open>
  One epoch: the inner loop over the training samples, the report of the mean loss, the
  test block.
\<close>

definition epoch_events :: "nat \<Rightarrow> nat \<Rightarrow> nat \<Rightarrow> nat \<Rightarrow> event list" where
  "epoch_events test_interval n_train n_test epoch =
     map (TrainStep epoch) [0..<n_train] @ [ReportLoss epoch]
     @ test_block test_interval n_test epoch"

text \<open>\<^verbatim>\<open>for epoch_i in range(1, num_epochs + 1): ...\<close>\<close>

definition training_loop :: "nat \<Rightarrow> nat \<Rightarrow> nat \<Rightarrow> nat \<Rightarrow> event list" where
  "training_loop test_interval num_epochs n_train n_test =
     concat (map (epoch_events test_interval n_train n_test) [1..<num_epochs + 1])"

text \<open>
  The HMPNN training cell: \<^verbatim>\<open>for epoch in range(100)\<close>, one optimisation step on the training
  mask, one forward pass in eval mode scored on the validation mask, one report (which prints
  \<^verbatim>\<open>epoch + 1\<close>).  The test mask is only read by the cell after the loop.
\<close>

definition hmpnn_epoch :: "nat \<Rightarrow> event list" where
  "hmpnn_epoch epoch = [TrainStep epoch 0, ValEval epoch, ReportLoss (epoch + 1)]"

definition hmpnn_loop :: "nat \<Rightarrow> event list" where
  "hmpnn_loop num_epochs = concat (map hmpnn_epoch [0..<num_epochs])"

text \<open>
  The code cells of the five notebooks in file order (import, device and shape-printing cells left out).
  SCoNe takes one full-batch step per epoch and one test pass at a test epoch;
  \<open>n_train\<close> and \<open>n_test\<close> are the numbers of complexes on each side of the split
  (80 and 20 for the 100 complexes of \<^verbatim>\<open>shrec_16(size="small")\<close>).
\<close>

definition scone_cells :: "event list" where
  "scone_cells =
     [LoadData, BuildMatrices, PrepareInputs, SplitData, DefineModel, Instantiate]
     @ training_loop 2 6 1 1"

definition scn2_cells :: "nat \<Rightarrow> nat \<Rightarrow> event list" where
  "scn2_cells n_train n_test =
     [LoadData, BuildMatrices, DefineModel, Instantiate, SplitData]
     @ training_loop 2 8 n_train n_test"

definition ampssca_cells :: "nat \<Rightarrow> nat \<Rightarrow> event list" where
  "ampssca_cells n_train n_test =
     [LoadData, BuildMatrices, DefineModel, SplitData, Instantiate]
     @ training_loop 1 6 n_train n_test"

definition can_cells :: "nat \<Rightarrow> nat \<Rightarrow> event list" where
  "can_cells n_train n_test =
     [LoadData, BuildMatrices, BuildMatrices, DefineModel, Instantiate, SplitData]
     @ training_loop 2 10 n_train n_test
     @ [Instantiate]
     @ training_loop 2 10 n_train n_test"

definition hmpnn_cells :: "event list" where
  "hmpnn_cells =
     [LoadData, BuildMatrices, DefineModel, Instantiate]
     @ hmpnn_loop 100
     @ [TestEval 100 0, ReportTest 100]"

text \<open>The trace of a run in which no library call fails.\<close>

definition scone_notebook :: "event list" where
  "scone_notebook = until_raise scone_cells"

definition scn2_notebook :: "nat \<Rightarrow> nat \<Rightarrow> event list" where
  "scn2_notebook n_train n_test = until_raise (scn2_cells n_train n_test)"

definition ampssca_notebook :: "nat \<Rightarrow> nat \<Rightarrow> event list" where
  "ampssca_notebook n_train n_test = until_raise (ampssca_cells n_train n_test)"

definition can_notebook :: "nat \<Rightarrow> nat \<Rightarrow> event list" where
  "can_notebook n_train n_test = until_raise (can_cells n_train n_test)"

definition hmpnn_notebook :: "event list" where
  "hmpnn_notebook = until_raise hmpnn_cells"

text \<open>
  The order the specification gives to a run: load, build, instantiate, train, evaluate.
  \<open>pipeline_stage\<close> ranks the events this order speaks about; \<open>linear_pipeline\<close> says that
  the ranked events of a trace occur in non-decreasing stage, so that no training event
  follows an evaluation on test data.
\<close>

fun pipeline_stage :: "event \<Rightarrow> nat option" where
  "pipeline_stage LoadData = Some 0"
| "pipeline_stage BuildMatrices = Some 1"
| "pipeline_stage Instantiate = Some 2"
| "pipeline_stage (TrainStep e k) = Some 3"
| "pipeline_stage (ReportLoss e) = Some 3"
| "pipeline_stage (ValEval e) = Some 3"
| "pipeline_stage (TestEval e k) = Some 4"
| "pipeline_stage (ReportTest e) = Some 4"
| "pipeline_stage _ = None"

definition linear_pipeline :: "event list \<Rightarrow> bool" where
  "linear_pipeline tr = sorted (List.map_filter pipeline_stage tr)"

text \<open>
  What the notebooks do instead: the setup cells come in order (data loaded once, then the
  matrices, then a model before anything is trained or evaluated), and inside a training
  cell the events are ordered by epoch, within an epoch by training steps, loss report, test
  passes, test report.  \<open>setup_ok s\<close> checks the first from setup state \<open>s\<close> (0 nothing
  done, 1 data loaded, 2 matrices built, 3 model instantiated); \<open>loop_key\<close> is the position
  of an event in the second order.
\<close>

fun is_raise :: "event \<Rightarrow> bool" where
  "is_raise (Raised e) = True"
| "is_raise _ = False"

fun in_loop :: "event \<Rightarrow> bool" where
  "in_loop (TrainStep e k) = True"
| "in_loop (ReportLoss e) = True"
| "in_loop (ValEval e) = True"
| "in_loop (TestEval e k) = True"
| "in_loop (ReportTest e) = True"
| "in_loop _ = False"

fun setup_ok :: "nat \<Rightarrow> event list \<Rightarrow> bool" where
  "setup_ok s [] = True"
| "setup_ok s (LoadData # es) = (s = 0 \<and> setup_ok 1 es)"
| "setup_ok s (BuildMatrices # es) = ((s = 1 \<or> s = 2) \<and> setup_ok 2 es)"
| "setup_ok s (Instantiate # es) = (2 \<le> s \<and> setup_ok 3 es)"
| "setup_ok s (e # es) = ((in_loop e \<longrightarrow> s = 3) \<and> setup_ok s es)"

fun loop_key :: "event \<Rightarrow> nat" where
  "loop_key (TrainStep e k) = 4 * e"
| "loop_key (ReportLoss e) = 4 * e + 1"
| "loop_key (TestEval e k) = 4 * e + 2"
| "loop_key (ReportTest e) = 4 * e + 3"
| "loop_key _ = 0"

text \<open>\<open>occurs_before x y tr\<close>: event \<open>x\<close> occurs in \<open>tr\<close>, and \<open>y\<close> occurs after its first occurrence.\<close>

fun occurs_before :: "event \<Rightarrow> event \<Rightarrow> event list \<Rightarrow> bool" where
  "occurs_before x y [] = False"
| "occurs_before x y (z # zs) = (if z = x then y \<in> set zs else occurs_before x y zs)"

section \<open>Statements and exceptions\<close>

text \<open>
  The code cells of a notebook as Python statements.  An expression statement, an
  assignment, an import or a \<^verbatim>\<open>return\<close> is \<open>Simple\<close>, with its text; the compound statements
  carry their header and their bodies.  \<open>Try body cls handler\<close> is
  \<^verbatim>\<open>try: body except cls: handler\<close> and \<open>Raise c\<close> is \<^verbatim>\<open>raise c\<close>.
\<close>

datatype stmt =
    Simple string
  | For string "stmt list"
  | If string "stmt list" "stmt list"
  | With string "stmt list"
  | FunctionDef string "stmt list"
  | ClassDef string "string list" "stmt list"
  | Try "stmt list" string "stmt list"
  | Raise string

text \<open>
  What the interpreter and the library contribute to a run: \<open>effect c s\<close> evaluates the
  expressions of a simple statement or of a header in program state \<open>s\<close> and gives the new
  state or the exception raised; \<open>iterations h s\<close> is the number of items the iterable of a
  \<^verbatim>\<open>for\<close> header yields and \<open>truth c s\<close> the truth value of a condition; \<open>raised c s\<close> is
  the exception a \<^verbatim>\<open>raise\<close> statement raises; \<open>catches cls e\<close> says that exception \<open>e\<close> is
  an instance of the class an \<^verbatim>\<open>except\<close> clause names; \<open>suppresses c e\<close> says that the
  \<^verbatim>\<open>__exit__\<close> of context manager \<open>c\<close> swallows \<open>e\<close>.
\<close>

record 's interp =
  effect :: "string \<Rightarrow> 's \<Rightarrow> error + 's"
  iterations :: "string \<Rightarrow> 's \<Rightarrow> nat"
  truth :: "string \<Rightarrow> 's \<Rightarrow> bool"
  raised :: "string \<Rightarrow> 's \<Rightarrow> error"
  catches :: "string \<Rightarrow> error \<Rightarrow> bool"
  suppresses :: "string \<Rightarrow> error \<Rightarrow> bool"

text \<open>
  A run yields the log of the statements and headers evaluated, each with the exception
  it raised, if any; the final state; and the exception that is propagating when the run
  ends, if any.
\<close>

type_synonym 's run = "(string \<times> error option) list \<times> 's \<times> error option"

definition atomic :: "'s interp \<Rightarrow> string \<Rightarrow> 's \<Rightarrow> 's run" where
  "atomic w c s =
     (case effect w c s of
        Inl e \<Rightarrow> ([(c, Some e)], s, Some e)
      | Inr s' \<Rightarrow> ([(c, None)], s', None))"

definition prepend_log :: "(string \<times> error option) list \<Rightarrow> 's run \<Rightarrow> 's run" where
  "prepend_log l r = (case r of (l', s, e) \<Rightarrow> (l @ l', s, e))"

text \<open>
  Python's rules: a sequence stops at the first statement that raises; a loop stops at the
  first iteration that raises; a function definition binds a name and runs nothing of its
  body; a class definition runs its body and binds the class; \<^verbatim>\<open>with\<close> passes an exception
  of its body on unless the context manager suppresses it; \<^verbatim>\<open>try\<close> runs the handler on an
  exception of its body that the \<^verbatim>\<open>except\<close> clause matches, and the run goes on after it.
\<close>

fun exec :: "'s interp \<Rightarrow> stmt \<Rightarrow> 's \<Rightarrow> 's run"
  and exec_list :: "'s interp \<Rightarrow> stmt list \<Rightarrow> 's \<Rightarrow> 's run"
  and iterate :: "'s interp \<Rightarrow> nat \<Rightarrow> stmt list \<Rightarrow> 's \<Rightarrow> 's run" where
  "exec w (Simple c) s = atomic w c s"
| "exec w (For h body) s =
     (case atomic w h s of
        (l, s', Some e) \<Rightarrow> (l, s', Some e)
      | (l, s', None) \<Rightarrow> prepend_log l (iterate w (iterations w h s') body s'))"
| "exec w (If c a b) s =
     (case atomic w c s of
        (l, s', Some e) \<Rightarrow> (l, s', Some e)
      | (l, s', None) \<Rightarrow> prepend_log l (if truth w c s' then exec_list w a s' else exec_list w b s'))"
| "exec w (With c body) s =
     (case atomic w c s of
        (l, s', Some e) \<Rightarrow> (l, s', Some e)
      | (l, s', None) \<Rightarrow>
          (case exec_list w body s' of
             (l', s'', Some e) \<Rightarrow> (l @ l', s'', if suppresses w c e then None else Some e)
           | (l', s'', None) \<Rightarrow> (l @ l', s'', None)))"
| "exec w (FunctionDef f body) s = atomic w (''def '' @ f) s"
| "exec w (ClassDef c bases body) s =
     (case exec_list w body s of
        (l, s', Some e) \<Rightarrow> (l, s', Some e)
      | (l, s', None) \<Rightarrow> prepend_log l (atomic w (''class '' @ c) s'))"
| "exec w (Try body cls handler) s =
     (case exec_list w body s of
        (l, s', Some e) \<Rightarrow>
          if catches w cls e then prepend_log l (exec_list w handler s') else (l, s', Some e)
      | (l, s', None) \<Rightarrow> (l, s', None))"
| "exec w (Raise c) s = ([(c, Some (raised w c s))], s, Some (raised w c s))"
| "exec_list w [] s = ([], s, None)"
| "exec_list w (x # xs) s =
     (case exec w x s of
        (l, s', Some e) \<Rightarrow> (l, s', Some e)
      | (l, s', None) \<Rightarrow> prepend_log l (exec_list w xs s'))"
| "iterate w 0 body s = ([], s, None)"
| "iterate w (Suc n) body s =
     (case exec_list w body s of
        (l, s', Some e) \<Rightarrow> (l, s', Some e)
      | (l, s', None) \<Rightarrow> prepend_log l (iterate w n body s'))"

text \<open>
  An exception reaches the top level uncaught when the statement that raised it is the
  last one evaluated and the run ends with that exception: \<open>uncaught log r\<close> says that no
  entry of the log but the last raised, and that the run ended with what the last entry
  raised.
\<close>

fun uncaught :: "(string \<times> error option) list \<Rightarrow> error option \<Rightarrow> bool" where
  "uncaught [] r = (r = None)"
| "uncaught [(c, e)] r = (r = e)"
| "uncaught ((c, e) # x # xs) r = (e = None \<and> uncaught (x # xs) r)"

definition uncaught_run :: "'s run \<Rightarrow> bool" where
  "uncaught_run r = uncaught (fst r) (snd (snd r))"

text \<open>
  What a program contains, in the bodies of its functions and classes too: a \<^verbatim>\<open>try\<close>
  statement; the context managers of its \<^verbatim>\<open>with\<close> statements; the base classes of
  the classes it defines.
\<close>

fun try_free :: "stmt \<Rightarrow> bool"
  and try_free_list :: "stmt list \<Rightarrow> bool" where
  "try_free (Simple c) = True"
| "try_free (For h body) = try_free_list body"
| "try_free (If c a b) = (try_free_list a \<and> try_free_list b)"
| "try_free (With c body) = try_free_list body"
| "try_free (FunctionDef f body) = try_free_list body"
| "try_free (ClassDef c bases body) = try_free_list body"
| "try_free (Try body cls handler) = False"
| "try_free (Raise c) = True"
| "try_free_list [] = True"
| "try_free_list (x # xs) = (try_free x \<and> try_free_list xs)"

fun contexts :: "stmt \<Rightarrow> string list"
  and contexts_list :: "stmt list \<Rightarrow> string list" where
  "contexts (Simple c) = []"
| "contexts (For h body) = contexts_list body"
| "contexts (If c a b) = contexts_list a @ contexts_list b"
| "contexts (With c body) = c # contexts_list body"
| "contexts (FunctionDef f body) = contexts_list body"
| "contexts (ClassDef c bases body) = contexts_list body"
| "contexts (Try body cls handler) = contexts_list body @ contexts_list handler"
| "contexts (Raise c) = []"
| "contexts_list [] = []"
| "contexts_list (x # xs) = contexts x @ contexts_list xs"

fun class_bases :: "stmt \<Rightarrow> string list"
  and class_bases_list :: "stmt list \<Rightarrow> string list" where
  "class_bases (Simple c) = []"
| "class_bases (For h body) = class_bases_list body"
| "class_bases (If c a b) = class_bases_list a @ class_bases_list b"
| "class_bases (With c body) = class_bases_list body"
| "class_bases (FunctionDef f body) = class_bases_list body"
| "class_bases (ClassDef c bases body) = bases @ class_bases_list body"
| "class_bases (Try body cls handler) = class_bases_list body @ class_bases_list handler"
| "class_bases (Raise c) = []"
| "class_bases_list [] = []"
| "class_bases_list (x # xs) = class_bases x @ class_bases_list xs"

fun raise_free :: "stmt \<Rightarrow> bool"
  and raise_free_list :: "stmt list \<Rightarrow> bool" where
  "raise_free (Simple c) = True"
| "raise_free (For h body) = raise_free_list body"
| "raise_free (If c a b) = (raise_free_list a \<and> raise_free_list b)"
| "raise_free (With c body) = raise_free_list body"
| "raise_free (FunctionDef f body) = raise_free_list body"
| "raise_free (ClassDef c bases body) = raise_free_list body"
| "raise_free (Try body cls handler) = (raise_free_list body \<and> raise_free_list handler)"
| "raise_free (Raise c) = False"
| "raise_free_list [] = True"
| "raise_free_list (x # xs) = (raise_free x \<and> raise_free_list xs)"

text \<open>
  The code cells of the five notebooks, top to bottom.  The text of a statement is the
  statement on one line, with the quotes of its string literals dropped and cut after 72
  characters; a docstring, which is an expression statement, is written \<open>(docstring)\<close>.
\<close>

definition scone_code :: "stmt list" where
  "scone_code =
    [Simple ''import torch'',
     Simple ''import numpy as np'',
     Simple ''from sklearn.model_selection import train_test_split'',
     Simple ''import toponetx.datasets.graph as graph'',
     Simple ''from topomodelx.nn.simplicial.scone_layer_bis import SCoNeLayer'',
     Simple ''device = torch.device(cuda if torch.cuda.is_available() else cpu)'',
     Simple ''print(device)'',
     Simple ''dataset = graph.karate_club(complex_type=simplicial)'',
     Simple ''dataset.shape'',
     Simple ''up_lap1 = dataset.up_laplacian_matrix(rank=1)'',
     Simple ''down_lap1 = dataset.down_laplacian_matrix(rank=1)'',
     Simple ''up_lap1 = torch.from_numpy(up_lap1.todense()).to_sparse()'',
     Simple ''down_lap1 = torch.from_numpy(down_lap1.todense()).to_sparse()'',
     Simple ''print(fThe upper laplacian matrix has shape: {up_lap1.shape}.)'',
     Simple ''print(fThe lower laplacian matrix has shape: {down_lap1.shape}.)'',
     Simple ''xy = []'',
     Simple ''edges = []'',
     For ''for (k, v) in dataset.get_simplex_attributes(edge_feat).items()''
       [Simple ''xy.append(v)''],
     Simple ''xy = np.stack(xy)'',
     Simple ''x_1 = []'',
     Simple ''y = []'',
     For ''for pair in xy''
       [Simple ''x_1.append([pair[0]])'',
        If ''pair[1] > 0''
          [Simple ''y.append([1, 0])'']
          [Simple ''y.append([0, 1])'']],
     Simple ''x_1 = np.stack(x_1)'',
     Simple ''x_1 = torch.tensor(x_1).to(device)'',
     Simple ''y = torch.tensor(y).to(device)'',
     Simple ''x_1.shape'',
     Simple ''test_size = 0.2'',
     Simple ''indices = np.arange(78)'',
     Simple ''y_train, y_test, train_indices, test_indices = train_test_split(y, in...'',
     ClassDef ''SCoNeNN'' [''torch.nn.Module'']
       [Simple ''(docstring)'',
        FunctionDef ''__init__''
          [Simple ''super().__init__()'',
           Simple ''layers = []'',
           For ''for _ in range(n_layers)''
             [Simple ''layers.append(SCoNeLayer(channels=channels))''],
           Simple ''self.linear = torch.nn.Linear(channels, 2)'',
           Simple ''self.layers = layers''],
        FunctionDef ''forward''
          [Simple ''(docstring)'',
           For ''for layer in self.layers''
             [Simple ''x_1 = layer(x_1, up_lap1, down_lap1, iden)''],
           Simple ''x_1 = self.linear(x_1)'',
           Simple ''return torch.softmax(x_1, dim=-1)'']],
     Simple ''edge_channels = 1'',
     Simple ''model = SCoNeNN(channels=edge_channels, n_layers=10)'',
     Simple ''optimizer = torch.optim.Adam(model.parameters(), lr=0.4)'',
     Simple ''test_interval = 2'',
     Simple ''num_epochs = 6'',
     Simple ''dim = 78'',
     Simple ''iden = torch.eye(dim).to_sparse()'',
     For ''for epoch in range(1, num_epochs + 1)''
       [Simple ''epoch_loss = []'',
        Simple ''model.train()'',
        Simple ''optimizer.zero_grad()'',
        Simple ''y_hat = model(x_1, up_lap1, down_lap1, iden)'',
        Simple ''loss = torch.nn.functional.binary_cross_entropy_with_logits(y_hat[tra...'',
        Simple ''epoch_loss.append(loss.item())'',
        Simple ''loss.backward()'',
        Simple ''optimizer.step()'',
        Simple ''y_pred = torch.where(y_hat > 0.5, torch.tensor(1), torch.tensor(0))'',
        Simple ''accuracy = (y_pred[train_indices] == y_train).all(dim=1).float().mean...'',
        Simple ''print(fEpoch: {epoch} loss: {np.mean(epoch_loss):.4f} Train_acc: {acc...'',
        If ''epoch % test_interval == 0''
          [With ''torch.no_grad()''
             [Simple ''y_hat_test = torch.tensor(model(x_1, up_lap1, down_lap1, iden), dtype...'',
              Simple ''y_pred_test = torch.where(y_hat_test > 0.5, torch.tensor(1), torch.te...'',
              Simple ''test_accuracy = torch.eq(y_pred_test[test_indices], y_test).all(dim=1...'',
              Simple ''print(fTest_acc: {test_accuracy:.4f}, flush=True)'']]
          []]]"

definition scn2_code :: "stmt list" where
  "scn2_code =
    [Simple ''import torch'',
     Simple ''import numpy as np'',
     Simple ''import toponetx.datasets as datasets'',
     Simple ''from sklearn.model_selection import train_test_split'',
     Simple ''from topomodelx.nn.simplicial.scn2_layer import SCN2Layer'',
     Simple ''device = torch.device(cuda if torch.cuda.is_available() else cpu)'',
     Simple ''print(device)'',
     Simple ''shrec, _ = datasets.mesh.shrec_16(size=small)'',
     Simple ''shrec = {key: np.array(value) for key, value in shrec.items()}'',
     Simple ''x_0s = shrec[node_feat]'',
     Simple ''x_1s = shrec[edge_feat]'',
     Simple ''x_2s = shrec[face_feat]'',
     Simple ''ys = shrec[label]'',
     Simple ''ys = ys.reshape((100, 1))'',
     Simple ''simplexes = shrec[complexes]'',
     Simple ''i_complex = 6'',
     Simple ''print(fThe {i_complex}th simplicial complex has {x_0s[i_complex].shap...'',
     Simple ''print(fThe {i_complex}th simplicial complex has {x_1s[i_complex].shap...'',
     Simple ''print(fThe {i_complex}th simplicial complex has {x_2s[i_complex].shap...'',
     Simple ''laplacian_0s = []'',
     Simple ''laplacian_1s = []'',
     Simple ''laplacian_2s = []'',
     For ''for x in simplexes''
       [Simple ''laplacian_0 = x.normalized_laplacian_matrix(rank=0)'',
        Simple ''laplacian_1 = x.normalized_laplacian_matrix(rank=1)'',
        Simple ''laplacian_2 = x.normalized_laplacian_matrix(rank=2)'',
        Simple ''laplacian_0 = torch.from_numpy(laplacian_0.todense()).to_sparse()'',
        Simple ''laplacian_1 = torch.from_numpy(laplacian_1.todense()).to_sparse()'',
        Simple ''laplacian_2 = torch.from_numpy(laplacian_2.todense()).to_sparse()'',
        Simple ''laplacian_0s.append(laplacian_0)'',
        Simple ''laplacian_1s.append(laplacian_1)'',
        Simple ''laplacian_2s.append(laplacian_2)''],
     ClassDef ''SCN2'' [''torch.nn.Module'']
       [Simple ''(docstring)'',
        FunctionDef ''__init__''
          [Simple ''super().__init__()'',
           Simple ''layers = []'',
           For ''for _ in range(n_layers)''
             [Simple ''layers.append(SCN2Layer(in_channels_0=in_channels_0, in_channels_1=in...''],
           Simple ''self.layers = torch.nn.ModuleList(layers)'',
           Simple ''self.lin_0 = torch.nn.Linear(in_channels_0, num_classes)'',
           Simple ''self.lin_1 = torch.nn.Linear(in_channels_1, num_classes)'',
           Simple ''self.lin_2 = torch.nn.Linear(in_channels_2, num_classes)''],
        FunctionDef ''forward''
          [Simple ''(docstring)'',
           For ''for layer in self.layers''
             [Simple ''x_0, x_1, x_2 = layer(x_0, x_1, x_2, laplacian_0, laplacian_1, laplac...''],
           Simple ''x_0 = self.lin_0(x_0)'',
           Simple ''x_1 = self.lin_1(x_1)'',
           Simple ''x_2 = self.lin_2(x_2)'',
           Simple ''two_dimensional_cells_mean = torch.nanmean(x_2, dim=0)'',
           Simple ''two_dimensional_cells_mean[torch.isnan(two_dimensional_cells_mean)] = 0'',
           Simple ''one_dimensional_cells_mean = torch.nanmean(x_1, dim=0)'',
           Simple ''one_dimensional_cells_mean[torch.isnan(one_dimensional_cells_mean)] = 0'',
           Simple ''zero_dimensional_cells_mean = torch.nanmean(x_0, dim=0)'',
           Simple ''zero_dimensional_cells_mean[torch.isnan(zero_dimensional_cells_mean)]...'',
           Simple ''return two_dimensional_cells_mean + one_dimensional_cells_mean + zero...'']],
     Simple ''in_channels_0 = x_0s[i_complex].shape[1]'',
     Simple ''in_channels_1 = x_1s[i_complex].shape[1]'',
     Simple ''in_channels_2 = x_2s[i_complex].shape[1]'',
     Simple ''model = SCN2(in_channels_0, in_channels_1, in_channels_2, num_classes=1)'',
     Simple ''model = model.to(device)'',
     Simple ''optimizer = torch.optim.Adam(model.parameters(), lr=0.001)'',
     Simple ''loss_fn = torch.nn.MSELoss()'',
     Simple ''test_size = 0.2'',
     Simple ''x_0s_train, x_0s_test = train_test_split(x_0s, test_size=test_size, s...'',
     Simple ''x_1s_train, x_1s_test = train_test_split(x_1s, test_size=test_size, s...'',
     Simple ''x_2s_train, x_2s_test = train_test_split(x_2s, test_size=test_size, s...'',
     Simple ''laplacian_0s_train, laplacian_0s_test = train_test_split(laplacian_0s...'',
     Simple ''laplacian_1s_train, laplacian_1s_test = train_test_split(laplacian_1s...'',
     Simple ''laplacian_2s_train, laplacian_2s_test = train_test_split(laplacian_2s...'',
     Simple ''y_train, y_test = train_test_split(ys, test_size=test_size, shuffle=F...'',
     Simple ''test_interval = 2'',
     Simple ''num_epochs = 8'',
     For ''for epoch_i in range(1, num_epochs + 1)''
       [Simple ''epoch_loss = []'',
        Simple ''model.train()'',
        For ''for (x_0, x_1, x_2, laplacian_0, laplacian_1, laplacian_2, y) in zip(...''
          [Simple ''x_0, x_1, x_2, y = (torch.tensor(x_0).float().to(device), torch.tenso...'',
           Simple ''laplacian_0, laplacian_1, laplacian_2 = (laplacian_0.float().to(devic...'',
           Simple ''optimizer.zero_grad()'',
           Simple ''y_hat = model(x_0, x_1, x_2, laplacian_0, laplacian_1, laplacian_2)'',
           Simple ''loss = loss_fn(y_hat, y)'',
           Simple ''loss.backward()'',
           Simple ''optimizer.step()'',
           Simple ''epoch_loss.append(loss.item())''],
        Simple ''print(fEpoch: {epoch_i} loss: {np.mean(epoch_loss):.4f}, flush=True)'',
        If ''epoch_i % test_interval == 0''
          [With ''torch.no_grad()''
             [For ''for (x_0, x_1, x_2, laplacian_0, laplacian_1, laplacian_2, y) in zip(...''
                [Simple ''x_0, x_1, x_2, y = (torch.tensor(x_0).float().to(device), torch.tenso...'',
                 Simple ''laplacian_0, laplacian_1, laplacian_2 = (laplacian_0.float().to(devic...'',
                 Simple ''y_hat = model(x_0, x_1, x_2, laplacian_0, laplacian_1, laplacian_2)'',
                 Simple ''test_loss = loss_fn(y_hat, y)''],
              Simple ''print(fTest_loss: {test_loss:.4f}, flush=True)'']]
          []]]"

definition ampssca_code :: "stmt list" where
  "ampssca_code =
    [Simple ''import torch'',
     Simple ''import numpy as np'',
     Simple ''import toponetx.datasets as datasets'',
     Simple ''from sklearn.model_selection import train_test_split'',
     Simple ''from topomodelx.nn.simplicial.sca_cmps_layer import SCACMPSLayer'',
     Simple ''from topomodelx.base.aggregation import Aggregation'',
     Simple ''device = torch.device(cuda if torch.cuda.is_available() else cpu)'',
     Simple ''print(device)'',
     Simple ''shrec, _ = datasets.mesh.shrec_16(size=small)'',
     Simple ''shrec = {key: np.array(value) for key, value in shrec.items()}'',
     Simple ''x_0s = shrec[node_feat]'',
     Simple ''x_1s = shrec[edge_feat]'',
     Simple ''x_2s = shrec[face_feat]'',
     Simple ''ys = shrec[label]'',
     Simple ''scs = shrec[complexes]'',
     Simple ''i_complex = 6'',
     Simple ''print(fThe {i_complex}th simplicial complex has {x_0s[i_complex].shap...'',
     Simple ''print(fThe {i_complex}th simplicial complex has {x_1s[i_complex].shap...'',
     Simple ''print(fThe {i_complex}th simplicial complex has {x_2s[i_complex].shap...'',
     Simple ''down_lap1_list = []'',
     Simple ''down_lap2_list = []'',
     Simple ''incidence1_t_list = []'',
     Simple ''incidence2_t_list = []'',
     For ''for sc in scs''
       [Simple ''down_lap1 = sc.down_laplacian_matrix(rank=1)'',
        Simple ''down_lap2 = sc.down_laplacian_matrix(rank=2)'',
        Simple ''incidence_1t = sc.incidence_matrix(rank=1).T'',
        Simple ''incidence_2t = sc.incidence_matrix(rank=2).T'',
        Simple ''down_lap1 = torch.from_numpy(down_lap1.todense()).to_sparse()'',
        Simple ''down_lap2 = torch.from_numpy(down_lap2.todense()).to_sparse()'',
        Simple ''incidence_1t = torch.from_numpy(incidence_1t.todense()).to_sparse()'',
        Simple ''incidence_2t = torch.from_numpy(incidence_2t.todense()).to_sparse()'',
        Simple ''down_lap1_list.append(down_lap1)'',
        Simple ''down_lap2_list.append(down_lap2)'',
        Simple ''incidence1_t_list.append(incidence_1t)'',
        Simple ''incidence2_t_list.append(incidence_2t)''],
     Simple ''channels_list = [x_0s[0].shape[-1], x_1s[0].shape[-1], x_2s[0].shape[...'',
     Simple ''complex_dim = 3'',
     Simple ''x_0s.shape'',
     ClassDef ''AMPSSCA'' [''torch.nn.Module'']
       [Simple ''(docstring)'',
        FunctionDef ''__init__''
          [Simple ''super().__init__()'',
           Simple ''self.n_layers = n_layers'',
           Simple ''self.channels_list = channels_list'',
           Simple ''self.num_classes = num_classes'',
           Simple ''layers = []'',
           For ''for i in range(n_layers)''
             [Simple ''layers.append(SCACMPSLayer(channels_list, complex_dim, att))''],
           Simple ''self.layers = torch.nn.ModuleList(layers)'',
           Simple ''self.lin0 = torch.nn.Linear(channels_list[0], num_classes)'',
           Simple ''self.lin1 = torch.nn.Linear(channels_list[1], num_classes)'',
           Simple ''self.lin2 = torch.nn.Linear(channels_list[2], num_classes)'',
           Simple ''self.aggr = Aggregation(aggr_func=mean, update_func=sigmoid)''],
        FunctionDef ''forward''
          [Simple ''(docstring)'',
           For ''for i in range(self.n_layers)''
             [Simple ''x_list = self.layers[i](x_list, down_lap_list, incidencet_list)''],
           Simple ''x_0 = self.lin0(x_list[0])'',
           Simple ''x_1 = self.lin1(x_list[1])'',
           Simple ''x_2 = self.lin2(x_list[2])'',
           Simple ''two_dimensional_cells_mean = torch.nanmean(x_2, dim=0)'',
           Simple ''two_dimensional_cells_mean[torch.isnan(two_dimensional_cells_mean)] = 0'',
           Simple ''one_dimensional_cells_mean = torch.nanmean(x_1, dim=0)'',
           Simple ''one_dimensional_cells_mean[torch.isnan(one_dimensional_cells_mean)] = 0'',
           Simple ''zero_dimensional_cells_mean = torch.nanmean(x_0, dim=0)'',
           Simple ''zero_dimensional_cells_mean[torch.isnan(zero_dimensional_cells_mean)]...'',
           Simple ''x_2f = torch.flatten(two_dimensional_cells_mean)'',
           Simple ''x_1f = torch.flatten(one_dimensional_cells_mean)'',
           Simple ''x_0f = torch.flatten(zero_dimensional_cells_mean)'',
           Simple ''return x_0f + x_1f + x_2f'']],
     Simple ''test_size = 0.2'',
     Simple ''x_0_train, x_0_test = train_test_split(x_0s, test_size=test_size, shu...'',
     Simple ''x_1_train, x_1_test = train_test_split(x_1s, test_size=test_size, shu...'',
     Simple ''x_2_train, x_2_test = train_test_split(x_2s, test_size=test_size, shu...'',
     Simple ''down_lap1_train, down_lap1_test = train_test_split(down_lap1_list, te...'',
     Simple ''down_lap2_train, down_lap2_test = train_test_split(down_lap2_list, te...'',
     Simple ''incidence1_t_train, incidence1_t_test = train_test_split(incidence1_t...'',
     Simple ''incidence2_t_train, incidence2_t_test = train_test_split(incidence2_t...'',
     Simple ''y_train, y_test = train_test_split(ys, test_size=test_size, shuffle=F...'',
     Simple ''y_train.shape'',
     Simple ''model = AMPSSCA(channels_list=channels_list, complex_dim=complex_dim,...'',
     Simple ''model = model.to(device)'',
     Simple ''opt = torch.optim.Adam(model.parameters(), lr=0.1)'',
     Simple ''loss_fn = torch.nn.MSELoss()'',
     Simple ''test_interval = 1'',
     Simple ''num_epochs = 6'',
     For ''for epoch_i in range(1, num_epochs + 1)''
       [Simple ''epoch_loss = []'',
        Simple ''model.train()'',
        For ''for (x_0, x_1, x_2, down_lap1, down_lap2, incidence_1t, incidence_2t,...''
          [Simple ''x_0, x_1, x_2, y = (torch.tensor(x_0).float().to(device), torch.tenso...'',
           Simple ''x_list = [x_0, x_1, x_2]'',
           Simple ''down_lap1 = down_lap1.float().to(device)'',
           Simple ''down_lap2 = down_lap2.float().to(device)'',
           Simple ''down_lap_list = [down_lap1, down_lap2]'',
           Simple ''incidence_1t = incidence_1t.float().to(device)'',
           Simple ''incidence_2t = incidence_2t.float().to(device)'',
           Simple ''incidence_t_list = [incidence_1t, incidence_2t]'',
           Simple ''opt.zero_grad()'',
           Simple ''y_hat = model(x_list, down_lap_list, incidence_t_list)'',
           Simple ''loss = loss_fn(y_hat.flatten(), y)'',
           Simple ''loss.backward()'',
           Simple ''opt.step()'',
           Simple ''epoch_loss.append(loss.item())''],
        Simple ''print(fEpoch: {epoch_i} loss: {np.mean(epoch_loss)}, flush=True)'',
        If ''epoch_i % test_interval == 0''
          [Simple ''correct_count = 0'',
           With ''torch.no_grad()''
             [For ''for (x_0, x_1, x_2, down_lap1, down_lap2, incidence_1t, incidence_2t,...''
                [Simple ''x_0, x_1, x_2, y = (torch.tensor(x_0).float().to(device), torch.tenso...'',
                 Simple ''x_list = [x_0, x_1, x_2]'',
                 Simple ''down_lap1 = down_lap1.float().to(device)'',
                 Simple ''down_lap2 = down_lap2.float().to(device)'',
                 Simple ''down_lap_list = [down_lap1, down_lap2]'',
                 Simple ''incidence_1t = incidence_1t.float().to(device)'',
                 Simple ''incidence_2t = incidence_2t.float().to(device)'',
                 Simple ''incidence_t_list = [incidence_1t, incidence_2t]'',
                 Simple ''y_hat = model(x_list, down_lap_list, incidence_t_list)'',
                 Simple ''test_loss = loss_fn(y_hat, y)'',
                 If ''round(y_hat.item()) == round(y.item())''
                   [Simple ''correct_count += 1'']
                   []],
              Simple ''print(fTest_loss: {test_loss}, flush=True)'']]
          []]]"

definition can_code :: "stmt list" where
  "can_code =
    [Simple ''import torch'',
     Simple ''import random'',
     Simple ''import numpy as np'',
     Simple ''from sklearn.model_selection import train_test_split'',
     Simple ''import toponetx.datasets as datasets'',
     Simple ''from topomodelx.nn.cell.can_layer_bis import CANLayer'',
     Simple ''device = torch.device(cuda if torch.cuda.is_available() else cpu)'',
     Simple ''print(device)'',
     Simple ''shrec, _ = datasets.mesh.shrec_16(size=small)'',
     Simple ''shrec = {key: np.array(value) for key, value in shrec.items()}'',
     Simple ''x_0s = shrec[node_feat]'',
     Simple ''x_1s = shrec[edge_feat]'',
     Simple ''x_2s = shrec[face_feat]'',
     Simple ''ys = shrec[label]'',
     Simple ''simplexes = shrec[complexes]'',
     Simple ''i_complex = 6'',
     Simple ''print(fThe {i_complex}th simplicial complex has {x_0s[i_complex].shap...'',
     Simple ''print(fThe {i_complex}th simplicial complex has {x_1s[i_complex].shap...'',
     Simple ''print(fThe {i_complex}th simplicial complex has {x_2s[i_complex].shap...'',
     Simple ''print(fThe {i_complex}th simplicial complex has label {ys[i_complex]}.)'',
     Simple ''cc_list = []'',
     Simple ''down_laplacian_list = []'',
     Simple ''up_laplacian_list = []'',
     For ''for simplex in simplexes''
       [Simple ''cell_complex = simplex.to_cell_complex()'',
        Simple ''cc_list.append(cell_complex)'',
        Simple ''down_laplacian = cell_complex.down_laplacian_matrix(rank=1)'',
        Simple ''up_laplacian = cell_complex.up_laplacian_matrix(rank=1)'',
        Simple ''down_laplacian = torch.from_numpy(down_laplacian.todense()).to_sparse()'',
        Simple ''up_laplacian = torch.from_numpy(up_laplacian.todense()).to_sparse()'',
        Simple ''down_laplacian_list.append(down_laplacian)'',
        Simple ''up_laplacian_list.append(up_laplacian)''],
     Simple ''i_complex = 6'',
     Simple ''print(fThe {i_complex}th cell complex has a down_laplacian matrix of ...'',
     Simple ''print(fThe {i_complex}th cell complex has an up_laplacian matrix of s...'',
     Simple ''up_laplacian_list = []'',
     Simple ''down_laplacian_list = []'',
     For ''for cell_complex in cc_list''
       [Simple ''up_laplacian = cell_complex.up_laplacian_matrix(rank=1)'',
        Simple ''down_laplacian = cell_complex.down_laplacian_matrix(rank=1)'',
        Simple ''up_laplacian = torch.from_numpy(up_laplacian.todense()).to_sparse()'',
        Simple ''down_laplacian = torch.from_numpy(down_laplacian.todense()).to_sparse()'',
        Simple ''up_laplacian_list.append(up_laplacian)'',
        Simple ''down_laplacian_list.append(down_laplacian)''],
     Simple ''i_cc = 0'',
     Simple ''print(fUp Laplacian of the {i_cc}-th complex: {up_laplacian_list[i_cc...'',
     Simple ''print(fDown Laplacian of the {i_cc}-th complex: {down_laplacian_list[...'',
     Simple ''in_channels_0 = x_0s[0].shape[-1]'',
     Simple ''in_channels_1 = x_1s[0].shape[-1]'',
     Simple ''in_channels_2 = x_2s[0].shape[-1]'',
     Simple ''print(fThe dimension of input features on nodes, edges and faces are:...'',
     ClassDef ''CAN'' [''torch.nn.Module'']
       [Simple ''(docstring)'',
        FunctionDef ''__init__''
          [Simple ''super().__init__()'',
           Simple ''layers = []'',
           For ''for _ in range(n_layers)''
             [Simple ''layers.append(CANLayer(channels=in_channels_1, att=att))''],
           Simple ''self.layers = layers'',
           Simple ''self.lin_0 = torch.nn.Linear(in_channels_0, num_classes)'',
           Simple ''self.lin_1 = torch.nn.Linear(in_channels_1, num_classes)'',
           Simple ''self.lin_2 = torch.nn.Linear(in_channels_2, num_classes)''],
        FunctionDef ''forward''
          [Simple ''(docstring)'',
           For ''for layer in self.layers''
             [Simple ''x_1 = layer(x_1, down_laplacian, up_laplacian)''],
           Simple ''x_0 = self.lin_0(x_0)'',
           Simple ''x_1 = self.lin_1(x_1)'',
           Simple ''x_2 = self.lin_2(x_2)'',
           Simple ''two_dimensional_cells_mean = torch.nanmean(x_2, dim=0)'',
           Simple ''two_dimensional_cells_mean[torch.isnan(two_dimensional_cells_mean)] = 0'',
           Simple ''one_dimensional_cells_mean = torch.nanmean(x_1, dim=0)'',
           Simple ''one_dimensional_cells_mean[torch.isnan(one_dimensional_cells_mean)] = 0'',
           Simple ''zero_dimensional_cells_mean = torch.nanmean(x_0, dim=0)'',
           Simple ''zero_dimensional_cells_mean[torch.isnan(zero_dimensional_cells_mean)]...'',
           Simple ''return one_dimensional_cells_mean + zero_dimensional_cells_mean + two...'']],
     Simple ''model = CAN(in_channels_0, in_channels_1, in_channels_2, num_classes=...'',
     Simple ''model = model.to(device)'',
     Simple ''crit = torch.nn.CrossEntropyLoss()'',
     Simple ''opt = torch.optim.Adam(model.parameters(), lr=0.1)'',
     Simple ''loss_fn = torch.nn.MSELoss()'',
     Simple ''test_size = 0.2'',
     Simple ''x_0_train, x_0_test = train_test_split(x_0s, test_size=test_size, shu...'',
     Simple ''x_1_train, x_1_test = train_test_split(x_1s, test_size=test_size, shu...'',
     Simple ''x_2_train, x_2_test = train_test_split(x_2s, test_size=test_size, shu...'',
     Simple ''up_laplacian_train, up_laplacian_test = train_test_split(up_laplacian...'',
     Simple ''down_laplacian_train, down_laplacian_test = train_test_split(down_lap...'',
     Simple ''y_train, y_test = train_test_split(ys, test_size=test_size, shuffle=F...'',
     Simple ''test_interval = 2'',
     Simple ''num_epochs = 10'',
     For ''for epoch_i in range(1, num_epochs + 1)''
       [Simple ''epoch_loss = []'',
        Simple ''model.train()'',
        For ''for (x_0, x_1, x_2, down_laplacian, up_laplacian, y) in zip(x_0_train...''
          [Simple ''x_0, x_1, x_2, y = (torch.tensor(x_0).float().to(device), torch.tenso...'',
           Simple ''down_laplacian, up_laplacian = (down_laplacian.float().to(device), up...'',
           Simple ''opt.zero_grad()'',
           Simple ''y_hat = model(x_0, x_1, x_2, down_laplacian, up_laplacian)'',
           Simple ''loss = loss_fn(y_hat, y)'',
           Simple ''loss.backward()'',
           Simple ''opt.step()'',
           Simple ''epoch_loss.append(loss.item())''],
        Simple ''print(fEpoch: {epoch_i} loss: {np.mean(epoch_loss):.4f}, flush=True)'',
        If ''epoch_i % test_interval == 0''
          [With ''torch.no_grad()''
             [For ''for (x_0, x_1, x_2, down_laplacian, up_laplcian, y) in zip(x_0_test, ...''
                [Simple ''x_0, x_1, x_2, y = (torch.tensor(x_0).float().to(device), torch.tenso...'',
                 Simple ''down_laplacian, up_laplacian = (down_laplacian.float().to(device), up...'',
                 Simple ''y_hat = model(x_0, x_1, x_2, down_laplacian, up_laplacian)'',
                 Simple ''test_loss = loss_fn(y_hat, y)''],
              Simple ''print(fTest_loss: {test_loss:.4f}, flush=True)'']]
          []],
     Simple ''model = CAN(in_channels_0, in_channels_1, in_channels_2, num_classes=...'',
     Simple ''model = model.to(device)'',
     Simple ''crit = torch.nn.CrossEntropyLoss()'',
     Simple ''opt = torch.optim.Adam(model.parameters(), lr=0.1)'',
     Simple ''loss_fn = torch.nn.MSELoss()'',
     Simple ''test_interval = 2'',
     Simple ''num_epochs = 10'',
     For ''for epoch_i in range(1, num_epochs + 1)''
       [Simple ''epoch_loss = []'',
        Simple ''model.train()'',
        For ''for (x_0, x_1, x_2, down_laplacian, up_laplacian, y) in zip(x_0_train...''
          [Simple ''x_0, x_1, x_2, y = (torch.tensor(x_0).float().to(device), torch.tenso...'',
           Simple ''down_laplacian, up_laplacian = (down_laplacian.float().to(device), up...'',
           Simple ''opt.zero_grad()'',
           Simple ''y_hat = model(x_0, x_1, x_2, down_laplacian, up_laplacian)'',
           Simple ''loss = loss_fn(y_hat, y)'',
           Simple ''loss.backward()'',
           Simple ''opt.step()'',
           Simple ''epoch_loss.append(loss.item())''],
        Simple ''print(fEpoch: {epoch_i} loss: {np.mean(epoch_loss):.4f}, flush=True)'',
        If ''epoch_i % test_interval == 0''
          [With ''torch.no_grad()''
             [For ''for (x_0, x_1, x_2, down_laplacian, up_laplcian, y) in zip(x_0_test, ...''
                [Simple ''x_0, x_1, x_2, y = (torch.tensor(x_0).float().to(device), torch.tenso...'',
                 Simple ''down_laplacian, up_laplacian = (down_laplacian.float().to(device), up...'',
                 Simple ''y_hat = model(x_0, x_1, x_2, down_laplacian, up_laplacian)'',
                 Simple ''test_loss = loss_fn(y_hat, y)''],
              Simple ''print(fTest_loss: {test_loss:.4f}, flush=True)'']]
          []]]"

definition hmpnn_code :: "stmt list" where
  "hmpnn_code =
    [Simple ''import torch'',
     Simple ''from torch_geometric.datasets import Planetoid'',
     Simple ''from sklearn.metrics import accuracy_score'',
     Simple ''from topomodelx.nn.hypergraph.hmpnn_layer import HMPNNLayer'',
     Simple ''device = torch.device(cuda if torch.cuda.is_available() else cpu)'',
     Simple ''print(device)'',
     Simple ''dataset = Planetoid(., cora)[0]'',
     Simple ''dataset[incidence_1] = torch.sparse_coo_tensor(dataset[edge_index], t...'',
     Simple ''dataset = dataset.to(device)'',
     ClassDef ''HMPNN'' [''torch.nn.Module'']
       [Simple ''(docstring)'',
        FunctionDef ''__init__''
          [Simple ''super().__init__()'',
           Simple ''hidden_features = (in_features,) + hidden_features'',
           Simple ''self.to_hidden_linear = torch.nn.Sequential(*[torch.nn.Linear(hidden_...'',
           Simple ''self.layers = torch.nn.ModuleList([HMPNNLayer(hidden_features[-1], ad...'',
           Simple ''self.to_categories_linear = torch.nn.Linear(hidden_features[-1], num_...''],
        FunctionDef ''forward''
          [Simple ''(docstring)'',
           Simple ''x_0 = self.to_hidden_linear(x_0)'',
           Simple ''x_1 = self.to_hidden_linear(x_1)'',
           For ''for layer in self.layers''
             [Simple ''x_0, x_1 = layer(x_0, x_1, incidence_1)''],
           Simple ''return self.to_categories_linear(x_0)'']],
     Simple ''torch.manual_seed(41)'',
     Simple ''in_features = 1433'',
     Simple ''hidden_features = 8'',
     Simple ''num_classes = 7'',
     Simple ''n_layers = 2'',
     Simple ''model = HMPNN(in_features, (256, hidden_features), num_classes, n_lay...'',
     Simple ''optimizer = torch.optim.Adam(model.parameters(), lr=0.01)'',
     Simple ''loss_fn = torch.nn.CrossEntropyLoss()'',
     Simple ''train_y_true = dataset[y][dataset[train_mask]]'',
     Simple ''val_y_true = dataset[y][dataset[val_mask]]'',
     Simple ''initial_x_1 = torch.zeros_like(dataset[x])'',
     For ''for epoch in range(100)''
       [Simple ''model.train()'',
        Simple ''optimizer.zero_grad()'',
        Simple ''y_pred_logits = model(dataset[x], initial_x_1, dataset[incidence_1])'',
        Simple ''loss = loss_fn(y_pred_logits[dataset[train_mask]], train_y_true)'',
        Simple ''loss.backward()'',
        Simple ''optimizer.step()'',
        Simple ''train_loss = loss.item()'',
        Simple ''y_pred = y_pred_logits.argmax(dim=-1)'',
        Simple ''train_acc = accuracy_score(train_y_true, y_pred[dataset[train_mask]])'',
        Simple ''model.eval()'',
        With ''torch.no_grad()''
          [Simple ''y_pred_logits = model(dataset[x], initial_x_1, dataset[incidence_1])''],
        Simple ''val_loss = loss_fn(y_pred_logits[dataset[val_mask]], val_y_true).item()'',
        Simple ''y_pred = y_pred_logits.argmax(dim=-1)'',
        Simple ''val_acc = accuracy_score(val_y_true, y_pred[dataset[val_mask]])'',
        Simple ''print(fEpoch: {epoch + 1} train loss: {train_loss:.4f} train acc: {tr...''],
     Simple ''test_y_true = dataset[y][dataset[test_mask]]'',
     Simple ''initial_x_1 = torch.zeros_like(dataset[x])'',
     Simple ''model.eval()'',
     With ''torch.no_grad()''
       [Simple ''y_pred_logits = model(dataset[x], initial_x_1, dataset[incidence_1])''],
     Simple ''test_loss = loss_fn(y_pred_logits[dataset[test_mask]], test_y_true).i...'',
     Simple ''y_pred = y_pred_logits.argmax(dim=-1)'',
     Simple ''test_acc = accuracy_score(test_y_true, y_pred[dataset[test_mask]])'',
     Simple ''print(fTest loss: {test_loss:.4f} test acc: {test_acc:.2f} )'']"

text \<open>
  An interpreter for the examples: the forward pass of the SCoNe training step raises (a
  shape error of the library), every other statement succeeds and leaves the (trivial)
  state as it is; every loop makes two iterations and every condition holds.
\<close>

definition failing_model_call :: "unit interp" where
  "failing_model_call =
     \<lparr>effect = (\<lambda>c s. if c = ''y_hat = model(x_1, up_lap1, down_lap1, iden)''
                        then Inl (LibraryError ''shape mismatch'') else Inr s),
      iterations = (\<lambda>h s. 2),
      truth = (\<lambda>c s. True),
      raised = (\<lambda>c s. LibraryError c),
      catches = (\<lambda>cls e. True),
      suppresses = (\<lambda>c e. False)\<rparr>"

section \<open>Tensors\<close>

text \<open>
  A tensor entry is a float: a number, one of the two infinities, or NaN.  A
  two-dimensional tensor is its shape and its entries by index; only the entries inside
  the shape are ever read.
\<close>

datatype fl = Num real | PInf | NInf | NaN

fun is_nan :: "fl \<Rightarrow> bool" where
  "is_nan NaN = True"
| "is_nan _ = False"

record tensor =
  nrows :: nat
  ncols :: nat
  entry :: "nat \<Rightarrow> nat \<Rightarrow> fl"

definition row :: "tensor \<Rightarrow> nat \<Rightarrow> fl list" where
  "row t i = map (entry t i) [0..<ncols t]"

definition col :: "tensor \<Rightarrow> nat \<Rightarrow> fl list" where
  "col t j = map (\<lambda>i. entry t i j) [0..<nrows t]"

text \<open>
  The numeric kernels of the library are not part of the notebooks.  Which float they
  return (with which rounding, in which order of summation, overflowing to an infinity or
  not) is a parameter of every forward pass:
  \<^item> \<open>lib_affine x w b\<close>: one entry of \<^verbatim>\<open>torch.nn.Linear\<close>, the product of an input row \<open>x\<close>
    with a weight row \<open>w\<close> plus the bias entry \<open>b\<close>;
  \<^item> \<open>lib_softmax r\<close>: \<^verbatim>\<open>torch.softmax(x, dim=-1)\<close> on one row of \<open>x\<close>;
  \<^item> \<open>lib_nanmean c\<close>: \<^verbatim>\<open>torch.nanmean(x, dim=0)\<close> on one column of \<open>x\<close>;
  \<^item> \<open>lib_add a b\<close>: \<^verbatim>\<open>+\<close> on two entries.
\<close>

record numerics =
  lib_affine :: "fl list \<Rightarrow> fl list \<Rightarrow> fl \<Rightarrow> fl"
  lib_softmax :: "fl list \<Rightarrow> fl list"
  lib_nanmean :: "fl list \<Rightarrow> fl"
  lib_add :: "fl \<Rightarrow> fl \<Rightarrow> fl"

text \<open>
  \<^verbatim>\<open>torch.softmax(x, dim=-1)\<close> returns a tensor of the shape of \<open>x\<close>, each row the softmax of
  the row of \<open>x\<close>.
\<close>

definition softmax_rows :: "numerics \<Rightarrow> tensor \<Rightarrow> tensor" where
  "softmax_rows ar x =
     \<lparr>nrows = nrows x, ncols = ncols x, entry = (\<lambda>i j. lib_softmax ar (row x i) ! j)\<rparr>"

text \<open>
  \<^verbatim>\<open>mean = torch.nanmean(x, dim=0)\<close>, one entry per column, then
  \<^verbatim>\<open>mean[torch.isnan(mean)] = 0\<close>, on the tensor \<^verbatim>\<open>nanmean\<close> has just returned.
\<close>

definition nanmean_dim0 :: "numerics \<Rightarrow> tensor \<Rightarrow> fl list" where
  "nanmean_dim0 ar t = map (\<lambda>j. lib_nanmean ar (col t j)) [0..<ncols t]"

definition nan_to_zero :: "fl list \<Rightarrow> fl list" where
  "nan_to_zero v = map (\<lambda>a. if is_nan a then Num 0 else a) v"

definition cells_mean :: "numerics \<Rightarrow> tensor \<Rightarrow> fl list" where
  "cells_mean ar x = nan_to_zero (nanmean_dim0 ar x)"

text \<open>
  \<^verbatim>\<open>u + v\<close> on one-dimensional tensors: entry by entry when the sizes agree, a tensor of
  size 1 is broadcast against the other, any other pair of sizes is an error of the
  library.  \<open>vadd3 ar u v w\<close> is \<^verbatim>\<open>u + v + w\<close>.
\<close>

definition vadd :: "numerics \<Rightarrow> fl list \<Rightarrow> fl list \<Rightarrow> error + fl list" where
  "vadd ar u v =
     (if length u = length v then Inr (map2 (lib_add ar) u v)
      else if length u = 1 then Inr (map (\<lambda>b. lib_add ar (hd u) b) v)
      else if length v = 1 then Inr (map (\<lambda>a. lib_add ar a (hd v)) u)
      else Inl (LibraryError ''size mismatch''))"

definition vadd3 :: "numerics \<Rightarrow> fl list \<Rightarrow> fl list \<Rightarrow> fl list \<Rightarrow> error + fl list" where
  "vadd3 ar u v w = (case vadd ar u v of Inl e \<Rightarrow> Inl e | Inr s \<Rightarrow> vadd ar s w)"

subsection \<open>Exact arithmetic\<close>

text \<open>
  The arithmetic of the reals, extended to the infinities and NaN by the rules of IEEE 754
  (\<open>\<infinity> - \<infinity>\<close> and \<open>0 \<cdot> \<infinity>\<close> are NaN, NaN propagates).  It is what float arithmetic computes
  whenever no operation rounds or overflows, as on the small integers of an incidence
  matrix and on the numbers of the examples below.
\<close>

fun fadd :: "fl \<Rightarrow> fl \<Rightarrow> fl" where
  "fadd (Num a) (Num b) = Num (a + b)"
| "fadd NaN b = NaN"
| "fadd a NaN = NaN"
| "fadd PInf NInf = NaN"
| "fadd NInf PInf = NaN"
| "fadd PInf b = PInf"
| "fadd a PInf = PInf"
| "fadd NInf b = NInf"
| "fadd a NInf = NInf"

fun fneg :: "fl \<Rightarrow> fl" where
  "fneg (Num a) = Num (- a)"
| "fneg PInf = NInf"
| "fneg NInf = PInf"
| "fneg NaN = NaN"

fun fscale :: "real \<Rightarrow> fl \<Rightarrow> fl" where
  "fscale a (Num b) = Num (a * b)"
| "fscale a NaN = NaN"
| "fscale a PInf = (if a = 0 then NaN else if 0 < a then PInf else NInf)"
| "fscale a NInf = (if a = 0 then NaN else if 0 < a then NInf else PInf)"

fun fmul :: "fl \<Rightarrow> fl \<Rightarrow> fl" where
  "fmul (Num a) b = fscale a b"
| "fmul a (Num b) = fscale b a"
| "fmul NaN b = NaN"
| "fmul a NaN = NaN"
| "fmul PInf b = b"
| "fmul NInf b = fneg b"

definition fsum :: "fl list \<Rightarrow> fl" where
  "fsum xs = foldl fadd (Num 0) xs"

fun fexp :: "fl \<Rightarrow> real" where
  "fexp (Num a) = exp a"
| "fexp _ = 0"

text \<open>
  Softmax of a row: \<open>exp x\<^sub>i / \<Sum>\<^sub>j exp x\<^sub>j\<close>, with \<open>exp (-\<infinity>) = 0\<close>; NaN in every entry when the
  row holds a NaN or \<open>+\<infinity>\<close> or nothing but \<open>-\<infinity>\<close>.
\<close>

definition softmax :: "fl list \<Rightarrow> fl list" where
  "softmax xs =
     (if list_ex (\<lambda>x. x = NaN \<or> x = PInf) xs \<or> list_all (\<lambda>x. x = NInf) xs
      then map (\<lambda>x. NaN) xs
      else map (\<lambda>x. Num (fexp x / sum_list (map fexp xs))) xs)"

text \<open>
  The mean of the entries that are not NaN, and NaN when there is none (no entries, or
  NaN only).
\<close>

fun fdiv_nat :: "fl \<Rightarrow> nat \<Rightarrow> fl" where
  "fdiv_nat (Num a) n = Num (a / real n)"
| "fdiv_nat x n = x"

definition nanmean :: "fl list \<Rightarrow> fl" where
  "nanmean xs =
     (let vs = filter (\<lambda>x. \<not> is_nan x) xs
      in if vs = [] then NaN else fdiv_nat (fsum vs) (length vs))"

definition exact :: numerics where
  "exact = \<lparr>lib_affine = (\<lambda>x w b. fadd (fsum (map2 fmul x w)) b),
            lib_softmax = softmax, lib_nanmean = nanmean, lib_add = fadd\<rparr>"



section \<open>Modules, parameters and the optimizer\<close>

text \<open>
  Parameter tensors live in a store and are named by the module that owns them: a
  \<^verbatim>\<open>torch.nn.Linear\<close> by the attribute it is assigned to and its position inside a
  \<^verbatim>\<open>Sequential\<close> (0 otherwise), with tensor 0 the weight and tensor 1 the bias; a
  message-passing layer by the identity of the layer object.
\<close>

datatype pid = LinearP string nat nat | LayerP nat nat

type_synonym store = "pid \<Rightarrow> nat \<Rightarrow> nat \<Rightarrow> fl"

record linear_mod =
  lname :: string
  lpos :: nat
  in_features :: nat
  out_features :: nat

text \<open>
  \<^verbatim>\<open>Linear(in, out)\<close> applied to a tensor of shape \<open>[n, in]\<close>: \<open>x W\<^sup>T + b\<close> with \<open>W\<close> of shape
  \<open>[out, in]\<close>, entry \<open>(i, j)\<close> computed by the library from row \<open>i\<close> of \<open>x\<close>, row \<open>j\<close> of \<open>W\<close>
  and \<open>b\<^sub>j\<close>; any other number of columns is a shape error of the library.
\<close>

definition linear_forward :: "numerics \<Rightarrow> store \<Rightarrow> linear_mod \<Rightarrow> tensor \<Rightarrow> error + tensor" where
  "linear_forward ar st lin x =
     (if ncols x \<noteq> in_features lin then Inl (LibraryError ''shape mismatch'')
      else Inr \<lparr>nrows = nrows x, ncols = out_features lin,
                entry = (\<lambda>i j. lib_affine ar (row x i)
                   (map (st (LinearP (lname lin) (lpos lin) 0) j) [0..<in_features lin])
                   (st (LinearP (lname lin) (lpos lin) 1) 0 j))\<rparr>)"

text \<open>
  A message-passing layer object: the arguments its constructor was called with and the
  identity of the object (each constructor call makes a new object with its own, randomly
  initialised, parameter tensors).  The layer classes themselves (\<^verbatim>\<open>SCoNeLayer\<close>,
  \<^verbatim>\<open>SCN2Layer\<close>, \<^verbatim>\<open>SCACMPSLayer\<close>, \<^verbatim>\<open>CANLayer\<close>, \<^verbatim>\<open>HMPNNLayer\<close>) are imported by the
  notebooks; what a call of a layer computes in a forward pass is a parameter of every
  forward pass below (it may depend on the training mode and on random draws of that pass,
  of which the notebooks show nothing).
\<close>

record 'a layer_obj =
  ctor_args :: 'a
  obj_id :: nat

text \<open>
  The two ways the notebooks store the layers: \<^verbatim>\<open>self.layers = layers\<close> (a Python list) and
  \<^verbatim>\<open>self.layers = torch.nn.ModuleList(layers)\<close>.
\<close>

datatype 'l container = PyList "'l list" | ModuleList "'l list"

fun items :: "'l container \<Rightarrow> 'l list" where
  "items (PyList ls) = ls"
| "items (ModuleList ls) = ls"

text \<open>\<^verbatim>\<open>for layer in self.layers: x = layer(x, ...)\<close>\<close>

fun run_layers :: "('l \<Rightarrow> 'x \<Rightarrow> error + 'x) \<Rightarrow> 'l list \<Rightarrow> 'x \<Rightarrow> error + 'x" where
  "run_layers call [] x = Inr x"
| "run_layers call (l # ls) x =
     (case call l x of Inl e \<Rightarrow> Inl e | Inr x' \<Rightarrow> run_layers call ls x')"

text \<open>\<^verbatim>\<open>for i in range(n): x = self.layers[i](x, ...)\<close>\<close>

fun run_indexed :: "('l \<Rightarrow> 'x \<Rightarrow> error + 'x) \<Rightarrow> 'l list \<Rightarrow> nat list \<Rightarrow> 'x \<Rightarrow> error + 'x" where
  "run_indexed call ls [] x = Inr x"
| "run_indexed call ls (i # is) x =
     (if i < length ls
      then (case call (ls ! i) x of Inl e \<Rightarrow> Inl e | Inr x' \<Rightarrow> run_indexed call ls is x')
      else Inl IndexError)"

definition new_layers :: "'a \<Rightarrow> int \<Rightarrow> 'a layer_obj list" where
  "new_layers args n_layers = map (\<lambda>i. \<lparr>ctor_args = args, obj_id = i\<rparr>) [0..<nat n_layers]"

subsection \<open>SCoNeNN\<close>

record SCoNeNN =
  scone_linear :: linear_mod
  scone_layers :: "nat layer_obj container"

text \<open>
  \<^verbatim>\<open>
    def __init__(self, channels, n_layers=2):
        super().__init__()
        layers = []
        for _ in range(n_layers):
            layers.append(SCoNeLayer(channels=channels))
        self.linear = torch.nn.Linear(channels, 2)
        self.layers = layers
  \<close>
\<close>

definition SCoNeNN_init :: "nat \<Rightarrow> int \<Rightarrow> SCoNeNN" where
  "SCoNeNN_init channels n_layers =
     \<lparr>scone_linear = \<lparr>lname = ''linear'', lpos = 0, in_features = channels, out_features = 2\<rparr>,
      scone_layers = PyList (new_layers channels n_layers)\<rparr>"

text \<open>
  \<^verbatim>\<open>
    def forward(self, x_1, up_lap1, down_lap1, iden):
        for layer in self.layers:
            x_1 = layer(x_1, up_lap1, down_lap1, iden)
        x_1 = self.linear(x_1)
        return torch.softmax(x_1, dim=-1)
  \<close>
\<close>

definition SCoNeNN_forward ::
  "numerics \<Rightarrow> (store \<Rightarrow> nat layer_obj \<Rightarrow> tensor \<Rightarrow> 'm \<Rightarrow> 'm \<Rightarrow> 'm \<Rightarrow> error + tensor)
    \<Rightarrow> store \<Rightarrow> SCoNeNN \<Rightarrow> tensor \<Rightarrow> 'm \<Rightarrow> 'm \<Rightarrow> 'm \<Rightarrow> error + tensor" where
  "SCoNeNN_forward ar SCoNeLayer st self x_1 up_lap1 down_lap1 iden =
     (case run_layers (\<lambda>layer x_1. SCoNeLayer st layer x_1 up_lap1 down_lap1 iden)
             (items (scone_layers self)) x_1 of
        Inl e \<Rightarrow> Inl e
      | Inr x_1 \<Rightarrow>
          (case linear_forward ar st (scone_linear self) x_1 of
             Inl e \<Rightarrow> Inl e
           | Inr x_1 \<Rightarrow> Inr (softmax_rows ar x_1)))"

subsection \<open>SCN2\<close>

record SCN2 =
  scn2_layers :: "(nat \<times> nat \<times> nat) layer_obj container"
  scn2_lin_0 :: linear_mod
  scn2_lin_1 :: linear_mod
  scn2_lin_2 :: linear_mod

text \<open>
  \<^verbatim>\<open>
    def __init__(self, in_channels_0, in_channels_1, in_channels_2, num_classes, n_layers=2):
        super().__init__()
        layers = []
        for _ in range(n_layers):
            layers.append(SCN2Layer(in_channels_0=in_channels_0,
                                    in_channels_1=in_channels_1,
                                    in_channels_2=in_channels_2))
        self.layers = torch.nn.ModuleList(layers)
        self.lin_0 = torch.nn.Linear(in_channels_0, num_classes)
        self.lin_1 = torch.nn.Linear(in_channels_1, num_classes)
        self.lin_2 = torch.nn.Linear(in_channels_2, num_classes)
  \<close>
\<close>

definition SCN2_init :: "nat \<Rightarrow> nat \<Rightarrow> nat \<Rightarrow> nat \<Rightarrow> int \<Rightarrow> SCN2" where
  "SCN2_init in_channels_0 in_channels_1 in_channels_2 num_classes n_layers =
     \<lparr>scn2_layers = ModuleList (new_layers (in_channels_0, in_channels_1, in_channels_2) n_layers),
      scn2_lin_0 = \<lparr>lname = ''lin_0'', lpos = 0, in_features = in_channels_0, out_features = num_classes\<rparr>,
      scn2_lin_1 = \<lparr>lname = ''lin_1'', lpos = 0, in_features = in_channels_1, out_features = num_classes\<rparr>,
      scn2_lin_2 = \<lparr>lname = ''lin_2'', lpos = 0, in_features = in_channels_2, out_features = num_classes\<rparr>\<rparr>"

text \<open>
  \<^verbatim>\<open>
    def forward(self, x_0, x_1, x_2, laplacian_0, laplacian_1, laplacian_2):
        for layer in self.layers:
            x_0, x_1, x_2 = layer(x_0, x_1, x_2, laplacian_0, laplacian_1, laplacian_2)
        x_0 = self.lin_0(x_0)
        x_1 = self.lin_1(x_1)
        x_2 = self.lin_2(x_2)
        # Take the average of the 2D, 1D, and 0D cell features. If they are NaN, convert them to 0.
        two_dimensional_cells_mean = torch.nanmean(x_2, dim=0)
        two_dimensional_cells_mean[torch.isnan(two_dimensional_cells_mean)] = 0
        one_dimensional_cells_mean = torch.nanmean(x_1, dim=0)
        one_dimensional_cells_mean[torch.isnan(one_dimensional_cells_mean)] = 0
        zero_dimensional_cells_mean = torch.nanmean(x_0, dim=0)
        zero_dimensional_cells_mean[torch.isnan(zero_dimensional_cells_mean)] = 0
        # Return the sum of the averages
        return (two_dimensional_cells_mean + one_dimensional_cells_mean
                + zero_dimensional_cells_mean)
  \<close>
\<close>

definition SCN2_forward ::
  "numerics \<Rightarrow> (store \<Rightarrow> (nat \<times> nat \<times> nat) layer_obj \<Rightarrow> tensor \<times> tensor \<times> tensor \<Rightarrow> 'm \<Rightarrow> 'm \<Rightarrow> 'm
      \<Rightarrow> error + tensor \<times> tensor \<times> tensor)
    \<Rightarrow> store \<Rightarrow> SCN2 \<Rightarrow> tensor \<Rightarrow> tensor \<Rightarrow> tensor \<Rightarrow> 'm \<Rightarrow> 'm \<Rightarrow> 'm \<Rightarrow> error + fl list" where
  "SCN2_forward ar SCN2Layer st self x_0 x_1 x_2 laplacian_0 laplacian_1 laplacian_2 =
     (case run_layers (\<lambda>layer xs. SCN2Layer st layer xs laplacian_0 laplacian_1 laplacian_2)
             (items (scn2_layers self)) (x_0, x_1, x_2) of
        Inl e \<Rightarrow> Inl e
      | Inr (x_0, x_1, x_2) \<Rightarrow>
          (case linear_forward ar st (scn2_lin_0 self) x_0 of Inl e \<Rightarrow> Inl e | Inr x_0 \<Rightarrow>
          (case linear_forward ar st (scn2_lin_1 self) x_1 of Inl e \<Rightarrow> Inl e | Inr x_1 \<Rightarrow>
          (case linear_forward ar st (scn2_lin_2 self) x_2 of Inl e \<Rightarrow> Inl e | Inr x_2 \<Rightarrow>
             (let two_dimensional_cells_mean = cells_mean ar x_2;
                  one_dimensional_cells_mean = cells_mean ar x_1;
                  zero_dimensional_cells_mean = cells_mean ar x_0
              in vadd3 ar two_dimensional_cells_mean one_dimensional_cells_mean
                       zero_dimensional_cells_mean)))))"

subsection \<open>AMPSSCA\<close>

record AMPSSCA =
  ampssca_n_layers :: int
  ampssca_channels_list :: "nat list"
  ampssca_num_classes :: nat
  ampssca_layers :: "(nat list \<times> nat \<times> bool) layer_obj container"
  ampssca_lin0 :: linear_mod
  ampssca_lin1 :: linear_mod
  ampssca_lin2 :: linear_mod

text \<open>
  \<^verbatim>\<open>
    def __init__(self, channels_list, complex_dim, num_classes, n_layers=2, att=False):
        super().__init__()
        self.n_layers = n_layers
        self.channels_list = channels_list
        self.num_classes = num_classes
        layers = []
        for i in range(n_layers):
            layers.append(SCACMPSLayer(channels_list, complex_dim, att))
        self.layers = torch.nn.ModuleList(layers)
        self.lin0 = torch.nn.Linear(channels_list[0], num_classes)
        self.lin1 = torch.nn.Linear(channels_list[1], num_classes)
        self.lin2 = torch.nn.Linear(channels_list[2], num_classes)
        self.aggr = Aggregation(aggr_func="mean", update_func="sigmoid")
  \<close>
  \<^verbatim>\<open>channels_list[k]\<close> raises IndexError on a list of fewer than three channels;
  \<^verbatim>\<open>self.aggr\<close> is not used by the forward pass.
\<close>

definition AMPSSCA_init :: "nat list \<Rightarrow> nat \<Rightarrow> nat \<Rightarrow> int \<Rightarrow> bool \<Rightarrow> error + AMPSSCA" where
  "AMPSSCA_init channels_list complex_dim num_classes n_layers att =
     (if length channels_list < 3 then Inl IndexError
      else Inr
       \<lparr>ampssca_n_layers = n_layers,
        ampssca_channels_list = channels_list,
        ampssca_num_classes = num_classes,
        ampssca_layers = ModuleList (new_layers (channels_list, complex_dim, att) n_layers),
        ampssca_lin0 = \<lparr>lname = ''lin0'', lpos = 0, in_features = channels_list ! 0, out_features = num_classes\<rparr>,
        ampssca_lin1 = \<lparr>lname = ''lin1'', lpos = 0, in_features = channels_list ! 1, out_features = num_classes\<rparr>,
        ampssca_lin2 = \<lparr>lname = ''lin2'', lpos = 0, in_features = channels_list ! 2, out_features = num_classes\<rparr>\<rparr>)"

text \<open>
  \<^verbatim>\<open>
    def forward(self, x_list, down_lap_list, incidencet_list):
        for i in range(self.n_layers):
            x_list = self.layers[i](x_list, down_lap_list, incidencet_list)
        x_0 = self.lin0(x_list[0])
        x_1 = self.lin1(x_list[1])
        x_2 = self.lin2(x_list[2])
        two_dimensional_cells_mean = torch.nanmean(x_2, dim=0)
        two_dimensional_cells_mean[torch.isnan(two_dimensional_cells_mean)] = 0
        one_dimensional_cells_mean = torch.nanmean(x_1, dim=0)
        one_dimensional_cells_mean[torch.isnan(one_dimensional_cells_mean)] = 0
        zero_dimensional_cells_mean = torch.nanmean(x_0, dim=0)
        zero_dimensional_cells_mean[torch.isnan(zero_dimensional_cells_mean)] = 0
        x_2f = torch.flatten(two_dimensional_cells_mean)
        x_1f = torch.flatten(one_dimensional_cells_mean)
        x_0f = torch.flatten(zero_dimensional_cells_mean)
        return x_0f + x_1f + x_2f
  \<close>
  The means are one-dimensional already, so \<^verbatim>\<open>flatten\<close> returns them as they are.
\<close>

definition AMPSSCA_forward ::
  "numerics \<Rightarrow> (store \<Rightarrow> (nat list \<times> nat \<times> bool) layer_obj \<Rightarrow> tensor list \<Rightarrow> 'd \<Rightarrow> 'b \<Rightarrow> error + tensor list)
    \<Rightarrow> store \<Rightarrow> AMPSSCA \<Rightarrow> tensor list \<Rightarrow> 'd \<Rightarrow> 'b \<Rightarrow> error + fl list" where
  "AMPSSCA_forward ar SCACMPSLayer st self x_list down_lap_list incidencet_list =
     (case run_indexed (\<lambda>layer x_list. SCACMPSLayer st layer x_list down_lap_list incidencet_list)
             (items (ampssca_layers self)) [0..<nat (ampssca_n_layers self)] x_list of
        Inl e \<Rightarrow> Inl e
      | Inr x_list \<Rightarrow>
          (if length x_list < 1 then Inl IndexError else
          (case linear_forward ar st (ampssca_lin0 self) (x_list ! 0) of Inl e \<Rightarrow> Inl e | Inr x_0 \<Rightarrow>
          (if length x_list < 2 then Inl IndexError else
          (case linear_forward ar st (ampssca_lin1 self) (x_list ! 1) of Inl e \<Rightarrow> Inl e | Inr x_1 \<Rightarrow>
          (if length x_list < 3 then Inl IndexError else
          (case linear_forward ar st (ampssca_lin2 self) (x_list ! 2) of Inl e \<Rightarrow> Inl e | Inr x_2 \<Rightarrow>
             (let two_dimensional_cells_mean = cells_mean ar x_2;
                  one_dimensional_cells_mean = cells_mean ar x_1;
                  zero_dimensional_cells_mean = cells_mean ar x_0;
                  x_2f = two_dimensional_cells_mean;
                  x_1f = one_dimensional_cells_mean;
                  x_0f = zero_dimensional_cells_mean
              in vadd3 ar x_0f x_1f x_2f))))))))"

subsection \<open>CAN\<close>

record CAN =
  can_layers :: "(nat \<times> bool) layer_obj container"
  can_lin_0 :: linear_mod
  can_lin_1 :: linear_mod
  can_lin_2 :: linear_mod

text \<open>
  \<^verbatim>\<open>
    def __init__(self, in_channels_0, in_channels_1, in_channels_2, num_classes,
                 n_layers=2, att=False):
        super().__init__()
        layers = []
        for _ in range(n_layers):
            layers.append(CANLayer(channels=in_channels_1, att=att))
        self.layers = layers
        self.lin_0 = torch.nn.Linear(in_channels_0, num_classes)
        self.lin_1 = torch.nn.Linear(in_channels_1, num_classes)
        self.lin_2 = torch.nn.Linear(in_channels_2, num_classes)
  \<close>
\<close>

definition CAN_init :: "nat \<Rightarrow> nat \<Rightarrow> nat \<Rightarrow> nat \<Rightarrow> int \<Rightarrow> bool \<Rightarrow> CAN" where
  "CAN_init in_channels_0 in_channels_1 in_channels_2 num_classes n_layers att =
     \<lparr>can_layers = PyList (new_layers (in_channels_1, att) n_layers),
      can_lin_0 = \<lparr>lname = ''lin_0'', lpos = 0, in_features = in_channels_0, out_features = num_classes\<rparr>,
      can_lin_1 = \<lparr>lname = ''lin_1'', lpos = 0, in_features = in_channels_1, out_features = num_classes\<rparr>,
      can_lin_2 = \<lparr>lname = ''lin_2'', lpos = 0, in_features = in_channels_2, out_features = num_classes\<rparr>\<rparr>"

text \<open>
  \<^verbatim>\<open>
    def forward(self, x_0, x_1, x_2, down_laplacian, up_laplacian):
        for layer in self.layers:
            x_1 = layer(x_1, down_laplacian, up_laplacian)
        x_0 = self.lin_0(x_0)
        x_1 = self.lin_1(x_1)
        x_2 = self.lin_2(x_2)
        # Take the average of the 2D, 1D and 0D cell features. If they are NaN, convert them to 0.
        two_dimensional_cells_mean = torch.nanmean(x_2, dim=0)
        two_dimensional_cells_mean[torch.isnan(two_dimensional_cells_mean)] = 0
        one_dimensional_cells_mean = torch.nanmean(x_1, dim=0)
        one_dimensional_cells_mean[torch.isnan(one_dimensional_cells_mean)] = 0
        zero_dimensional_cells_mean = torch.nanmean(x_0, dim=0)
        zero_dimensional_cells_mean[torch.isnan(zero_dimensional_cells_mean)] = 0
        # Return the sum of the averages
        return (one_dimensional_cells_mean + zero_dimensional_cells_mean
                + two_dimensional_cells_mean)
  \<close>
\<close>

definition CAN_forward ::
  "numerics \<Rightarrow> (store \<Rightarrow> (nat \<times> bool) layer_obj \<Rightarrow> tensor \<Rightarrow> 'm \<Rightarrow> 'm \<Rightarrow> error + tensor)
    \<Rightarrow> store \<Rightarrow> CAN \<Rightarrow> tensor \<Rightarrow> tensor \<Rightarrow> tensor \<Rightarrow> 'm \<Rightarrow> 'm \<Rightarrow> error + fl list" where
  "CAN_forward ar CANLayer st self x_0 x_1 x_2 down_laplacian up_laplacian =
     (case run_layers (\<lambda>layer x_1. CANLayer st layer x_1 down_laplacian up_laplacian)
             (items (can_layers self)) x_1 of
        Inl e \<Rightarrow> Inl e
      | Inr x_1 \<Rightarrow>
          (case linear_forward ar st (can_lin_0 self) x_0 of Inl e \<Rightarrow> Inl e | Inr x_0 \<Rightarrow>
          (case linear_forward ar st (can_lin_1 self) x_1 of Inl e \<Rightarrow> Inl e | Inr x_1 \<Rightarrow>
          (case linear_forward ar st (can_lin_2 self) x_2 of Inl e \<Rightarrow> Inl e | Inr x_2 \<Rightarrow>
             (let two_dimensional_cells_mean = cells_mean ar x_2;
                  one_dimensional_cells_mean = cells_mean ar x_1;
                  zero_dimensional_cells_mean = cells_mean ar x_0
              in vadd3 ar one_dimensional_cells_mean zero_dimensional_cells_mean
                       two_dimensional_cells_mean)))))"

subsection \<open>HMPNN\<close>

record HMPNN =
  hmpnn_to_hidden_linear :: "linear_mod list"
  hmpnn_layers :: "(nat \<times> real \<times> real) layer_obj container"
  hmpnn_to_categories_linear :: linear_mod

text \<open>
  \<^verbatim>\<open>
    def __init__(self, in_features, hidden_features, num_classes, n_layer=2,
                 adjacency_dropout_rate=0.7, regular_dropout_rate=0.5):
        super().__init__()
        hidden_features = (in_features,) + hidden_features
        self.to_hidden_linear = torch.nn.Sequential(
            *[torch.nn.Linear(hidden_features[i], hidden_features[i + 1])
              for i in range(len(hidden_features) - 1)])
        self.layers = torch.nn.ModuleList(
            [HMPNNLayer(hidden_features[-1],
                        adjacency_dropout=adjacency_dropout_rate,
                        updating_dropout=regular_dropout_rate)
             for _ in range(n_layer)])
        self.to_categories_linear = torch.nn.Linear(hidden_features[-1], num_classes)
  \<close>
\<close>

definition HMPNN_init :: "nat \<Rightarrow> nat list \<Rightarrow> nat \<Rightarrow> int \<Rightarrow> real \<Rightarrow> real \<Rightarrow> HMPNN" where
  "HMPNN_init in_features' hidden_features' num_classes n_layer
              adjacency_dropout_rate regular_dropout_rate =
     (let hidden_features = in_features' # hidden_features'
      in \<lparr>hmpnn_to_hidden_linear =
             map (\<lambda>i. \<lparr>lname = ''to_hidden_linear'', lpos = i,
                        in_features = hidden_features ! i,
                        out_features = hidden_features ! (i + 1)\<rparr>)
                 [0..<length hidden_features - 1],
          hmpnn_layers = ModuleList
             (new_layers (last hidden_features, adjacency_dropout_rate, regular_dropout_rate)
                         n_layer),
          hmpnn_to_categories_linear =
             \<lparr>lname = ''to_categories_linear'', lpos = 0,
              in_features = last hidden_features, out_features = num_classes\<rparr>\<rparr>)"

text \<open>
  \<^verbatim>\<open>
    def forward(self, x_0, x_1, incidence_1):
        x_0 = self.to_hidden_linear(x_0)
        x_1 = self.to_hidden_linear(x_1)
        for layer in self.layers:
            x_0, x_1 = layer(x_0, x_1, incidence_1)
        return self.to_categories_linear(x_0)
  \<close>
  A \<^verbatim>\<open>Sequential\<close> calls its modules in order, each on the result of the one before.
\<close>

definition HMPNN_forward ::
  "numerics \<Rightarrow> (store \<Rightarrow> (nat \<times> real \<times> real) layer_obj \<Rightarrow> tensor \<times> tensor \<Rightarrow> 'm \<Rightarrow> error + tensor \<times> tensor)
    \<Rightarrow> store \<Rightarrow> HMPNN \<Rightarrow> tensor \<Rightarrow> tensor \<Rightarrow> 'm \<Rightarrow> error + tensor" where
  "HMPNN_forward ar HMPNNLayer st self x_0 x_1 incidence_1 =
     (case run_layers (linear_forward ar st) (hmpnn_to_hidden_linear self) x_0 of Inl e \<Rightarrow> Inl e | Inr x_0 \<Rightarrow>
     (case run_layers (linear_forward ar st) (hmpnn_to_hidden_linear self) x_1 of Inl e \<Rightarrow> Inl e | Inr x_1 \<Rightarrow>
     (case run_layers (\<lambda>layer xs. HMPNNLayer st layer xs incidence_1)
             (items (hmpnn_layers self)) (x_0, x_1) of
        Inl e \<Rightarrow> Inl e
      | Inr (x_0, x_1) \<Rightarrow> linear_forward ar st (hmpnn_to_categories_linear self) x_0)))"

subsection \<open>\<^verbatim>\<open>model.parameters()\<close> and \<^verbatim>\<open>optimizer.step()\<close>\<close>

text \<open>
  Assigning a \<^verbatim>\<open>torch.nn.Module\<close> (a \<^verbatim>\<open>Linear\<close>, a \<^verbatim>\<open>Sequential\<close>, a \<^verbatim>\<open>ModuleList\<close>) to an
  attribute registers it as a submodule; a Python list is an ordinary attribute.
  \<^verbatim>\<open>parameters()\<close> yields the parameter tensors of the registered submodules, in the order
  of registration.  \<open>np args\<close> is the number of parameter tensors of a layer built with
  constructor arguments \<open>args\<close>.
\<close>

definition linear_params :: "linear_mod \<Rightarrow> pid list" where
  "linear_params lin = [LinearP (lname lin) (lpos lin) 0, LinearP (lname lin) (lpos lin) 1]"

definition layer_params :: "('a \<Rightarrow> nat) \<Rightarrow> 'a layer_obj \<Rightarrow> pid list" where
  "layer_params np l = map (LayerP (obj_id l)) [0..<np (ctor_args l)]"

fun container_params :: "('a \<Rightarrow> nat) \<Rightarrow> 'a layer_obj container \<Rightarrow> pid list" where
  "container_params np (PyList ls) = []"
| "container_params np (ModuleList ls) = concat (map (layer_params np) ls)"

definition SCoNeNN_parameters :: "(nat \<Rightarrow> nat) \<Rightarrow> SCoNeNN \<Rightarrow> pid list" where
  "SCoNeNN_parameters np self =
     linear_params (scone_linear self) @ container_params np (scone_layers self)"

definition SCN2_parameters :: "(nat \<times> nat \<times> nat \<Rightarrow> nat) \<Rightarrow> SCN2 \<Rightarrow> pid list" where
  "SCN2_parameters np self =
     container_params np (scn2_layers self) @ linear_params (scn2_lin_0 self)
     @ linear_params (scn2_lin_1 self) @ linear_params (scn2_lin_2 self)"

definition CAN_parameters :: "(nat \<times> bool \<Rightarrow> nat) \<Rightarrow> CAN \<Rightarrow> pid list" where
  "CAN_parameters np self =
     container_params np (can_layers self) @ linear_params (can_lin_0 self)
     @ linear_params (can_lin_1 self) @ linear_params (can_lin_2 self)"

text \<open>
  \<^verbatim>\<open>optimizer = torch.optim.Adam(model.parameters(), lr=...)\<close> keeps the tensors it was
  given; \<^verbatim>\<open>optimizer.step()\<close> writes new values into these tensors and into no other.  The
  new values (the gradients and Adam's update rule) are a parameter: \<open>update st p\<close>.
\<close>

definition optimizer_step :: "(store \<Rightarrow> pid \<Rightarrow> nat \<Rightarrow> nat \<Rightarrow> fl) \<Rightarrow> pid list \<Rightarrow> store \<Rightarrow> store" where
  "optimizer_step update params st = (\<lambda>p. if p \<in> set params then update st p else st p)"

text \<open>
  The effect of a run on the parameter store: of the events of a training cell only a
  training step, through its \<^verbatim>\<open>optimizer.step()\<close>, writes parameter values
  (\<^verbatim>\<open>zero_grad\<close> and \<^verbatim>\<open>backward\<close> write gradients, the forward passes and reports
  write nothing).  The update may differ from step to step.
\<close>

fun apply_event :: "(nat \<Rightarrow> nat \<Rightarrow> store \<Rightarrow> pid \<Rightarrow> nat \<Rightarrow> nat \<Rightarrow> fl) \<Rightarrow> pid list \<Rightarrow> store \<Rightarrow> event \<Rightarrow> store" where
  "apply_event update params st (TrainStep e k) = optimizer_step (update e k) params st"
| "apply_event update params st _ = st"

definition run_training :: "(nat \<Rightarrow> nat \<Rightarrow> store \<Rightarrow> pid \<Rightarrow> nat \<Rightarrow> nat \<Rightarrow> fl) \<Rightarrow> pid list \<Rightarrow> event list \<Rightarrow> store \<Rightarrow> store" where
  "run_training update params tr st = foldl (apply_event update params) st tr"

section \<open>The reported training loss\<close>

text \<open>
  \<^verbatim>\<open>
    epoch_loss = []
    for ... in zip(...train...):
        ...
        loss = loss_fn(y_hat, y)
        loss.backward()
        optimizer.step()
        epoch_loss.append(loss.item())
    print(f"Epoch: {epoch_i} loss: {np.mean(epoch_loss):.4f}", flush=True)
  \<close>
  \<open>loss_item e k\<close> is the value \<^verbatim>\<open>loss.item()\<close> returns at step \<open>k\<close> of epoch \<open>e\<close>; it is
  computed by the library from the parameters as they are before that step's update.
  \<open>mean\<close> is what \<^verbatim>\<open>np.mean\<close> computes on a list that is not empty (a float sum and a float
  division, a function of the library); on an empty list \<^verbatim>\<open>np.mean\<close> returns NaN (\<open>None\<close>
  here).
\<close>

definition epoch_loss :: "(nat \<Rightarrow> nat \<Rightarrow> real) \<Rightarrow> nat \<Rightarrow> nat \<Rightarrow> real list" where
  "epoch_loss loss_item n_train e = map (loss_item e) [0..<n_train]"

definition np_mean :: "(real list \<Rightarrow> real) \<Rightarrow> real list \<Rightarrow> real option" where
  "np_mean mean xs = (if xs = [] then None else Some (mean xs))"

text \<open>
  The format specification \<^verbatim>\<open>:.4f\<close> prints the decimal with four digits after the point
  that is nearest to the value, and of two equally near ones the one with the even last
  digit.  SCoNe, SCN2, CAN (and HMPNN) print the loss this way; AMPSSCA prints the mean as
  it is, \<^verbatim>\<open>{np.mean(epoch_loss)}\<close>.
\<close>

definition round_half_even :: "real \<Rightarrow> int" where
  "round_half_even x =
     (let f = \<lfloor>x\<rfloor>; d = x - of_int f
      in if d < 1 / 2 then f else if 1 / 2 < d then f + 1 else if even f then f else f + 1)"

definition fmt4 :: "real \<Rightarrow> real" where
  "fmt4 x = of_int (round_half_even (x * 10000)) / 10000"

definition fmt_full :: "real \<Rightarrow> real" where
  "fmt_full x = x"

text \<open>The value printed after \<^verbatim>\<open>loss:\<close>, epoch by epoch.\<close>

definition reported_losses ::
  "(real \<Rightarrow> real) \<Rightarrow> (real list \<Rightarrow> real) \<Rightarrow> (nat \<Rightarrow> nat \<Rightarrow> real) \<Rightarrow> nat \<Rightarrow> nat \<Rightarrow> real option list" where
  "reported_losses fmt mean loss_item num_epochs n_train =
     map (\<lambda>e. map_option fmt (np_mean mean (epoch_loss loss_item n_train e))) [1..<num_epochs + 1]"

text \<open>Each reported loss is below the one before it; a comparison with NaN is false.\<close>

fun decreasing :: "real option list \<Rightarrow> bool" where
  "decreasing (Some a # Some b # r) = (b < a \<and> decreasing (Some b # r))"
| "decreasing (a # b # r) = False"
| "decreasing _ = True"

text \<open>
  The output the SCoNe notebook records under its training cell (one step per epoch, six
  epochs):
  \<^verbatim>\<open>
    Epoch: 1 loss: 0.7211 Train_acc: 0.5323
    Epoch: 2 loss: 0.7185 Train_acc: 0.5484
    Epoch: 3 loss: 0.7205 Train_acc: 0.5484
    Epoch: 4 loss: 0.7210 Train_acc: 0.5484
    Epoch: 5 loss: 0.7205 Train_acc: 0.5484
    Epoch: 6 loss: 0.7194 Train_acc: 0.5484
  \<close>
  \<open>scone_recorded_loss\<close> is a run with step losses that print as recorded.  The mean of a
  list of one float is that float (\<open>mean_of_one\<close>).
\<close>

definition scone_recorded_loss :: "nat \<Rightarrow> nat \<Rightarrow> real" where
  "scone_recorded_loss e k =
     (if e = 1 then 7211 / 10000 else if e = 2 then 7185 / 10000
      else if e = 3 then 7205 / 10000 else if e = 4 then 7210 / 10000
      else if e = 5 then 7205 / 10000 else 7194 / 10000)"

text \<open>
  A run of two epochs of two steps with losses 0.72113 and 0.72115, then 0.72112 and
  0.72110.
\<close>

definition close_losses :: "nat \<Rightarrow> nat \<Rightarrow> real" where
  "close_losses e k =
     (if e = 1 then (if k = 0 then 72113 / 100000 else 72115 / 100000)
      else (if k = 0 then 72112 / 100000 else 72110 / 100000))"

definition exact_mean :: "real list \<Rightarrow> real" where
  "exact_mean xs = sum_list xs / real (length xs)"

text \<open>
  \<^verbatim>\<open>np.mean\<close> sums the floats in an order that depends only on the length of the list and
  divides by the length; float addition and division round monotonically.  So the mean of
  a list is at most the mean of a list of the same length that is entry by entry at least
  as large.
\<close>

definition monotone_mean :: "(real list \<Rightarrow> real) \<Rightarrow> bool" where
  "monotone_mean mean \<longleftrightarrow> (\<forall>xs ys. list_all2 (\<le>) xs ys \<longrightarrow> mean xs \<le> mean ys)"

section \<open>Neighbourhood matrices\<close>

text \<open>
  The notebooks build their matrices with methods of the complex objects the dataset
  loaders return:
  \<^verbatim>\<open>
    up_lap1 = dataset.up_laplacian_matrix(rank=1)                 # SCoNe, CAN
    down_lap1 = dataset.down_laplacian_matrix(rank=1)             # SCoNe, CAN, AMPSSCA
    down_lap2 = sc.down_laplacian_matrix(rank=2)                  # AMPSSCA
    laplacian_r = x.normalized_laplacian_matrix(rank=r)           # SCN2, r = 0, 1, 2
    up_lap1 = torch.from_numpy(up_lap1.todense()).to_sparse()     # each of them
  \<close>
  The complex classes are not part of the repository's sources.
\<close>

text \<open>
  Modelled from the spec: the complex object behind \<^verbatim>\<open>dataset\<close>, \<^verbatim>\<open>sc\<close>, \<^verbatim>\<open>x\<close> and
  \<^verbatim>\<open>cell_complex\<close> (missing: the complex classes).  "A combinatorial structure generalizing
  graphs with higher-dimensional cells (edges, faces)": the highest rank, the number of
  cells of each rank, and which cells of rank \<open>r - 1\<close> bound which cells of rank \<open>r\<close>, with
  orientation sign.
\<close>

record complex =
  dim :: nat
  n_cells :: "nat \<Rightarrow> nat"
  boundary :: "nat \<Rightarrow> nat \<Rightarrow> nat \<Rightarrow> int"

text \<open>
  Modelled from the spec: the incidence matrix \<open>B\<^sub>r\<close> (missing: \<^verbatim>\<open>incidence_matrix\<close>), "of
  shape \<open>n_nodes \<times> n_edges\<close>" for rank 1 in the notebooks' words: one row per cell of rank
  \<open>r - 1\<close>, one column per cell of rank \<open>r\<close>.
\<close>

definition incidence_matrix :: "complex \<Rightarrow> nat \<Rightarrow> error + tensor" where
  "incidence_matrix K r =
     (if 1 \<le> r \<and> r \<le> dim K
      then Inr \<lparr>nrows = n_cells K (r - 1), ncols = n_cells K r,
                entry = (\<lambda>i j. Num (real_of_int (boundary K r i j)))\<rparr>
      else Inl ValueError)"

text \<open>Matrix transpose, product and sum; the library rejects shapes that do not fit.\<close>

definition transpose_t :: "tensor \<Rightarrow> tensor" where
  "transpose_t A = \<lparr>nrows = ncols A, ncols = nrows A, entry = (\<lambda>i j. entry A j i)\<rparr>"

definition matmul :: "tensor \<Rightarrow> tensor \<Rightarrow> error + tensor" where
  "matmul A B =
     (if ncols A \<noteq> nrows B then Inl (LibraryError ''dimension mismatch'')
      else Inr \<lparr>nrows = nrows A, ncols = ncols B,
                entry = (\<lambda>i j. fsum (map (\<lambda>k. fmul (entry A i k) (entry B k j)) [0..<ncols A]))\<rparr>)"

definition matadd :: "tensor \<Rightarrow> tensor \<Rightarrow> error + tensor" where
  "matadd A B =
     (if nrows A \<noteq> nrows B \<or> ncols A \<noteq> ncols B then Inl (LibraryError ''inconsistent shapes'')
      else Inr \<lparr>nrows = nrows A, ncols = ncols A,
                entry = (\<lambda>i j. fadd (entry A i j) (entry B i j))\<rparr>)"

text \<open>
  Modelled from the spec: the up and down Laplacians (missing: \<^verbatim>\<open>up_laplacian_matrix\<close>,
  \<^verbatim>\<open>down_laplacian_matrix\<close>), "linear operators encoding adjacency between cells of adjacent
  dimension": two cells of rank \<open>r\<close> are up-adjacent through the cells of rank \<open>r + 1\<close> they
  both bound, \<open>B\<^sub>r\<^sub>+\<^sub>1 B\<^sub>r\<^sub>+\<^sub>1\<^sup>T\<close>, and down-adjacent through the cells of rank \<open>r - 1\<close> that bound
  both, \<open>B\<^sub>r\<^sup>T B\<^sub>r\<close>.  There is no up Laplacian at the highest rank and no down Laplacian at
  rank 0.
\<close>

definition up_laplacian_matrix :: "complex \<Rightarrow> nat \<Rightarrow> error + tensor" where
  "up_laplacian_matrix K r =
     (case incidence_matrix K (r + 1) of
        Inl e \<Rightarrow> Inl e
      | Inr B \<Rightarrow> matmul B (transpose_t B))"

definition down_laplacian_matrix :: "complex \<Rightarrow> nat \<Rightarrow> error + tensor" where
  "down_laplacian_matrix K r =
     (case incidence_matrix K r of
        Inl e \<Rightarrow> Inl e
      | Inr B \<Rightarrow> matmul (transpose_t B) B)"

text \<open>
  Modelled from the spec: the normalized Laplacian (missing:
  \<^verbatim>\<open>normalized_laplacian_matrix\<close>): the sum of the up and the down Laplacian of the rank,
  where both exist, with its entries rescaled; the rescaling \<open>scale\<close> is a parameter.
\<close>

definition hodge_laplacian_matrix :: "complex \<Rightarrow> nat \<Rightarrow> error + tensor" where
  "hodge_laplacian_matrix K r =
     (if r = 0 then up_laplacian_matrix K 0
      else if r < dim K
      then (case up_laplacian_matrix K r of
              Inl e \<Rightarrow> Inl e
            | Inr U \<Rightarrow> (case down_laplacian_matrix K r of
                           Inl e \<Rightarrow> Inl e
                         | Inr D \<Rightarrow> matadd U D))
      else down_laplacian_matrix K r)"

definition normalized_laplacian_matrix ::
  "(tensor \<Rightarrow> nat \<Rightarrow> nat \<Rightarrow> fl) \<Rightarrow> complex \<Rightarrow> nat \<Rightarrow> error + tensor" where
  "normalized_laplacian_matrix scale K r =
     (case hodge_laplacian_matrix K r of
        Inl e \<Rightarrow> Inl e
      | Inr L \<Rightarrow> Inr \<lparr>nrows = nrows L, ncols = ncols L, entry = scale L\<rparr>)"

text \<open>
  \<^verbatim>\<open>torch.from_numpy(m.todense()).to_sparse()\<close> changes the storage of a matrix, not its
  shape or entries.
\<close>

definition to_sparse_tensor :: "error + tensor \<Rightarrow> error + tensor" where
  "to_sparse_tensor m = (case m of Inl e \<Rightarrow> Inl e | Inr t \<Rightarrow> Inr t)"

datatype laplacian_kind = Up | Down | Normalized

text \<open>A Laplacian as a notebook builds it: the method call, then the conversion.\<close>

fun build_laplacian ::
  "(tensor \<Rightarrow> nat \<Rightarrow> nat \<Rightarrow> fl) \<Rightarrow> laplacian_kind \<Rightarrow> complex \<Rightarrow> nat \<Rightarrow> error + tensor" where
  "build_laplacian scale Up K r = to_sparse_tensor (up_laplacian_matrix K r)"
| "build_laplacian scale Down K r = to_sparse_tensor (down_laplacian_matrix K r)"
| "build_laplacian scale Normalized K r = to_sparse_tensor (normalized_laplacian_matrix scale K r)"

section \<open>Layers called in sequence\<close>

text \<open>
  What it means that a list of layers is called in sequence on \<open>x\<close> with result \<open>y\<close>:
  there are intermediate values, the first the input and the last the result, and each
  layer, called on the value before it, returns the value after it.
\<close>

definition fed_in_sequence :: "('l \<Rightarrow> 'x \<Rightarrow> error + 'x) \<Rightarrow> 'l list \<Rightarrow> 'x \<Rightarrow> 'x \<Rightarrow> bool" where
  "fed_in_sequence call ls x y \<longleftrightarrow>
     (\<exists>xs. length xs = length ls + 1 \<and> xs ! 0 = x \<and> xs ! length ls = y
        \<and> (\<forall>i<length ls. call (ls ! i) (xs ! i) = Inr (xs ! (i + 1))))"

section \<open>The order of a run\<close>

lemma until_raise_id: "\<forall>e\<in>set tr. \<not> is_raise e \<Longrightarrow> until_raise tr = tr"
  by (induction tr rule: until_raise.induct) auto

lemma in_loop_not_raise: "in_loop x \<Longrightarrow> \<not> is_raise x"
  by (cases x) auto

lemma epoch_events_in_loop:
  "0 < ti \<Longrightarrow> 0 < ns \<Longrightarrow> x \<in> set (epoch_events ti nt ns e) \<Longrightarrow> in_loop x"
  by (auto simp: epoch_events_def test_block_def split: if_splits)

lemma training_loop_in_loop:
  "0 < ti \<Longrightarrow> 0 < ns \<Longrightarrow> x \<in> set (training_loop ti n nt ns) \<Longrightarrow> in_loop x"
  by (auto simp: training_loop_def dest: epoch_events_in_loop)

lemma training_loop_no_raise:
  "0 < ti \<Longrightarrow> 0 < ns \<Longrightarrow> \<forall>x\<in>set (training_loop ti n nt ns). \<not> is_raise x"
  using training_loop_in_loop in_loop_not_raise by blast

lemma hmpnn_loop_in_loop: "x \<in> set (hmpnn_loop n) \<Longrightarrow> in_loop x"
  by (auto simp: hmpnn_loop_def hmpnn_epoch_def)

lemma setup_ok_loop_append:
  "\<forall>x\<in>set xs. in_loop x \<Longrightarrow> setup_ok 3 (xs @ ys) = setup_ok 3 ys"
proof (induction xs)
  case Nil
  then show ?case by simp
next
  case (Cons x xs)
  then show ?case by (cases x) auto
qed

lemma setup_ok_loop: "\<forall>x\<in>set xs. in_loop x \<Longrightarrow> setup_ok 3 xs"
  using setup_ok_loop_append[of xs "[]"] by simp

lemma scone_run: "scone_notebook = scone_cells"
  unfolding scone_notebook_def scone_cells_def
  by (rule until_raise_id) (use training_loop_no_raise[of 2 1 6 1] in auto)

lemma scn2_run: "0 < ns \<Longrightarrow> scn2_notebook nt ns = scn2_cells nt ns"
  unfolding scn2_notebook_def scn2_cells_def
  by (rule until_raise_id) (use training_loop_no_raise[of 2 ns 8 nt] in auto)

lemma ampssca_run: "0 < ns \<Longrightarrow> ampssca_notebook nt ns = ampssca_cells nt ns"
  unfolding ampssca_notebook_def ampssca_cells_def
  by (rule until_raise_id) (use training_loop_no_raise[of 1 ns 6 nt] in auto)

lemma can_run: "0 < ns \<Longrightarrow> can_notebook nt ns = can_cells nt ns"
  unfolding can_notebook_def can_cells_def
  by (rule until_raise_id) (use training_loop_no_raise[of 2 ns 10 nt] in auto)

lemma hmpnn_run: "hmpnn_notebook = hmpnn_cells"
  unfolding hmpnn_notebook_def hmpnn_cells_def
  by (rule until_raise_id) (use hmpnn_loop_in_loop[of _ 100] in_loop_not_raise in auto)

lemma scone_setup: "setup_ok 0 scone_notebook"
  using setup_ok_loop[of "training_loop 2 6 1 1"] training_loop_in_loop[of 2 1 _ 6 1]
  by (simp add: scone_run scone_cells_def)

lemma scn2_setup: "0 < ns \<Longrightarrow> setup_ok 0 (scn2_notebook nt ns)"
  using setup_ok_loop[of "training_loop 2 8 nt ns"] training_loop_in_loop[of 2 ns _ 8 nt]
  by (simp add: scn2_run scn2_cells_def)

lemma ampssca_setup: "0 < ns \<Longrightarrow> setup_ok 0 (ampssca_notebook nt ns)"
  using setup_ok_loop[of "training_loop 1 6 nt ns"] training_loop_in_loop[of 1 ns _ 6 nt]
  by (simp add: ampssca_run ampssca_cells_def)

lemma can_setup: "0 < ns \<Longrightarrow> setup_ok 0 (can_notebook nt ns)"
proof -
  assume ns: "0 < ns"
  have il: "\<forall>x\<in>set (training_loop 2 10 nt ns). in_loop x"
    using training_loop_in_loop[of 2 ns _ 10 nt] ns by simp
  show ?thesis
    using setup_ok_loop_append[OF il, of "[Instantiate] @ training_loop 2 10 nt ns"]
      setup_ok_loop[OF il] ns
    by (simp add: can_run can_cells_def)
qed

lemma hmpnn_setup: "setup_ok 0 hmpnn_notebook"
proof -
  have il: "\<forall>x\<in>set (hmpnn_loop 100). in_loop x"
    using hmpnn_loop_in_loop by blast
  show ?thesis
    using setup_ok_loop_append[OF il, of "[TestEval 100 0, ReportTest 100]"]
    by (simp add: hmpnn_run hmpnn_cells_def)
qed

lemma epoch_keys:
  "0 < ti \<Longrightarrow> 0 < ns \<Longrightarrow> x \<in> set (epoch_events ti nt ns e)
    \<Longrightarrow> 4 * e \<le> loop_key x \<and> loop_key x < 4 * e + 4"
  by (auto simp: epoch_events_def test_block_def split: if_splits)

lemma sorted_map_const: "sorted (map (\<lambda>x. (c::nat)) xs)"
  by (induction xs) auto

lemma sorted_epoch:
  "0 < ti \<Longrightarrow> 0 < ns \<Longrightarrow> sorted (map loop_key (epoch_events ti nt ns e))"
  by (auto simp: epoch_events_def test_block_def sorted_append comp_def sorted_map_const)

lemma sorted_concat_epochs:
  assumes "0 < ti" "0 < ns" "sorted_wrt (<) es"
  shows "sorted (map loop_key (concat (map (epoch_events ti nt ns) es)))"
  using assms(3)
proof (induction es)
  case Nil
  then show ?case by simp
next
  case (Cons e es)
  have "loop_key x \<le> loop_key y"
    if "x \<in> set (epoch_events ti nt ns e)" "e' \<in> set es" "y \<in> set (epoch_events ti nt ns e')"
    for x y e'
  proof -
    have "e < e'" using Cons.prems that(2) by auto
    moreover have "loop_key x < 4 * e + 4" using epoch_keys[OF assms(1,2) that(1)] by simp
    moreover have "4 * e' \<le> loop_key y" using epoch_keys[OF assms(1,2) that(3)] by simp
    ultimately show ?thesis by linarith
  qed
  then show ?case using Cons sorted_epoch[OF assms(1,2), of nt e]
    by (auto simp: sorted_append)
qed

lemma sorted_training_loop:
  "0 < ti \<Longrightarrow> 0 < ns \<Longrightarrow> sorted (map loop_key (training_loop ti n nt ns))"
  unfolding training_loop_def by (rule sorted_concat_epochs) (simp_all del: upt_Suc)

lemma TestEval_in_loop_iff:
  "0 < ti \<Longrightarrow> (TestEval e k \<in> set (training_loop ti n nt ns)
     \<longleftrightarrow> 1 \<le> e \<and> e \<le> n \<and> e mod ti = 0 \<and> k < ns)"
  by (auto simp: training_loop_def epoch_events_def test_block_def)

lemma map_filter_append:
  "List.map_filter f (xs @ ys) = List.map_filter f xs @ List.map_filter f ys"
  by (simp add: List.map_filter_def)

lemma map_filter_all_same:
  "\<forall>x\<in>set xs. f x = Some c \<Longrightarrow> List.map_filter f xs = replicate (length xs) c"
  by (induction xs) (auto simp: List.map_filter_def)

lemma sorted_replicate_nat: "sorted (replicate n (c::nat))"
  by (induction n) auto

lemma hmpnn_loop_stage: "\<forall>x\<in>set (hmpnn_loop n). pipeline_stage x = Some 3"
  by (auto simp: hmpnn_loop_def hmpnn_epoch_def)

lemma hmpnn_linear: "linear_pipeline hmpnn_notebook"
proof -
  have "List.map_filter pipeline_stage hmpnn_notebook
      = [0, 1, 2] @ replicate (length (hmpnn_loop 100)) 3 @ [4, 4]"
    unfolding hmpnn_run hmpnn_cells_def map_filter_append map_filter_all_same[OF hmpnn_loop_stage]
    by (simp add: List.map_filter_simps)
  then show ?thesis
    by (simp add: linear_pipeline_def sorted_append sorted_replicate_nat)
qed

lemma not_linear_pipeline:
  "pipeline_stage x = Some i \<Longrightarrow> pipeline_stage y = Some j \<Longrightarrow> j < i
    \<Longrightarrow> \<not> linear_pipeline (a @ x # b @ y # c)"
  by (auto simp: linear_pipeline_def map_filter_append sorted_append List.map_filter_def)

lemma upt_split_epoch:
  assumes "1 \<le> e" "e < n"
  shows "[1..<n + 1] = [1..<e] @ e # Suc e # [e + 2..<n + 1]"
proof -
  have "[1..<n + 1] = [1..<e] @ [e..<n + 1]"
    using upt_add_eq_append[of 1 e "n + 1 - e"] assms by simp
  moreover have "[e..<n + 1] = e # Suc e # [e + 2..<n + 1]"
    using assms by (simp add: upt_conv_Cons del: upt_Suc)
  ultimately show ?thesis by simp
qed

lemma eval_inside_loop_not_linear:
  assumes "0 < ti" "0 < ns" "1 \<le> e" "e < n" "e mod ti = 0"
  shows "\<not> linear_pipeline (pre @ training_loop ti n nt ns)"
proof -
  let ?ep = "epoch_events ti nt ns"
  have "training_loop ti n nt ns
      = concat (map ?ep [1..<e]) @ ?ep e @ ?ep (Suc e) @ concat (map ?ep [e + 2..<n + 1])"
    unfolding training_loop_def upt_split_epoch[OF assms(3,4)] by simp
  moreover have "?ep e = (map (TrainStep e) [0..<nt] @ [ReportLoss e] @ map (TestEval e) [0..<ns])
      @ [ReportTest e]"
    using assms by (simp add: epoch_events_def test_block_def)
  moreover have "?ep (Suc e) = map (TrainStep (Suc e)) [0..<nt] @ ReportLoss (Suc e)
      # test_block ti ns (Suc e)"
    by (simp add: epoch_events_def)
  ultimately have eq: "pre @ training_loop ti n nt ns
      = (pre @ concat (map ?ep [1..<e]) @ map (TrainStep e) [0..<nt] @ [ReportLoss e]
           @ map (TestEval e) [0..<ns])
        @ ReportTest e # map (TrainStep (Suc e)) [0..<nt]
        @ ReportLoss (Suc e) # (test_block ti ns (Suc e) @ concat (map ?ep [e + 2..<n + 1]))"
    by (simp del: upt_Suc)
  show ?thesis
    unfolding eq by (rule not_linear_pipeline[of _ 4 _ 3]) simp_all
qed

lemma not_linear_append: "\<not> linear_pipeline a \<Longrightarrow> \<not> linear_pipeline (a @ b)"
  by (auto simp: linear_pipeline_def map_filter_append sorted_append)

lemma occurs_before_split:
  "x \<notin> set p \<Longrightarrow> occurs_before x y (p @ x # q) = (y \<in> set q)"
  by (induction p) auto

lemma occurs_before_append:
  "occurs_before x y a \<Longrightarrow> occurs_before x y (a @ b)"
  by (induction a) auto

lemma occurs_before_mem: "occurs_before x y tr \<Longrightarrow> x \<in> set tr"
  by (induction tr) (auto split: if_splits)

lemma TestEval_epoch:
  "TestEval e k \<in> set (epoch_events ti nt ns e') \<Longrightarrow> e' = e"
  by (auto simp: epoch_events_def test_block_def split: if_splits)

lemma upt_split_at: "k < n \<Longrightarrow> [0..<n] = [0..<k] @ k # [Suc k..<n]"
  using upt_add_eq_append[of 0 k "n - k"] by (simp add: upt_conv_Cons del: upt_Suc)

lemma test_before_next_epoch:
  assumes "0 < ti" "1 \<le> e" "e < n" "e mod ti = 0" "k < ns" "j < nt"
    and pre: "TestEval e k \<notin> set pre"
  shows "occurs_before (TestEval e k) (TrainStep (Suc e) j) (pre @ training_loop ti n nt ns)"
proof -
  let ?ep = "epoch_events ti nt ns"
  have tl: "training_loop ti n nt ns
      = concat (map ?ep [1..<e]) @ ?ep e @ ?ep (Suc e) @ concat (map ?ep [e + 2..<n + 1])"
    unfolding training_loop_def upt_split_epoch[OF assms(2,3)] by simp
  have ns: "0 < ns" using assms(5) by simp
  have ep: "?ep e = (map (TrainStep e) [0..<nt] @ [ReportLoss e] @ map (TestEval e) [0..<k])
      @ TestEval e k # (map (TestEval e) [Suc k..<ns] @ [ReportTest e])"
    using assms(1,4) ns upt_split_at[OF assms(5)]
    by (simp add: epoch_events_def test_block_def del: upt_Suc)
  have nx: "?ep (Suc e) = map (TrainStep (Suc e)) [0..<nt] @ ReportLoss (Suc e)
      # test_block ti ns (Suc e)"
    by (simp add: epoch_events_def)
  let ?p = "pre @ concat (map ?ep [1..<e]) @ map (TrainStep e) [0..<nt] @ [ReportLoss e]
      @ map (TestEval e) [0..<k]"
  let ?q = "(map (TestEval e) [Suc k..<ns] @ [ReportTest e]) @ ?ep (Suc e)
      @ concat (map ?ep [e + 2..<n + 1])"
  have eq: "pre @ training_loop ti n nt ns = ?p @ TestEval e k # ?q"
    unfolding tl ep by simp
  have np: "TestEval e k \<notin> set ?p"
    using pre by (auto dest: TestEval_epoch)
  have "TrainStep (Suc e) j \<in> set (?ep (Suc e))"
    using assms(6) unfolding nx by simp
  then have q: "TrainStep (Suc e) j \<in> set ?q" by simp
  show ?thesis unfolding eq occurs_before_split[OF np] using q .
qed

lemma TestEval_hmpnn_loop: "TestEval e k \<notin> set (hmpnn_loop n)"
  by (auto simp: hmpnn_loop_def hmpnn_epoch_def)

lemma occurs_before_hmpnn:
  "occurs_before (TestEval 100 0) x hmpnn_notebook \<longleftrightarrow> x = ReportTest 100"
proof -
  have eq: "hmpnn_notebook = ([LoadData, BuildMatrices, DefineModel, Instantiate] @ hmpnn_loop 100)
      @ TestEval 100 0 # [ReportTest 100]"
    by (simp add: hmpnn_run hmpnn_cells_def)
  have np: "TestEval 100 0 \<notin> set ([LoadData, BuildMatrices, DefineModel, Instantiate] @ hmpnn_loop 100)"
    using TestEval_hmpnn_loop by simp
  show ?thesis unfolding eq occurs_before_split[OF np] by auto
qed


lemma scone_test_before:
  "1 \<le> e \<and> e < 6 \<and> e mod 2 = 0
    \<longrightarrow> occurs_before (TestEval e 0) (TrainStep (Suc e) 0) scone_notebook"
  using test_before_next_epoch[where ti = 2 and e = e and n = 6 and k = 0 and ns = 1 and j = 0
      and nt = 1
      and pre = "[LoadData, BuildMatrices, PrepareInputs, SplitData, DefineModel, Instantiate]"]
  by (simp add: scone_run scone_cells_def)

lemma scn2_test_before:
  "k < ns \<Longrightarrow> j < nt \<Longrightarrow> 1 \<le> e \<and> e < 8 \<and> e mod 2 = 0
    \<longrightarrow> occurs_before (TestEval e k) (TrainStep (Suc e) j) (scn2_notebook nt ns)"
  using test_before_next_epoch[where ti = 2 and e = e and n = 8 and k = k and ns = ns and j = j
      and nt = nt and pre = "[LoadData, BuildMatrices, DefineModel, Instantiate, SplitData]"]
    scn2_run[of ns nt]
  by (simp add: scn2_cells_def)

lemma ampssca_test_before:
  "k < ns \<Longrightarrow> j < nt \<Longrightarrow> 1 \<le> e \<and> e < 6
    \<longrightarrow> occurs_before (TestEval e k) (TrainStep (Suc e) j) (ampssca_notebook nt ns)"
  using test_before_next_epoch[where ti = 1 and e = e and n = 6 and k = k and ns = ns and j = j
      and nt = nt and pre = "[LoadData, BuildMatrices, DefineModel, SplitData, Instantiate]"]
    ampssca_run[of ns nt]
  by (simp add: ampssca_cells_def)

lemma can_test_before:
  assumes "k < ns" "j < nt"
  shows "1 \<le> e \<and> e < 10 \<and> e mod 2 = 0
    \<longrightarrow> occurs_before (TestEval e k) (TrainStep (Suc e) j) (can_notebook nt ns)"
proof
  assume e: "1 \<le> e \<and> e < 10 \<and> e mod 2 = 0"
  let ?pre = "[LoadData, BuildMatrices, BuildMatrices, DefineModel, Instantiate, SplitData]"
  have "occurs_before (TestEval e k) (TrainStep (Suc e) j) (?pre @ training_loop 2 10 nt ns)"
    using test_before_next_epoch[where ti = 2 and e = e and n = 10 and k = k and ns = ns
        and j = j and nt = nt and pre = ?pre] assms e by simp
  from occurs_before_append[OF this, of "[Instantiate] @ training_loop 2 10 nt ns"]
  show "occurs_before (TestEval e k) (TrainStep (Suc e) j) (can_notebook nt ns)"
    using can_run[of ns nt] assms(1) by (simp add: can_cells_def)
qed

lemma scone_not_linear: "\<not> linear_pipeline scone_notebook"
  using eval_inside_loop_not_linear[of 2 1 2 6
          "[LoadData, BuildMatrices, PrepareInputs, SplitData, DefineModel, Instantiate]" 1]
  by (simp add: scone_run scone_cells_def)

lemma scn2_not_linear: "0 < ns \<Longrightarrow> \<not> linear_pipeline (scn2_notebook nt ns)"
  using eval_inside_loop_not_linear[of 2 ns 2 8
          "[LoadData, BuildMatrices, DefineModel, Instantiate, SplitData]" nt]
  by (simp add: scn2_run scn2_cells_def)

lemma ampssca_not_linear: "0 < ns \<Longrightarrow> \<not> linear_pipeline (ampssca_notebook nt ns)"
  using eval_inside_loop_not_linear[of 1 ns 1 6
          "[LoadData, BuildMatrices, DefineModel, SplitData, Instantiate]" nt]
  by (simp add: ampssca_run ampssca_cells_def)

lemma can_not_linear: "0 < ns \<Longrightarrow> \<not> linear_pipeline (can_notebook nt ns)"
proof -
  assume ns: "0 < ns"
  let ?pre = "[LoadData, BuildMatrices, BuildMatrices, DefineModel, Instantiate, SplitData]"
  have "\<not> linear_pipeline (?pre @ training_loop 2 10 nt ns)"
    using eval_inside_loop_not_linear[of 2 ns 2 10 ?pre nt] ns by simp
  from not_linear_append[OF this, of "[Instantiate] @ training_loop 2 10 nt ns"]
  show ?thesis using can_run[OF ns, of nt] by (simp add: can_cells_def)
qed

lemma scone_tests:
  "TestEval e k \<in> set scone_notebook \<longleftrightarrow> 1 \<le> e \<and> e \<le> 6 \<and> e mod 2 = 0 \<and> k < 1"
  using TestEval_in_loop_iff[of 2 e k 6 1 1] by (simp add: scone_run scone_cells_def)

lemma scn2_tests:
  "0 < ns \<Longrightarrow> TestEval e k \<in> set (scn2_notebook nt ns) \<longleftrightarrow> 1 \<le> e \<and> e \<le> 8 \<and> e mod 2 = 0 \<and> k < ns"
  using TestEval_in_loop_iff[of 2 e k 8 nt ns] by (simp add: scn2_run scn2_cells_def)

lemma ampssca_tests:
  "0 < ns \<Longrightarrow> TestEval e k \<in> set (ampssca_notebook nt ns) \<longleftrightarrow> 1 \<le> e \<and> e \<le> 6 \<and> k < ns"
  using TestEval_in_loop_iff[of 1 e k 6 nt ns] by (simp add: ampssca_run ampssca_cells_def)

lemma can_tests:
  "0 < ns \<Longrightarrow> TestEval e k \<in> set (can_notebook nt ns) \<longleftrightarrow> 1 \<le> e \<and> e \<le> 10 \<and> e mod 2 = 0 \<and> k < ns"
  using TestEval_in_loop_iff[of 2 e k 10 nt ns] by (simp add: can_run can_cells_def)

lemma hmpnn_tests: "TestEval e k \<in> set hmpnn_notebook \<longleftrightarrow> e = 100 \<and> k = 0"
  using TestEval_hmpnn_loop[of e k 100] by (auto simp: hmpnn_run hmpnn_cells_def)

text \<open>
  C1, as stated: every notebook run is load, build, instantiate, train, evaluate, with no
  training after an evaluation on test data.  It fails for the SCN2 notebook on the 80
  training and 20 test complexes of its dataset: the test pass of epoch 2 comes before the
  training steps of epoch 3.
\<close>

theorem C1_counterexample: "\<not> linear_pipeline (scn2_notebook 80 20)"
  using eval_inside_loop_not_linear[of 2 20 2 8
          "[LoadData, BuildMatrices, DefineModel, Instantiate, SplitData]" 80]
  by (simp add: scn2_run scn2_cells_def)

text \<open>
  C1, amended: in every notebook the data is loaded first, then the matrices are built, and
  a model is instantiated before anything is trained or evaluated (the CAN notebook
  instantiates and trains a second model after its first loop).  The SCoNe, SCN2, AMPSSCA
  and CAN notebooks evaluate on the test data inside the training loop, in the epochs
  that are multiples of \<open>test_interval\<close> (2, 2, 1 and 2, with 6, 8, 6 and 10 epochs): every
  test pass of an epoch but the last is followed by the training steps of the next epoch,
  so none of these runs is load, build, instantiate, train, evaluate.  Only the HMPNN
  notebook is: its one pass on the test data comes after the loop and only the test report
  follows it.  Here \<open>n_train\<close> and \<open>n_test\<close> are the sizes of the two sides of the split,
  \<open>k\<close> a test sample and \<open>j\<close> a training sample.
\<close>

theorem C1_evaluation_inside_loop:
  assumes "k < n_test" "j < n_train"
  shows "scone_notebook
      = [LoadData, BuildMatrices, PrepareInputs, SplitData, DefineModel, Instantiate]
        @ training_loop 2 6 1 1
    \<and> scn2_notebook n_train n_test
      = [LoadData, BuildMatrices, DefineModel, Instantiate, SplitData]
        @ training_loop 2 8 n_train n_test
    \<and> ampssca_notebook n_train n_test
      = [LoadData, BuildMatrices, DefineModel, SplitData, Instantiate]
        @ training_loop 1 6 n_train n_test
    \<and> can_notebook n_train n_test
      = [LoadData, BuildMatrices, BuildMatrices, DefineModel, Instantiate, SplitData]
        @ training_loop 2 10 n_train n_test @ [Instantiate] @ training_loop 2 10 n_train n_test
    \<and> hmpnn_notebook
      = [LoadData, BuildMatrices, DefineModel, Instantiate] @ hmpnn_loop 100
        @ [TestEval 100 0, ReportTest 100]
    \<and> setup_ok 0 scone_notebook
    \<and> setup_ok 0 (scn2_notebook n_train n_test)
    \<and> setup_ok 0 (ampssca_notebook n_train n_test)
    \<and> setup_ok 0 (can_notebook n_train n_test)
    \<and> setup_ok 0 hmpnn_notebook
    \<and> (\<forall>e. 1 \<le> e \<and> e < 6 \<and> e mod 2 = 0
          \<longrightarrow> occurs_before (TestEval e 0) (TrainStep (Suc e) 0) scone_notebook)
    \<and> (\<forall>e. 1 \<le> e \<and> e < 8 \<and> e mod 2 = 0
          \<longrightarrow> occurs_before (TestEval e k) (TrainStep (Suc e) j) (scn2_notebook n_train n_test))
    \<and> (\<forall>e. 1 \<le> e \<and> e < 6
          \<longrightarrow> occurs_before (TestEval e k) (TrainStep (Suc e) j) (ampssca_notebook n_train n_test))
    \<and> (\<forall>e. 1 \<le> e \<and> e < 10 \<and> e mod 2 = 0
          \<longrightarrow> occurs_before (TestEval e k) (TrainStep (Suc e) j) (can_notebook n_train n_test))
    \<and> \<not> linear_pipeline scone_notebook
    \<and> \<not> linear_pipeline (scn2_notebook n_train n_test)
    \<and> \<not> linear_pipeline (ampssca_notebook n_train n_test)
    \<and> \<not> linear_pipeline (can_notebook n_train n_test)
    \<and> (\<forall>e i. TestEval e i \<in> set scone_notebook
          \<longleftrightarrow> 1 \<le> e \<and> e \<le> 6 \<and> e mod 2 = 0 \<and> i < 1)
    \<and> (\<forall>e i. TestEval e i \<in> set (scn2_notebook n_train n_test)
          \<longleftrightarrow> 1 \<le> e \<and> e \<le> 8 \<and> e mod 2 = 0 \<and> i < n_test)
    \<and> (\<forall>e i. TestEval e i \<in> set (ampssca_notebook n_train n_test)
          \<longleftrightarrow> 1 \<le> e \<and> e \<le> 6 \<and> i < n_test)
    \<and> (\<forall>e i. TestEval e i \<in> set (can_notebook n_train n_test)
          \<longleftrightarrow> 1 \<le> e \<and> e \<le> 10 \<and> e mod 2 = 0 \<and> i < n_test)
    \<and> linear_pipeline hmpnn_notebook
    \<and> (\<forall>e i. TestEval e i \<in> set hmpnn_notebook \<longleftrightarrow> e = 100 \<and> i = 0)
    \<and> (\<forall>x. occurs_before (TestEval 100 0) x hmpnn_notebook \<longleftrightarrow> x = ReportTest 100)"
proof -
  have ns: "0 < n_test" using assms(1) by simp
  have a1: "scone_notebook
      = [LoadData, BuildMatrices, PrepareInputs, SplitData, DefineModel, Instantiate]
        @ training_loop 2 6 1 1"
    by (simp add: scone_run scone_cells_def)
  have a2: "scn2_notebook n_train n_test
      = [LoadData, BuildMatrices, DefineModel, Instantiate, SplitData]
        @ training_loop 2 8 n_train n_test"
    by (simp add: scn2_run[OF ns] scn2_cells_def)
  have a3: "ampssca_notebook n_train n_test
      = [LoadData, BuildMatrices, DefineModel, SplitData, Instantiate]
        @ training_loop 1 6 n_train n_test"
    by (simp add: ampssca_run[OF ns] ampssca_cells_def)
  have a4: "can_notebook n_train n_test
      = [LoadData, BuildMatrices, BuildMatrices, DefineModel, Instantiate, SplitData]
        @ training_loop 2 10 n_train n_test @ [Instantiate] @ training_loop 2 10 n_train n_test"
    by (simp add: can_run[OF ns] can_cells_def)
  have a5: "hmpnn_notebook
      = [LoadData, BuildMatrices, DefineModel, Instantiate] @ hmpnn_loop 100
        @ [TestEval 100 0, ReportTest 100]"
    by (simp add: hmpnn_run hmpnn_cells_def)
  note b1 = scone_setup
  note b2 = scn2_setup[OF ns, of n_train]
  note b3 = ampssca_setup[OF ns, of n_train]
  note b4 = can_setup[OF ns, of n_train]
  note b5 = hmpnn_setup
  have c1: "\<forall>e. 1 \<le> e \<and> e < 6 \<and> e mod 2 = 0
          \<longrightarrow> occurs_before (TestEval e 0) (TrainStep (Suc e) 0) scone_notebook"
    by (intro allI) (rule scone_test_before)
  have c2: "\<forall>e. 1 \<le> e \<and> e < 8 \<and> e mod 2 = 0
          \<longrightarrow> occurs_before (TestEval e k) (TrainStep (Suc e) j) (scn2_notebook n_train n_test)"
    by (intro allI) (rule scn2_test_before[OF assms])
  have c3: "\<forall>e. 1 \<le> e \<and> e < 6
          \<longrightarrow> occurs_before (TestEval e k) (TrainStep (Suc e) j) (ampssca_notebook n_train n_test)"
    by (intro allI) (rule ampssca_test_before[OF assms])
  have c4: "\<forall>e. 1 \<le> e \<and> e < 10 \<and> e mod 2 = 0
          \<longrightarrow> occurs_before (TestEval e k) (TrainStep (Suc e) j) (can_notebook n_train n_test)"
    by (intro allI) (rule can_test_before[OF assms])
  note d1 = scone_not_linear
  note d2 = scn2_not_linear[OF ns, of n_train]
  note d3 = ampssca_not_linear[OF ns, of n_train]
  note d4 = can_not_linear[OF ns, of n_train]
  have e1: "\<forall>e i. TestEval e i \<in> set scone_notebook
          \<longleftrightarrow> 1 \<le> e \<and> e \<le> 6 \<and> e mod 2 = 0 \<and> i < 1"
    by (intro allI) (rule scone_tests)
  have e2: "\<forall>e i. TestEval e i \<in> set (scn2_notebook n_train n_test)
          \<longleftrightarrow> 1 \<le> e \<and> e \<le> 8 \<and> e mod 2 = 0 \<and> i < n_test"
    by (intro allI) (rule scn2_tests[OF ns])
  have e3: "\<forall>e i. TestEval e i \<in> set (ampssca_notebook n_train n_test)
          \<longleftrightarrow> 1 \<le> e \<and> e \<le> 6 \<and> i < n_test"
    by (intro allI) (rule ampssca_tests[OF ns])
  have e4: "\<forall>e i. TestEval e i \<in> set (can_notebook n_train n_test)
          \<longleftrightarrow> 1 \<le> e \<and> e \<le> 10 \<and> e mod 2 = 0 \<and> i < n_test"
    by (intro allI) (rule can_tests[OF ns])
  note f1 = hmpnn_linear
  have f2: "\<forall>e i. TestEval e i \<in> set hmpnn_notebook \<longleftrightarrow> e = 100 \<and> i = 0"
    by (intro allI) (rule hmpnn_tests)
  have f3: "\<forall>x. occurs_before (TestEval 100 0) x hmpnn_notebook \<longleftrightarrow> x = ReportTest 100"
    by (intro allI) (rule occurs_before_hmpnn)
  show ?thesis
    using a1 a2 a3 a4 a5 b1 b2 b3 b4 b5 c1 c2 c3 c4 d1 d2 d3 d4 e1 e2 e3 e4 f1 f2 f3
    by (intro conjI) assumption+
qed

theorem C1_evaluation_inside_loop_witness:
  "(0::nat) < 20 \<and> (0::nat) < 80
    \<and> occurs_before (TestEval 2 0) (TrainStep 3 0) (scn2_notebook 80 20)
    \<and> occurs_before (TestEval 2 0) (TrainStep 3 0) (can_notebook 80 20)
    \<and> occurs_before (TestEval 1 0) (TrainStep 2 0) (ampssca_notebook 80 20)
    \<and> occurs_before (TestEval 2 0) (TrainStep 3 0) scone_notebook
    \<and> \<not> linear_pipeline (can_notebook 80 20)
    \<and> TestEval 2 0 \<in> set (scn2_notebook 80 20)
    \<and> TestEval 3 0 \<notin> set (scn2_notebook 80 20)
    \<and> setup_ok 0 (can_notebook 80 20)
    \<and> linear_pipeline hmpnn_notebook"
proof -
  have h1: "(0::nat) < 20" by simp
  have h2: "(0::nat) < 80" by simp
  note t = C1_evaluation_inside_loop[OF h1 h2]
  have q1: "\<forall>e. 1 \<le> e \<and> e < 8 \<and> e mod 2 = 0
      \<longrightarrow> occurs_before (TestEval e 0) (TrainStep (Suc e) 0) (scn2_notebook 80 20)"
    using t by (elim conjE) assumption
  have q2: "\<forall>e. 1 \<le> e \<and> e < 10 \<and> e mod 2 = 0
      \<longrightarrow> occurs_before (TestEval e 0) (TrainStep (Suc e) 0) (can_notebook 80 20)"
    using t by (elim conjE) assumption
  have q3: "\<forall>e. 1 \<le> e \<and> e < 6
      \<longrightarrow> occurs_before (TestEval e 0) (TrainStep (Suc e) 0) (ampssca_notebook 80 20)"
    using t by (elim conjE) assumption
  have q4: "\<forall>e. 1 \<le> e \<and> e < 6 \<and> e mod 2 = 0
      \<longrightarrow> occurs_before (TestEval e 0) (TrainStep (Suc e) 0) scone_notebook"
    using t by (elim conjE) assumption
  have q5: "\<forall>e i. TestEval e i \<in> set (scn2_notebook 80 20)
      \<longleftrightarrow> 1 \<le> e \<and> e \<le> 8 \<and> e mod 2 = 0 \<and> i < 20"
    using t by (elim conjE) assumption
  have w1: "occurs_before (TestEval 2 0) (TrainStep 3 0) (scn2_notebook 80 20)"
    using q1[rule_format, of 2] by simp
  have w2: "occurs_before (TestEval 2 0) (TrainStep 3 0) (can_notebook 80 20)"
    using q2[rule_format, of 2] by simp
  have w3: "occurs_before (TestEval 1 0) (TrainStep 2 0) (ampssca_notebook 80 20)"
    using q3[rule_format, of 1] by (simp add: numeral_2_eq_2)
  have w4: "occurs_before (TestEval 2 0) (TrainStep 3 0) scone_notebook"
    using q4[rule_format, of 2] by simp
  have w5: "\<not> linear_pipeline (can_notebook 80 20)" using t by (elim conjE) assumption
  have w6: "TestEval 2 0 \<in> set (scn2_notebook 80 20)" using q5[rule_format, of 2 0] by simp
  have w7: "TestEval 3 0 \<notin> set (scn2_notebook 80 20)" using q5[rule_format, of 3 0] by simp
  have w8: "setup_ok 0 (can_notebook 80 20)" using t by (elim conjE) assumption
  have w9: "linear_pipeline hmpnn_notebook" using t by (elim conjE) assumption
  show ?thesis using h1 h2 w1 w2 w3 w4 w5 w6 w7 w8 w9 by (intro conjI) assumption+
qed

section \<open>Exceptions reach the top level\<close>

lemma uncaught_append:
  "uncaught l None \<Longrightarrow> uncaught l' r \<Longrightarrow> uncaught (l @ l') r"
proof (induction l "None :: error option" rule: uncaught.induct)
  case 1
  then show ?case by simp
next
  case (2 c e)
  then show ?case by (cases l') auto
next
  case (3 c e x xs)
  then show ?case by simp
qed

lemma uncaught_run_atomic: "uncaught_run (atomic w c s)"
  by (simp add: uncaught_run_def atomic_def split: sum.splits)

lemma uncaught_run_prepend:
  "uncaught l None \<Longrightarrow> uncaught_run r \<Longrightarrow> uncaught_run (prepend_log l r)"
  by (cases r) (simp add: uncaught_run_def prepend_log_def uncaught_append)

lemma exec_uncaught:
  "try_free st \<Longrightarrow> (\<forall>c\<in>set (contexts st). \<forall>e. \<not> suppresses w c e) \<Longrightarrow> uncaught_run (exec w st s)"
  "try_free_list sts \<Longrightarrow> (\<forall>c\<in>set (contexts_list sts). \<forall>e. \<not> suppresses w c e) \<Longrightarrow> uncaught_run (exec_list w sts s)"
  "try_free_list sts \<Longrightarrow> (\<forall>c\<in>set (contexts_list sts). \<forall>e. \<not> suppresses w c e) \<Longrightarrow> uncaught_run (iterate w n sts s)"
proof (induction w st s and w sts s and w n sts s rule: exec_exec_list_iterate.induct)
  case (1 w c s)
  then show ?case by (simp add: uncaught_run_atomic)
next
  case (2 w h body s)
  obtain l s' r where a: "atomic w h s = (l, s', r)" by (cases "atomic w h s") auto
  have u: "uncaught l r" using uncaught_run_atomic [of w h s] a by (simp add: uncaught_run_def)
  show ?case
  proof (cases r)
    case None
    have "uncaught_run (iterate w (iterations w h s') body s')"
      using 2 a None by simp
    then show ?thesis using a None u by (simp add: uncaught_run_prepend)
  next
    case (Some e)
    then show ?thesis using a u by (simp add: uncaught_run_def)
  qed
next
  case (3 w c a b s)
  obtain l s' r where at: "atomic w c s = (l, s', r)" by (cases "atomic w c s") auto
  have u: "uncaught l r" using uncaught_run_atomic [of w c s] at by (simp add: uncaught_run_def)
  show ?case
  proof (cases r)
    case None
    have "uncaught_run (if truth w c s' then exec_list w a s' else exec_list w b s')"
      using 3 at None by simp
    then show ?thesis using at None u by (simp add: uncaught_run_prepend)
  next
    case (Some e)
    then show ?thesis using at u by (simp add: uncaught_run_def)
  qed
next
  case (4 w c body s)
  obtain l s' r where at: "atomic w c s = (l, s', r)" by (cases "atomic w c s") auto
  have u: "uncaught l r" using uncaught_run_atomic [of w c s] at by (simp add: uncaught_run_def)
  show ?case
  proof (cases r)
    case None
    obtain l' s'' r' where b: "exec_list w body s' = (l', s'', r')"
      by (cases "exec_list w body s'") auto
    have ub: "uncaught_run (exec_list w body s')" using 4 at None by simp
    have ns: "\<forall>e. \<not> suppresses w c e" using 4(3) by simp
    have "uncaught (l @ l') r'" using ub b u None by (simp add: uncaught_run_def uncaught_append)
    then show ?thesis using at None b ns by (cases r') (simp_all add: uncaught_run_def)
  next
    case (Some e)
    then show ?thesis using at u by (simp add: uncaught_run_def)
  qed
next
  case (5 w f body s)
  then show ?case by (simp add: uncaught_run_atomic)
next
  case (6 w c bases body s)
  obtain l s' r where b: "exec_list w body s = (l, s', r)" by (cases "exec_list w body s") auto
  have ub: "uncaught l r" using 6 b by (simp add: uncaught_run_def)
  show ?case
  proof (cases r)
    case None
    then show ?thesis using b ub by (simp add: uncaught_run_prepend uncaught_run_atomic)
  next
    case (Some e)
    then show ?thesis using b ub by (simp add: uncaught_run_def)
  qed
next
  case (7 w body cls handler s)
  then show ?case by simp
next
  case (8 w c s)
  then show ?case by (simp add: uncaught_run_def)
next
  case (9 w s)
  then show ?case by (simp add: uncaught_run_def)
next
  case (10 w x xs s)
  obtain l s' r where a: "exec w x s = (l, s', r)" by (cases "exec w x s") auto
  have u: "uncaught l r" using 10 a by (simp add: uncaught_run_def)
  show ?case
  proof (cases r)
    case None
    have "uncaught_run (exec_list w xs s')" using 10 a None by simp
    then show ?thesis using a None u by (simp add: uncaught_run_prepend)
  next
    case (Some e)
    then show ?thesis using a u by (simp add: uncaught_run_def)
  qed
next
  case (11 w body s)
  then show ?case by (simp add: uncaught_run_def)
next
  case (12 w n body s)
  obtain l s' r where a: "exec_list w body s = (l, s', r)" by (cases "exec_list w body s") auto
  have u: "uncaught l r" using 12 a by (simp add: uncaught_run_def)
  show ?case
  proof (cases r)
    case None
    have "uncaught_run (iterate w n body s')" using 12 a None by simp
    then show ?thesis using a None u by (simp add: uncaught_run_prepend)
  next
    case (Some e)
    then show ?thesis using a u by (simp add: uncaught_run_def)
  qed
qed

lemma uncaught_Some:
  "uncaught l (Some e) \<Longrightarrow> l \<noteq> [] \<and> snd (last l) = Some e \<and> list_all (\<lambda>x. snd x = None) (butlast l)"
  by (induction l "Some e" rule: uncaught.induct) auto

lemma uncaught_None: "uncaught l None \<Longrightarrow> list_all (\<lambda>x. snd x = None) l"
  by (induction l "None :: error option" rule: uncaught.induct) auto

lemma scone_syntax:
  "try_free_list scone_code" "raise_free_list scone_code"
  "set (contexts_list scone_code) = {''torch.no_grad()''}"
  "set (class_bases_list scone_code) = {''torch.nn.Module''}"
  by (simp_all add: scone_code_def)

lemma scn2_syntax:
  "try_free_list scn2_code" "raise_free_list scn2_code"
  "set (contexts_list scn2_code) = {''torch.no_grad()''}"
  "set (class_bases_list scn2_code) = {''torch.nn.Module''}"
  by (simp_all add: scn2_code_def)

lemma ampssca_syntax:
  "try_free_list ampssca_code" "raise_free_list ampssca_code"
  "set (contexts_list ampssca_code) = {''torch.no_grad()''}"
  "set (class_bases_list ampssca_code) = {''torch.nn.Module''}"
  by (simp_all add: ampssca_code_def)

lemma can_syntax:
  "try_free_list can_code" "raise_free_list can_code"
  "set (contexts_list can_code) = {''torch.no_grad()''}"
  "set (class_bases_list can_code) = {''torch.nn.Module''}"
  by (simp_all add: can_code_def)

lemma hmpnn_syntax:
  "try_free_list hmpnn_code" "raise_free_list hmpnn_code"
  "set (contexts_list hmpnn_code) = {''torch.no_grad()''}"
  "set (class_bases_list hmpnn_code) = {''torch.nn.Module''}"
  by (simp_all add: hmpnn_code_def)

lemma notebook_uncaught:
  assumes "\<forall>e. \<not> suppresses w ''torch.no_grad()'' e"
    and "try_free_list nb" "set (contexts_list nb) = {''torch.no_grad()''}"
  shows "uncaught_run (exec_list w nb s)"
  using exec_uncaught(2)[OF assms(2), of w s] assms(1,3) by simp

text \<open>
  A handler does show in a run: with the call of the model inside a \<^verbatim>\<open>try\<close>, the statement
  after it is evaluated although the call has raised, and the run ends without exception.
\<close>

lemma try_recovers_example:
  "exec_list failing_model_call
     [Try [Simple ''y_hat = model(x_1, up_lap1, down_lap1, iden)''] ''Exception'' [],
      Simple ''loss.backward()''] ()
    = ([(''y_hat = model(x_1, up_lap1, down_lap1, iden)'', Some (LibraryError ''shape mismatch'')),
        (''loss.backward()'', None)], (), None)"
  "\<not> uncaught_run (exec_list failing_model_call
     [Try [Simple ''y_hat = model(x_1, up_lap1, down_lap1, iden)''] ''Exception'' [],
      Simple ''loss.backward()''] ())"
  by (simp_all add: failing_model_call_def atomic_def prepend_log_def uncaught_run_def)

text \<open>
  C6: no notebook contains a \<^verbatim>\<open>try\<close> or a \<^verbatim>\<open>raise\<close> statement, a context manager other than
  \<^verbatim>\<open>torch.no_grad()\<close>, or a class with a base other than \<^verbatim>\<open>torch.nn.Module\<close>: it installs
  no handler and defines no error type.  So, \<^verbatim>\<open>torch.no_grad()\<close> passing exceptions on,
  whenever the evaluation of a statement raises in a run of a notebook, whatever the
  library does, that statement is the last one evaluated and the run ends with the
  exception it raised: all statements evaluated before it succeeded, and nothing is
  evaluated after it.
\<close>

theorem C6_errors_propagate_uncaught:
  assumes "\<forall>e. \<not> suppresses w ''torch.no_grad()'' e"
  shows "(\<forall>nb\<in>set [scone_code, scn2_code, ampssca_code, can_code, hmpnn_code].
            try_free_list nb \<and> raise_free_list nb
          \<and> set (contexts_list nb) = {''torch.no_grad()''}
          \<and> set (class_bases_list nb) = {''torch.nn.Module''}
          \<and> uncaught_run (exec_list w nb s)
          \<and> (\<forall>l s' e. exec_list w nb s = (l, s', Some e)
                \<longrightarrow> l \<noteq> [] \<and> snd (last l) = Some e
                    \<and> list_all (\<lambda>x. snd x = None) (butlast l))
          \<and> (\<forall>l s'. exec_list w nb s = (l, s', None) \<longrightarrow> list_all (\<lambda>x. snd x = None) l))"
proof -
  have run: "uncaught_run (exec_list w nb s)
          \<and> (\<forall>l s' e. exec_list w nb s = (l, s', Some e)
                \<longrightarrow> l \<noteq> [] \<and> snd (last l) = Some e
                    \<and> list_all (\<lambda>x. snd x = None) (butlast l))
          \<and> (\<forall>l s'. exec_list w nb s = (l, s', None) \<longrightarrow> list_all (\<lambda>x. snd x = None) l)"
    if "try_free_list nb" "set (contexts_list nb) = {''torch.no_grad()''}" for nb
  proof -
    have u: "uncaught_run (exec_list w nb s)"
      using notebook_uncaught[OF assms that] .
    have "l \<noteq> [] \<and> snd (last l) = Some e \<and> list_all (\<lambda>x. snd x = None) (butlast l)"
      if "exec_list w nb s = (l, s', Some e)" for l s' e
      using u that uncaught_Some[of l e] by (simp add: uncaught_run_def)
    moreover have "list_all (\<lambda>x. snd x = None) l" if "exec_list w nb s = (l, s', None)" for l s'
      using u that uncaught_None[of l] by (simp add: uncaught_run_def)
    ultimately show ?thesis using u by blast
  qed
  show ?thesis
    using run[OF scone_syntax(1,3)] run[OF scn2_syntax(1,3)] run[OF ampssca_syntax(1,3)]
      run[OF can_syntax(1,3)] run[OF hmpnn_syntax(1,3)]
      scone_syntax scn2_syntax ampssca_syntax can_syntax hmpnn_syntax
    by simp
qed

lemma scone_failing_run:
  "snd (snd (exec_list failing_model_call scone_code ())) = Some (LibraryError ''shape mismatch'')"
  "last (fst (exec_list failing_model_call scone_code ()))
     = (''y_hat = model(x_1, up_lap1, down_lap1, iden)'', Some (LibraryError ''shape mismatch''))"
  "length (fst (exec_list failing_model_call scone_code ())) = 53"
  by (simp_all add: scone_code_def failing_model_call_def atomic_def prepend_log_def numeral_2_eq_2)

theorem C6_errors_propagate_uncaught_witness:
  "(\<forall>e. \<not> suppresses failing_model_call ''torch.no_grad()'' e)
    \<and> try_free_list scone_code
    \<and> uncaught_run (exec_list failing_model_call scone_code ())
    \<and> snd (snd (exec_list failing_model_call scone_code ())) = Some (LibraryError ''shape mismatch'')
    \<and> last (fst (exec_list failing_model_call scone_code ()))
        = (''y_hat = model(x_1, up_lap1, down_lap1, iden)'', Some (LibraryError ''shape mismatch''))"
proof -
  have h: "\<forall>e. \<not> suppresses failing_model_call ''torch.no_grad()'' e"
    by (simp add: failing_model_call_def)
  have t: "try_free_list scone_code \<and> uncaught_run (exec_list failing_model_call scone_code ())"
    using C6_errors_propagate_uncaught[OF h, of "()"] by simp
  show ?thesis using h t scone_failing_run(1,2) by simp
qed

section \<open>The layer stack\<close>
lemma run_layers_chain:
  "run_layers call ls x = Inr y \<longleftrightarrow> fed_in_sequence call ls x y"
proof (induction ls arbitrary: x)
  case Nil
  show ?case
  proof
    assume "run_layers call [] x = Inr y"
    then have "length [x] = length ([]::'a list) + 1 \<and> [x] ! 0 = x \<and> [x] ! length ([]::'a list) = y"
      by simp
    then show "fed_in_sequence call [] x y"
      unfolding fed_in_sequence_def by (intro exI[of _ "[x]"]) simp
  next
    assume "fed_in_sequence call [] x y"
    then show "run_layers call [] x = Inr y"
      by (auto simp: fed_in_sequence_def)
  qed
next
  case (Cons l ls)
  show ?case
  proof
    assume r: "run_layers call (l # ls) x = Inr y"
    then obtain x' where x': "call l x = Inr x'" and r': "run_layers call ls x' = Inr y"
      by (auto split: sum.splits)
    from r' Cons.IH obtain xs where xs: "length xs = length ls + 1" "xs ! 0 = x'"
      "xs ! length ls = y" "\<forall>i<length ls. call (ls ! i) (xs ! i) = Inr (xs ! (i + 1))"
      unfolding fed_in_sequence_def by blast
    have "\<forall>i<length (l # ls). call ((l # ls) ! i) ((x # xs) ! i) = Inr ((x # xs) ! (i + 1))"
    proof (intro allI impI)
      fix i assume "i < length (l # ls)"
      then show "call ((l # ls) ! i) ((x # xs) ! i) = Inr ((x # xs) ! (i + 1))"
        using x' xs by (cases i) auto
    qed
    then show "fed_in_sequence call (l # ls) x y"
      unfolding fed_in_sequence_def using xs by (intro exI[of _ "x # xs"]) simp
  next
    assume "fed_in_sequence call (l # ls) x y"
    then obtain xs where xs: "length xs = length (l # ls) + 1" "xs ! 0 = x"
      "xs ! length (l # ls) = y"
      "\<forall>i<length (l # ls). call ((l # ls) ! i) (xs ! i) = Inr (xs ! (i + 1))"
      unfolding fed_in_sequence_def by blast
    from xs(1) obtain x0 xs' where c: "xs = x0 # xs'" by (cases xs) auto
    from xs(4) have "call l (xs ! 0) = Inr (xs ! 1)" by force
    then have first: "call l x = Inr (xs' ! 0)" using xs(2) c by simp
    have "\<forall>i<length ls. call (ls ! i) (xs' ! i) = Inr (xs' ! (i + 1))"
    proof (intro allI impI)
      fix i assume "i < length ls"
      then have "call ((l # ls) ! Suc i) (xs ! Suc i) = Inr (xs ! (Suc i + 1))"
        using xs(4) by (metis Suc_less_eq length_Cons)
      then show "call (ls ! i) (xs' ! i) = Inr (xs' ! (i + 1))" using c by simp
    qed
    then have "fed_in_sequence call ls (xs' ! 0) y"
      unfolding fed_in_sequence_def using xs c by (intro exI[of _ xs']) simp
    then have "run_layers call ls (xs' ! 0) = Inr y" using Cons.IH by simp
    then show "run_layers call (l # ls) x = Inr y" using first by simp
  qed
qed

lemma run_indexed_shift:
  "run_indexed call (pre @ ls) [length pre..<length pre + length ls] x = run_layers call ls x"
proof (induction ls arbitrary: pre x)
  case Nil
  then show ?case by simp
next
  case (Cons l ls)
  have "[length pre..<length pre + length (l # ls)]
      = length pre # [length (pre @ [l])..<length (pre @ [l]) + length ls]"
    by (simp add: upt_conv_Cons del: upt_Suc)
  moreover have "run_indexed call ((pre @ [l]) @ ls)
      [length (pre @ [l])..<length (pre @ [l]) + length ls] x' = run_layers call ls x'" for x'
    by (rule Cons.IH)
  ultimately show ?case
    by (simp split: sum.splits del: upt_Suc)
qed

lemma run_indexed_all: "run_indexed call ls [0..<length ls] x = run_layers call ls x"
  using run_indexed_shift[of call "[]" ls x] by simp

lemma new_layers_props:
  "length (new_layers args n) = nat n \<and> (\<forall>l\<in>set (new_layers args n). ctor_args l = args)
    \<and> distinct (map obj_id (new_layers args n))"
  by (auto simp: new_layers_def comp_def distinct_map inj_on_def)

text \<open>
  C2: in each of the five model classes the constructor builds \<open>n_layers\<close> layer objects,
  every one a new object made with the same constructor arguments, and the forward pass
  calls them in sequence, each on the result of the one before: it returns exactly when
  every layer of the stack, called on the result of the layer before it, returns, and the
  final linear layers (and the sum of the means) succeed on the result of the last layer;
  what it returns is computed from that result.  HMPNN also applies its
  \<^verbatim>\<open>to_hidden_linear\<close> layers before the stack.
\<close>

theorem C2_layers_stacked_and_called_in_sequence:
  "items (scone_layers (SCoNeNN_init channels n_layers)) = new_layers channels n_layers
   \<and> items (scn2_layers (SCN2_init ca cb cc nc n_layers)) = new_layers (ca, cb, cc) n_layers
   \<and> (AMPSSCA_init cl cd nc n_layers att = Inr m_amp \<longrightarrow>
         items (ampssca_layers m_amp) = new_layers (cl, cd, att) n_layers)
   \<and> items (can_layers (CAN_init ca cb cc nc n_layers att)) = new_layers (cb, att) n_layers
   \<and> items (hmpnn_layers (HMPNN_init f hs nc n_layers p q))
        = new_layers (last (f # hs), p, q) n_layers
   \<and> length (new_layers args n_layers) = nat n_layers
   \<and> (\<forall>l\<in>set (new_layers args n_layers). ctor_args l = args)
   \<and> distinct (map obj_id (new_layers args n_layers))
   \<and> (SCoNeNN_forward ar SCoNeLayer st m_scone xe up_lap down_lap iden = Inr out_scone \<longleftrightarrow>
        (\<exists>x' y. fed_in_sequence (\<lambda>layer x. SCoNeLayer st layer x up_lap down_lap iden)
                   (items (scone_layers m_scone)) xe x'
           \<and> linear_forward ar st (scone_linear m_scone) x' = Inr y
           \<and> out_scone = softmax_rows ar y))
   \<and> (SCN2_forward ar SCN2Layer st m_scn xn xe xf la lb lc = Inr out_scn \<longleftrightarrow>
        (\<exists>xa xb xc ya yb yc.
           fed_in_sequence (\<lambda>layer xs. SCN2Layer st layer xs la lb lc)
                   (items (scn2_layers m_scn)) (xn, xe, xf) (xa, xb, xc)
           \<and> linear_forward ar st (scn2_lin_0 m_scn) xa = Inr ya
           \<and> linear_forward ar st (scn2_lin_1 m_scn) xb = Inr yb
           \<and> linear_forward ar st (scn2_lin_2 m_scn) xc = Inr yc
           \<and> vadd3 ar (cells_mean ar yc) (cells_mean ar yb) (cells_mean ar ya) = Inr out_scn))
   \<and> (AMPSSCA_init cl cd nc n_layers att = Inr m_amp \<longrightarrow>
       (AMPSSCA_forward ar SCACMPSLayer st m_amp x_list dl il = Inr out_ampssca \<longleftrightarrow>
        (\<exists>xl ya yb yc.
           fed_in_sequence (\<lambda>layer xs. SCACMPSLayer st layer xs dl il)
                   (items (ampssca_layers m_amp)) x_list xl
           \<and> 3 \<le> length xl
           \<and> linear_forward ar st (ampssca_lin0 m_amp) (xl ! 0) = Inr ya
           \<and> linear_forward ar st (ampssca_lin1 m_amp) (xl ! 1) = Inr yb
           \<and> linear_forward ar st (ampssca_lin2 m_amp) (xl ! 2) = Inr yc
           \<and> vadd3 ar (cells_mean ar ya) (cells_mean ar yb) (cells_mean ar yc) = Inr out_ampssca)))
   \<and> (CAN_forward ar CANLayer st m_can xn xe xf down_lap up_lap = Inr out_can \<longleftrightarrow>
        (\<exists>xb ya yb yc.
           fed_in_sequence (\<lambda>layer x. CANLayer st layer x down_lap up_lap)
                   (items (can_layers m_can)) xe xb
           \<and> linear_forward ar st (can_lin_0 m_can) xn = Inr ya
           \<and> linear_forward ar st (can_lin_1 m_can) xb = Inr yb
           \<and> linear_forward ar st (can_lin_2 m_can) xf = Inr yc
           \<and> vadd3 ar (cells_mean ar yb) (cells_mean ar ya) (cells_mean ar yc) = Inr out_can))
   \<and> (HMPNN_forward ar HMPNNLayer st m_hmpnn xn xe incidence = Inr out_hmpnn \<longleftrightarrow>
        (\<exists>ha hb xa xb.
           run_layers (linear_forward ar st) (hmpnn_to_hidden_linear m_hmpnn) xn = Inr ha
           \<and> run_layers (linear_forward ar st) (hmpnn_to_hidden_linear m_hmpnn) xe = Inr hb
           \<and> fed_in_sequence (\<lambda>layer xs. HMPNNLayer st layer xs incidence)
                   (items (hmpnn_layers m_hmpnn)) (ha, hb) (xa, xb)
           \<and> linear_forward ar st (hmpnn_to_categories_linear m_hmpnn) xa = Inr out_hmpnn))"
proof -
  have inits: "items (scone_layers (SCoNeNN_init channels n_layers)) = new_layers channels n_layers
   \<and> items (scn2_layers (SCN2_init ca cb cc nc n_layers)) = new_layers (ca, cb, cc) n_layers
   \<and> (AMPSSCA_init cl cd nc n_layers att = Inr m_amp \<longrightarrow>
         items (ampssca_layers m_amp) = new_layers (cl, cd, att) n_layers)
   \<and> items (can_layers (CAN_init ca cb cc nc n_layers att)) = new_layers (cb, att) n_layers
   \<and> items (hmpnn_layers (HMPNN_init f hs nc n_layers p q))
        = new_layers (last (f # hs), p, q) n_layers"
    by (auto simp: SCoNeNN_init_def SCN2_init_def AMPSSCA_init_def CAN_init_def HMPNN_init_def
        Let_def split: if_splits)
  have same: "length (new_layers args n_layers) = nat n_layers
   \<and> (\<forall>l\<in>set (new_layers args n_layers). ctor_args l = args)
   \<and> distinct (map obj_id (new_layers args n_layers))"
    using new_layers_props[of args n_layers] by simp
  have m_scone: "SCoNeNN_forward ar SCoNeLayer st m_scone xe up_lap down_lap iden = Inr out_scone \<longleftrightarrow>
        (\<exists>x' y. fed_in_sequence (\<lambda>layer x. SCoNeLayer st layer x up_lap down_lap iden)
                   (items (scone_layers m_scone)) xe x'
           \<and> linear_forward ar st (scone_linear m_scone) x' = Inr y
           \<and> out_scone = softmax_rows ar y)"
    unfolding SCoNeNN_forward_def run_layers_chain[symmetric]
    by (auto split: sum.splits)
  have m_scn: "SCN2_forward ar SCN2Layer st m_scn xn xe xf la lb lc = Inr out_scn \<longleftrightarrow>
        (\<exists>xa xb xc ya yb yc.
           fed_in_sequence (\<lambda>layer xs. SCN2Layer st layer xs la lb lc)
                   (items (scn2_layers m_scn)) (xn, xe, xf) (xa, xb, xc)
           \<and> linear_forward ar st (scn2_lin_0 m_scn) xa = Inr ya
           \<and> linear_forward ar st (scn2_lin_1 m_scn) xb = Inr yb
           \<and> linear_forward ar st (scn2_lin_2 m_scn) xc = Inr yc
           \<and> vadd3 ar (cells_mean ar yc) (cells_mean ar yb) (cells_mean ar ya) = Inr out_scn)"
    unfolding SCN2_forward_def run_layers_chain[symmetric]
    by (auto simp: Let_def split: sum.splits prod.splits)
  have amp: "AMPSSCA_init cl cd nc n_layers att = Inr m_amp \<longrightarrow>
       (AMPSSCA_forward ar SCACMPSLayer st m_amp x_list dl il = Inr out_ampssca \<longleftrightarrow>
        (\<exists>xl ya yb yc.
           fed_in_sequence (\<lambda>layer xs. SCACMPSLayer st layer xs dl il)
                   (items (ampssca_layers m_amp)) x_list xl
           \<and> 3 \<le> length xl
           \<and> linear_forward ar st (ampssca_lin0 m_amp) (xl ! 0) = Inr ya
           \<and> linear_forward ar st (ampssca_lin1 m_amp) (xl ! 1) = Inr yb
           \<and> linear_forward ar st (ampssca_lin2 m_amp) (xl ! 2) = Inr yc
           \<and> vadd3 ar (cells_mean ar ya) (cells_mean ar yb) (cells_mean ar yc) = Inr out_ampssca))"
  proof (intro impI)
    assume i: "AMPSSCA_init cl cd nc n_layers att = Inr m_amp"
    from i have "nat (ampssca_n_layers m_amp) = length (items (ampssca_layers m_amp))"
      by (auto simp: AMPSSCA_init_def new_layers_def split: if_splits)
    then have idx: "run_indexed call (items (ampssca_layers m_amp))
        [0..<nat (ampssca_n_layers m_amp)] x
        = run_layers call (items (ampssca_layers m_amp)) x" for call x
      using run_indexed_all[of call "items (ampssca_layers m_amp)" x] by simp
    show "AMPSSCA_forward ar SCACMPSLayer st m_amp x_list dl il = Inr out_ampssca \<longleftrightarrow>
        (\<exists>xl ya yb yc.
           fed_in_sequence (\<lambda>layer xs. SCACMPSLayer st layer xs dl il)
                   (items (ampssca_layers m_amp)) x_list xl
           \<and> 3 \<le> length xl
           \<and> linear_forward ar st (ampssca_lin0 m_amp) (xl ! 0) = Inr ya
           \<and> linear_forward ar st (ampssca_lin1 m_amp) (xl ! 1) = Inr yb
           \<and> linear_forward ar st (ampssca_lin2 m_amp) (xl ! 2) = Inr yc
           \<and> vadd3 ar (cells_mean ar ya) (cells_mean ar yb) (cells_mean ar yc) = Inr out_ampssca)"
      unfolding AMPSSCA_forward_def idx run_layers_chain[symmetric]
      by (auto simp: Let_def split: sum.splits if_splits)
  qed
  have m_can: "CAN_forward ar CANLayer st m_can xn xe xf down_lap up_lap = Inr out_can \<longleftrightarrow>
        (\<exists>xb ya yb yc.
           fed_in_sequence (\<lambda>layer x. CANLayer st layer x down_lap up_lap)
                   (items (can_layers m_can)) xe xb
           \<and> linear_forward ar st (can_lin_0 m_can) xn = Inr ya
           \<and> linear_forward ar st (can_lin_1 m_can) xb = Inr yb
           \<and> linear_forward ar st (can_lin_2 m_can) xf = Inr yc
           \<and> vadd3 ar (cells_mean ar yb) (cells_mean ar ya) (cells_mean ar yc) = Inr out_can)"
    unfolding CAN_forward_def run_layers_chain[symmetric]
    by (auto simp: Let_def split: sum.splits)
  have hm: "HMPNN_forward ar HMPNNLayer st m_hmpnn xn xe incidence = Inr out_hmpnn \<longleftrightarrow>
        (\<exists>ha hb xa xb.
           run_layers (linear_forward ar st) (hmpnn_to_hidden_linear m_hmpnn) xn = Inr ha
           \<and> run_layers (linear_forward ar st) (hmpnn_to_hidden_linear m_hmpnn) xe = Inr hb
           \<and> fed_in_sequence (\<lambda>layer xs. HMPNNLayer st layer xs incidence)
                   (items (hmpnn_layers m_hmpnn)) (ha, hb) (xa, xb)
           \<and> linear_forward ar st (hmpnn_to_categories_linear m_hmpnn) xa = Inr out_hmpnn)"
    unfolding HMPNN_forward_def run_layers_chain[symmetric]
    by (auto split: sum.splits prod.splits)
  from inits same m_scone m_scn amp m_can hm show ?thesis
    by (intro conjI) (elim conjE, assumption)+
qed

text \<open>
  The forward passes on a complex with one node, one edge and no face, features 1,
  one channel, all weights and biases 0, and layers that return their input.
\<close>

lemma scone_forward_example:
  "SCoNeNN_forward exact (\<lambda>st l x u d i. Inr x) (\<lambda>p i j. Num 0) (SCoNeNN_init 1 2) \<lparr>nrows = 1, ncols = 1, entry = (\<lambda>i j. Num 1)\<rparr> () () () = Inr (softmax_rows exact \<lparr>nrows = 1, ncols = 2, entry = (\<lambda>i j. Num 0)\<rparr>)"
  by (simp add: SCoNeNN_forward_def SCoNeNN_init_def new_layers_def numeral_2_eq_2
      linear_forward_def row_def exact_def fsum_def)


lemma scn2_forward_example:
  "SCN2_forward exact (\<lambda>st l x u d i. Inr x) (\<lambda>p i j. Num 0) (SCN2_init 1 1 1 1 2) \<lparr>nrows = 1, ncols = 1, entry = (\<lambda>i j. Num 1)\<rparr> \<lparr>nrows = 1, ncols = 1, entry = (\<lambda>i j. Num 1)\<rparr> \<lparr>nrows = 0, ncols = 1, entry = (\<lambda>i j. Num 1)\<rparr> () () () = Inr [Num 0]"
  by (simp add: SCN2_forward_def SCN2_init_def new_layers_def numeral_2_eq_2 linear_forward_def
      row_def exact_def fsum_def cells_mean_def nan_to_zero_def nanmean_dim0_def nanmean_def
      col_def vadd_def vadd3_def)

lemma ampssca_init_example: "AMPSSCA_init [1, 1, 1] 3 1 2 False = Inr
       \<lparr>ampssca_n_layers = 2, ampssca_channels_list = [1, 1, 1], ampssca_num_classes = 1,
        ampssca_layers = ModuleList (new_layers ([1, 1, 1], 3, False) 2),
        ampssca_lin0 = \<lparr>lname = ''lin0'', lpos = 0, in_features = 1, out_features = 1\<rparr>,
        ampssca_lin1 = \<lparr>lname = ''lin1'', lpos = 0, in_features = 1, out_features = 1\<rparr>,
        ampssca_lin2 = \<lparr>lname = ''lin2'', lpos = 0, in_features = 1, out_features = 1\<rparr>\<rparr>"
  by (simp add: AMPSSCA_init_def)

lemma ampssca_forward_example:
  "AMPSSCA_forward exact (\<lambda>st l x a b. Inr x) (\<lambda>p i j. Num 0) \<lparr>ampssca_n_layers = 2, ampssca_channels_list = [1, 1, 1], ampssca_num_classes = 1,
        ampssca_layers = ModuleList (new_layers ([1, 1, 1], 3, False) 2),
        ampssca_lin0 = \<lparr>lname = ''lin0'', lpos = 0, in_features = 1, out_features = 1\<rparr>,
        ampssca_lin1 = \<lparr>lname = ''lin1'', lpos = 0, in_features = 1, out_features = 1\<rparr>,
        ampssca_lin2 = \<lparr>lname = ''lin2'', lpos = 0, in_features = 1, out_features = 1\<rparr>\<rparr> [\<lparr>nrows = 1, ncols = 1, entry = (\<lambda>i j. Num 1)\<rparr>, \<lparr>nrows = 1, ncols = 1, entry = (\<lambda>i j. Num 1)\<rparr>, \<lparr>nrows = 0, ncols = 1, entry = (\<lambda>i j. Num 1)\<rparr>] () () = Inr [Num 0]"
  by (simp add: AMPSSCA_forward_def new_layers_def numeral_2_eq_2 linear_forward_def
      row_def exact_def fsum_def cells_mean_def nan_to_zero_def nanmean_dim0_def nanmean_def
      col_def vadd_def vadd3_def)

lemma can_forward_example:
  "CAN_forward exact (\<lambda>st l x a b. Inr x) (\<lambda>p i j. Num 0) (CAN_init 1 1 1 1 2 False) \<lparr>nrows = 1, ncols = 1, entry = (\<lambda>i j. Num 1)\<rparr> \<lparr>nrows = 1, ncols = 1, entry = (\<lambda>i j. Num 1)\<rparr> \<lparr>nrows = 0, ncols = 1, entry = (\<lambda>i j. Num 1)\<rparr> () () = Inr [Num 0]"
  by (simp add: CAN_forward_def CAN_init_def new_layers_def numeral_2_eq_2 linear_forward_def
      row_def exact_def fsum_def cells_mean_def nan_to_zero_def nanmean_dim0_def nanmean_def
      col_def vadd_def vadd3_def)

lemma hmpnn_forward_example:
  "HMPNN_forward exact (\<lambda>st l x a. Inr x) (\<lambda>p i j. Num 0) (HMPNN_init 1 [1] 1 2 (7 / 10) (1 / 2)) \<lparr>nrows = 1, ncols = 1, entry = (\<lambda>i j. Num 1)\<rparr> \<lparr>nrows = 1, ncols = 1, entry = (\<lambda>i j. Num 1)\<rparr> () = Inr \<lparr>nrows = 1, ncols = 1, entry = (\<lambda>i j. Num 0)\<rparr>"
  by (simp add: HMPNN_forward_def HMPNN_init_def new_layers_def numeral_2_eq_2
      linear_forward_def row_def exact_def fsum_def)

theorem C2_layers_stacked_and_called_in_sequence_witness:
  "\<lparr>ctor_args = (1::nat), obj_id = 1\<rparr> \<in> set (new_layers 1 2)
   \<and> ctor_args \<lparr>ctor_args = (1::nat), obj_id = 1\<rparr> = 1
   \<and> AMPSSCA_init [1, 1, 1] 3 1 2 False = Inr
       \<lparr>ampssca_n_layers = 2, ampssca_channels_list = [1, 1, 1], ampssca_num_classes = 1,
        ampssca_layers = ModuleList (new_layers ([1, 1, 1], 3, False) 2),
        ampssca_lin0 = \<lparr>lname = ''lin0'', lpos = 0, in_features = 1, out_features = 1\<rparr>,
        ampssca_lin1 = \<lparr>lname = ''lin1'', lpos = 0, in_features = 1, out_features = 1\<rparr>,
        ampssca_lin2 = \<lparr>lname = ''lin2'', lpos = 0, in_features = 1, out_features = 1\<rparr>\<rparr>
   \<and> SCoNeNN_forward exact (\<lambda>st l x u d i. Inr x) (\<lambda>p i j. Num 0) (SCoNeNN_init 1 2) \<lparr>nrows = 1, ncols = 1, entry = (\<lambda>i j. Num 1)\<rparr> () () () = Inr (softmax_rows exact \<lparr>nrows = 1, ncols = 2, entry = (\<lambda>i j. Num 0)\<rparr>)
   \<and> (\<exists>x' y. fed_in_sequence (\<lambda>layer x. (\<lambda>st l x u d i. Inr x) (\<lambda>p i j. Num 0) layer x () () ())
                   (items (scone_layers (SCoNeNN_init 1 2))) \<lparr>nrows = 1, ncols = 1, entry = (\<lambda>i j. Num 1)\<rparr> x'
           \<and> linear_forward exact (\<lambda>p i j. Num 0) (scone_linear (SCoNeNN_init 1 2)) x' = Inr y
           \<and> (softmax_rows exact \<lparr>nrows = 1, ncols = 2, entry = (\<lambda>i j. Num 0)\<rparr>) = softmax_rows exact y)
   \<and> SCN2_forward exact (\<lambda>st l x u d i. Inr x) (\<lambda>p i j. Num 0) (SCN2_init 1 1 1 1 2) \<lparr>nrows = 1, ncols = 1, entry = (\<lambda>i j. Num 1)\<rparr> \<lparr>nrows = 1, ncols = 1, entry = (\<lambda>i j. Num 1)\<rparr> \<lparr>nrows = 0, ncols = 1, entry = (\<lambda>i j. Num 1)\<rparr> () () () = Inr [Num 0]
   \<and> (\<exists>xa xb xc ya yb yc.
           fed_in_sequence (\<lambda>layer xs. (\<lambda>st l x u d i. Inr x) (\<lambda>p i j. Num 0) layer xs () () ())
                   (items (scn2_layers (SCN2_init 1 1 1 1 2))) (\<lparr>nrows = 1, ncols = 1, entry = (\<lambda>i j. Num 1)\<rparr>, \<lparr>nrows = 1, ncols = 1, entry = (\<lambda>i j. Num 1)\<rparr>, \<lparr>nrows = 0, ncols = 1, entry = (\<lambda>i j. Num 1)\<rparr>) (xa, xb, xc)
           \<and> linear_forward exact (\<lambda>p i j. Num 0) (scn2_lin_0 (SCN2_init 1 1 1 1 2)) xa = Inr ya
           \<and> linear_forward exact (\<lambda>p i j. Num 0) (scn2_lin_1 (SCN2_init 1 1 1 1 2)) xb = Inr yb
           \<and> linear_forward exact (\<lambda>p i j. Num 0) (scn2_lin_2 (SCN2_init 1 1 1 1 2)) xc = Inr yc
           \<and> vadd3 exact (cells_mean exact yc) (cells_mean exact yb) (cells_mean exact ya) = Inr [Num 0])
   \<and> AMPSSCA_forward exact (\<lambda>st l x a b. Inr x) (\<lambda>p i j. Num 0) \<lparr>ampssca_n_layers = 2, ampssca_channels_list = [1, 1, 1], ampssca_num_classes = 1,
        ampssca_layers = ModuleList (new_layers ([1, 1, 1], 3, False) 2),
        ampssca_lin0 = \<lparr>lname = ''lin0'', lpos = 0, in_features = 1, out_features = 1\<rparr>,
        ampssca_lin1 = \<lparr>lname = ''lin1'', lpos = 0, in_features = 1, out_features = 1\<rparr>,
        ampssca_lin2 = \<lparr>lname = ''lin2'', lpos = 0, in_features = 1, out_features = 1\<rparr>\<rparr> [\<lparr>nrows = 1, ncols = 1, entry = (\<lambda>i j. Num 1)\<rparr>, \<lparr>nrows = 1, ncols = 1, entry = (\<lambda>i j. Num 1)\<rparr>, \<lparr>nrows = 0, ncols = 1, entry = (\<lambda>i j. Num 1)\<rparr>] () () = Inr [Num 0]
   \<and> (\<exists>xl ya yb yc.
           fed_in_sequence (\<lambda>layer xs. (\<lambda>st l x a b. Inr x) (\<lambda>p i j. Num 0) layer xs () ())
                   (items (ampssca_layers \<lparr>ampssca_n_layers = 2, ampssca_channels_list = [1, 1, 1], ampssca_num_classes = 1,
        ampssca_layers = ModuleList (new_layers ([1, 1, 1], 3, False) 2),
        ampssca_lin0 = \<lparr>lname = ''lin0'', lpos = 0, in_features = 1, out_features = 1\<rparr>,
        ampssca_lin1 = \<lparr>lname = ''lin1'', lpos = 0, in_features = 1, out_features = 1\<rparr>,
        ampssca_lin2 = \<lparr>lname = ''lin2'', lpos = 0, in_features = 1, out_features = 1\<rparr>\<rparr>)) [\<lparr>nrows = 1, ncols = 1, entry = (\<lambda>i j. Num 1)\<rparr>, \<lparr>nrows = 1, ncols = 1, entry = (\<lambda>i j. Num 1)\<rparr>, \<lparr>nrows = 0, ncols = 1, entry = (\<lambda>i j. Num 1)\<rparr>] xl
           \<and> 3 \<le> length xl
           \<and> linear_forward exact (\<lambda>p i j. Num 0) (ampssca_lin0 \<lparr>ampssca_n_layers = 2, ampssca_channels_list = [1, 1, 1], ampssca_num_classes = 1,
        ampssca_layers = ModuleList (new_layers ([1, 1, 1], 3, False) 2),
        ampssca_lin0 = \<lparr>lname = ''lin0'', lpos = 0, in_features = 1, out_features = 1\<rparr>,
        ampssca_lin1 = \<lparr>lname = ''lin1'', lpos = 0, in_features = 1, out_features = 1\<rparr>,
        ampssca_lin2 = \<lparr>lname = ''lin2'', lpos = 0, in_features = 1, out_features = 1\<rparr>\<rparr>) (xl ! 0) = Inr ya
           \<and> linear_forward exact (\<lambda>p i j. Num 0) (ampssca_lin1 \<lparr>ampssca_n_layers = 2, ampssca_channels_list = [1, 1, 1], ampssca_num_classes = 1,
        ampssca_layers = ModuleList (new_layers ([1, 1, 1], 3, False) 2),
        ampssca_lin0 = \<lparr>lname = ''lin0'', lpos = 0, in_features = 1, out_features = 1\<rparr>,
        ampssca_lin1 = \<lparr>lname = ''lin1'', lpos = 0, in_features = 1, out_features = 1\<rparr>,
        ampssca_lin2 = \<lparr>lname = ''lin2'', lpos = 0, in_features = 1, out_features = 1\<rparr>\<rparr>) (xl ! 1) = Inr yb
           \<and> linear_forward exact (\<lambda>p i j. Num 0) (ampssca_lin2 \<lparr>ampssca_n_layers = 2, ampssca_channels_list = [1, 1, 1], ampssca_num_classes = 1,
        ampssca_layers = ModuleList (new_layers ([1, 1, 1], 3, False) 2),
        ampssca_lin0 = \<lparr>lname = ''lin0'', lpos = 0, in_features = 1, out_features = 1\<rparr>,
        ampssca_lin1 = \<lparr>lname = ''lin1'', lpos = 0, in_features = 1, out_features = 1\<rparr>,
        ampssca_lin2 = \<lparr>lname = ''lin2'', lpos = 0, in_features = 1, out_features = 1\<rparr>\<rparr>) (xl ! 2) = Inr yc
           \<and> vadd3 exact (cells_mean exact ya) (cells_mean exact yb) (cells_mean exact yc) = Inr [Num 0])
   \<and> CAN_forward exact (\<lambda>st l x a b. Inr x) (\<lambda>p i j. Num 0) (CAN_init 1 1 1 1 2 False) \<lparr>nrows = 1, ncols = 1, entry = (\<lambda>i j. Num 1)\<rparr> \<lparr>nrows = 1, ncols = 1, entry = (\<lambda>i j. Num 1)\<rparr> \<lparr>nrows = 0, ncols = 1, entry = (\<lambda>i j. Num 1)\<rparr> () () = Inr [Num 0]
   \<and> (\<exists>xb ya yb yc.
           fed_in_sequence (\<lambda>layer x. (\<lambda>st l x a b. Inr x) (\<lambda>p i j. Num 0) layer x () ())
                   (items (can_layers (CAN_init 1 1 1 1 2 False))) \<lparr>nrows = 1, ncols = 1, entry = (\<lambda>i j. Num 1)\<rparr> xb
           \<and> linear_forward exact (\<lambda>p i j. Num 0) (can_lin_0 (CAN_init 1 1 1 1 2 False)) \<lparr>nrows = 1, ncols = 1, entry = (\<lambda>i j. Num 1)\<rparr> = Inr ya
           \<and> linear_forward exact (\<lambda>p i j. Num 0) (can_lin_1 (CAN_init 1 1 1 1 2 False)) xb = Inr yb
           \<and> linear_forward exact (\<lambda>p i j. Num 0) (can_lin_2 (CAN_init 1 1 1 1 2 False)) \<lparr>nrows = 0, ncols = 1, entry = (\<lambda>i j. Num 1)\<rparr> = Inr yc
           \<and> vadd3 exact (cells_mean exact yb) (cells_mean exact ya) (cells_mean exact yc) = Inr [Num 0])
   \<and> HMPNN_forward exact (\<lambda>st l x a. Inr x) (\<lambda>p i j. Num 0) (HMPNN_init 1 [1] 1 2 (7 / 10) (1 / 2)) \<lparr>nrows = 1, ncols = 1, entry = (\<lambda>i j. Num 1)\<rparr> \<lparr>nrows = 1, ncols = 1, entry = (\<lambda>i j. Num 1)\<rparr> () = Inr \<lparr>nrows = 1, ncols = 1, entry = (\<lambda>i j. Num 0)\<rparr>
   \<and> (\<exists>ha hb xa xb.
           run_layers (linear_forward exact (\<lambda>p i j. Num 0)) (hmpnn_to_hidden_linear (HMPNN_init 1 [1] 1 2 (7 / 10) (1 / 2))) \<lparr>nrows = 1, ncols = 1, entry = (\<lambda>i j. Num 1)\<rparr> = Inr ha
           \<and> run_layers (linear_forward exact (\<lambda>p i j. Num 0)) (hmpnn_to_hidden_linear (HMPNN_init 1 [1] 1 2 (7 / 10) (1 / 2))) \<lparr>nrows = 1, ncols = 1, entry = (\<lambda>i j. Num 1)\<rparr> = Inr hb
           \<and> fed_in_sequence (\<lambda>layer xs. (\<lambda>st l x a. Inr x) (\<lambda>p i j. Num 0) layer xs ())
                   (items (hmpnn_layers (HMPNN_init 1 [1] 1 2 (7 / 10) (1 / 2)))) (ha, hb) (xa, xb)
           \<and> linear_forward exact (\<lambda>p i j. Num 0) (hmpnn_to_categories_linear (HMPNN_init 1 [1] 1 2 (7 / 10) (1 / 2))) xa = Inr \<lparr>nrows = 1, ncols = 1, entry = (\<lambda>i j. Num 0)\<rparr>)"
proof -
  note t = C2_layers_stacked_and_called_in_sequence[where
      ar = exact and channels = 1 and n_layers = 2 and ca = 1 and cb = 1 and cc = 1 and nc = 1
      and cl = "[1, 1, 1]" and cd = 3 and att = False and f = 1 and hs = "[1]"
      and p = "7 / 10" and q = "1 / 2" and args = "1::nat"
      and m_amp = "\<lparr>ampssca_n_layers = 2, ampssca_channels_list = [1, 1, 1], ampssca_num_classes = 1,
        ampssca_layers = ModuleList (new_layers ([1, 1, 1], 3, False) 2),
        ampssca_lin0 = \<lparr>lname = ''lin0'', lpos = 0, in_features = 1, out_features = 1\<rparr>,
        ampssca_lin1 = \<lparr>lname = ''lin1'', lpos = 0, in_features = 1, out_features = 1\<rparr>,
        ampssca_lin2 = \<lparr>lname = ''lin2'', lpos = 0, in_features = 1, out_features = 1\<rparr>\<rparr>"
      and st = "(\<lambda>p i j. Num 0)"
      and SCoNeLayer = "\<lambda>st l x u d i. Inr x" and m_scone = "SCoNeNN_init 1 2"
      and xn = "\<lparr>nrows = 1, ncols = 1, entry = (\<lambda>i j. Num 1)\<rparr>" and xe = "\<lparr>nrows = 1, ncols = 1, entry = (\<lambda>i j. Num 1)\<rparr>" and xf = "\<lparr>nrows = 0, ncols = 1, entry = (\<lambda>i j. Num 1)\<rparr>"
      and up_lap = "()" and down_lap = "()" and iden = "()"
      and out_scone = "softmax_rows exact \<lparr>nrows = 1, ncols = 2, entry = (\<lambda>i j. Num 0)\<rparr>"
      and SCN2Layer = "\<lambda>st l x u d i. Inr x" and m_scn = "SCN2_init 1 1 1 1 2"
      and la = "()" and lb = "()" and lc = "()" and out_scn = "[Num 0]"
      and SCACMPSLayer = "\<lambda>st l x a b. Inr x"
      and x_list = "[\<lparr>nrows = 1, ncols = 1, entry = (\<lambda>i j. Num 1)\<rparr>, \<lparr>nrows = 1, ncols = 1, entry = (\<lambda>i j. Num 1)\<rparr>, \<lparr>nrows = 0, ncols = 1, entry = (\<lambda>i j. Num 1)\<rparr>]"
      and dl = "()" and il = "()" and out_ampssca = "[Num 0]"
      and CANLayer = "\<lambda>st l x a b. Inr x" and m_can = "CAN_init 1 1 1 1 2 False"
      and out_can = "[Num 0]"
      and HMPNNLayer = "\<lambda>st l x a. Inr x"
      and m_hmpnn = "HMPNN_init 1 [1] 1 2 (7 / 10) (1 / 2)" and incidence = "()"
      and out_hmpnn = "\<lparr>nrows = 1, ncols = 1, entry = (\<lambda>i j. Num 0)\<rparr>"]
  have m: "\<lparr>ctor_args = (1::nat), obj_id = 1\<rparr> \<in> set (new_layers 1 2)"
    by (simp add: new_layers_def numeral_2_eq_2)
  have a: "ctor_args \<lparr>ctor_args = (1::nat), obj_id = 1\<rparr> = 1"
    by simp
  have i_scone: "SCoNeNN_forward exact (\<lambda>st l x u d i. Inr x) (\<lambda>p i j. Num 0) (SCoNeNN_init 1 2) \<lparr>nrows = 1, ncols = 1, entry = (\<lambda>i j. Num 1)\<rparr> () () () = Inr (softmax_rows exact \<lparr>nrows = 1, ncols = 2, entry = (\<lambda>i j. Num 0)\<rparr>) \<longleftrightarrow>
        (\<exists>x' y. fed_in_sequence (\<lambda>layer x. (\<lambda>st l x u d i. Inr x) (\<lambda>p i j. Num 0) layer x () () ())
                   (items (scone_layers (SCoNeNN_init 1 2))) \<lparr>nrows = 1, ncols = 1, entry = (\<lambda>i j. Num 1)\<rparr> x'
           \<and> linear_forward exact (\<lambda>p i j. Num 0) (scone_linear (SCoNeNN_init 1 2)) x' = Inr y
           \<and> (softmax_rows exact \<lparr>nrows = 1, ncols = 2, entry = (\<lambda>i j. Num 0)\<rparr>) = softmax_rows exact y)"
    using t by (elim conjE) assumption
  have i_scn: "SCN2_forward exact (\<lambda>st l x u d i. Inr x) (\<lambda>p i j. Num 0) (SCN2_init 1 1 1 1 2) \<lparr>nrows = 1, ncols = 1, entry = (\<lambda>i j. Num 1)\<rparr> \<lparr>nrows = 1, ncols = 1, entry = (\<lambda>i j. Num 1)\<rparr> \<lparr>nrows = 0, ncols = 1, entry = (\<lambda>i j. Num 1)\<rparr> () () () = Inr [Num 0] \<longleftrightarrow>
        (\<exists>xa xb xc ya yb yc.
           fed_in_sequence (\<lambda>layer xs. (\<lambda>st l x u d i. Inr x) (\<lambda>p i j. Num 0) layer xs () () ())
                   (items (scn2_layers (SCN2_init 1 1 1 1 2))) (\<lparr>nrows = 1, ncols = 1, entry = (\<lambda>i j. Num 1)\<rparr>, \<lparr>nrows = 1, ncols = 1, entry = (\<lambda>i j. Num 1)\<rparr>, \<lparr>nrows = 0, ncols = 1, entry = (\<lambda>i j. Num 1)\<rparr>) (xa, xb, xc)
           \<and> linear_forward exact (\<lambda>p i j. Num 0) (scn2_lin_0 (SCN2_init 1 1 1 1 2)) xa = Inr ya
           \<and> linear_forward exact (\<lambda>p i j. Num 0) (scn2_lin_1 (SCN2_init 1 1 1 1 2)) xb = Inr yb
           \<and> linear_forward exact (\<lambda>p i j. Num 0) (scn2_lin_2 (SCN2_init 1 1 1 1 2)) xc = Inr yc
           \<and> vadd3 exact (cells_mean exact yc) (cells_mean exact yb) (cells_mean exact ya) = Inr [Num 0])"
    using t by (elim conjE) assumption
  have i_amp: "AMPSSCA_forward exact (\<lambda>st l x a b. Inr x) (\<lambda>p i j. Num 0) \<lparr>ampssca_n_layers = 2, ampssca_channels_list = [1, 1, 1], ampssca_num_classes = 1,
        ampssca_layers = ModuleList (new_layers ([1, 1, 1], 3, False) 2),
        ampssca_lin0 = \<lparr>lname = ''lin0'', lpos = 0, in_features = 1, out_features = 1\<rparr>,
        ampssca_lin1 = \<lparr>lname = ''lin1'', lpos = 0, in_features = 1, out_features = 1\<rparr>,
        ampssca_lin2 = \<lparr>lname = ''lin2'', lpos = 0, in_features = 1, out_features = 1\<rparr>\<rparr> [\<lparr>nrows = 1, ncols = 1, entry = (\<lambda>i j. Num 1)\<rparr>, \<lparr>nrows = 1, ncols = 1, entry = (\<lambda>i j. Num 1)\<rparr>, \<lparr>nrows = 0, ncols = 1, entry = (\<lambda>i j. Num 1)\<rparr>] () () = Inr [Num 0] \<longleftrightarrow>
        (\<exists>xl ya yb yc.
           fed_in_sequence (\<lambda>layer xs. (\<lambda>st l x a b. Inr x) (\<lambda>p i j. Num 0) layer xs () ())
                   (items (ampssca_layers \<lparr>ampssca_n_layers = 2, ampssca_channels_list = [1, 1, 1], ampssca_num_classes = 1,
        ampssca_layers = ModuleList (new_layers ([1, 1, 1], 3, False) 2),
        ampssca_lin0 = \<lparr>lname = ''lin0'', lpos = 0, in_features = 1, out_features = 1\<rparr>,
        ampssca_lin1 = \<lparr>lname = ''lin1'', lpos = 0, in_features = 1, out_features = 1\<rparr>,
        ampssca_lin2 = \<lparr>lname = ''lin2'', lpos = 0, in_features = 1, out_features = 1\<rparr>\<rparr>)) [\<lparr>nrows = 1, ncols = 1, entry = (\<lambda>i j. Num 1)\<rparr>, \<lparr>nrows = 1, ncols = 1, entry = (\<lambda>i j. Num 1)\<rparr>, \<lparr>nrows = 0, ncols = 1, entry = (\<lambda>i j. Num 1)\<rparr>] xl
           \<and> 3 \<le> length xl
           \<and> linear_forward exact (\<lambda>p i j. Num 0) (ampssca_lin0 \<lparr>ampssca_n_layers = 2, ampssca_channels_list = [1, 1, 1], ampssca_num_classes = 1,
        ampssca_layers = ModuleList (new_layers ([1, 1, 1], 3, False) 2),
        ampssca_lin0 = \<lparr>lname = ''lin0'', lpos = 0, in_features = 1, out_features = 1\<rparr>,
        ampssca_lin1 = \<lparr>lname = ''lin1'', lpos = 0, in_features = 1, out_features = 1\<rparr>,
        ampssca_lin2 = \<lparr>lname = ''lin2'', lpos = 0, in_features = 1, out_features = 1\<rparr>\<rparr>) (xl ! 0) = Inr ya
           \<and> linear_forward exact (\<lambda>p i j. Num 0) (ampssca_lin1 \<lparr>ampssca_n_layers = 2, ampssca_channels_list = [1, 1, 1], ampssca_num_classes = 1,
        ampssca_layers = ModuleList (new_layers ([1, 1, 1], 3, False) 2),
        ampssca_lin0 = \<lparr>lname = ''lin0'', lpos = 0, in_features = 1, out_features = 1\<rparr>,
        ampssca_lin1 = \<lparr>lname = ''lin1'', lpos = 0, in_features = 1, out_features = 1\<rparr>,
        ampssca_lin2 = \<lparr>lname = ''lin2'', lpos = 0, in_features = 1, out_features = 1\<rparr>\<rparr>) (xl ! 1) = Inr yb
           \<and> linear_forward exact (\<lambda>p i j. Num 0) (ampssca_lin2 \<lparr>ampssca_n_layers = 2, ampssca_channels_list = [1, 1, 1], ampssca_num_classes = 1,
        ampssca_layers = ModuleList (new_layers ([1, 1, 1], 3, False) 2),
        ampssca_lin0 = \<lparr>lname = ''lin0'', lpos = 0, in_features = 1, out_features = 1\<rparr>,
        ampssca_lin1 = \<lparr>lname = ''lin1'', lpos = 0, in_features = 1, out_features = 1\<rparr>,
        ampssca_lin2 = \<lparr>lname = ''lin2'', lpos = 0, in_features = 1, out_features = 1\<rparr>\<rparr>) (xl ! 2) = Inr yc
           \<and> vadd3 exact (cells_mean exact ya) (cells_mean exact yb) (cells_mean exact yc) = Inr [Num 0])"
    using t ampssca_init_example by (elim conjE) (erule impE, assumption+)
  have i_can: "CAN_forward exact (\<lambda>st l x a b. Inr x) (\<lambda>p i j. Num 0) (CAN_init 1 1 1 1 2 False) \<lparr>nrows = 1, ncols = 1, entry = (\<lambda>i j. Num 1)\<rparr> \<lparr>nrows = 1, ncols = 1, entry = (\<lambda>i j. Num 1)\<rparr> \<lparr>nrows = 0, ncols = 1, entry = (\<lambda>i j. Num 1)\<rparr> () () = Inr [Num 0] \<longleftrightarrow>
        (\<exists>xb ya yb yc.
           fed_in_sequence (\<lambda>layer x. (\<lambda>st l x a b. Inr x) (\<lambda>p i j. Num 0) layer x () ())
                   (items (can_layers (CAN_init 1 1 1 1 2 False))) \<lparr>nrows = 1, ncols = 1, entry = (\<lambda>i j. Num 1)\<rparr> xb
           \<and> linear_forward exact (\<lambda>p i j. Num 0) (can_lin_0 (CAN_init 1 1 1 1 2 False)) \<lparr>nrows = 1, ncols = 1, entry = (\<lambda>i j. Num 1)\<rparr> = Inr ya
           \<and> linear_forward exact (\<lambda>p i j. Num 0) (can_lin_1 (CAN_init 1 1 1 1 2 False)) xb = Inr yb
           \<and> linear_forward exact (\<lambda>p i j. Num 0) (can_lin_2 (CAN_init 1 1 1 1 2 False)) \<lparr>nrows = 0, ncols = 1, entry = (\<lambda>i j. Num 1)\<rparr> = Inr yc
           \<and> vadd3 exact (cells_mean exact yb) (cells_mean exact ya) (cells_mean exact yc) = Inr [Num 0])"
    using t by (elim conjE) assumption
  have i_hm: "HMPNN_forward exact (\<lambda>st l x a. Inr x) (\<lambda>p i j. Num 0) (HMPNN_init 1 [1] 1 2 (7 / 10) (1 / 2)) \<lparr>nrows = 1, ncols = 1, entry = (\<lambda>i j. Num 1)\<rparr> \<lparr>nrows = 1, ncols = 1, entry = (\<lambda>i j. Num 1)\<rparr> () = Inr \<lparr>nrows = 1, ncols = 1, entry = (\<lambda>i j. Num 0)\<rparr> \<longleftrightarrow>
        (\<exists>ha hb xa xb.
           run_layers (linear_forward exact (\<lambda>p i j. Num 0)) (hmpnn_to_hidden_linear (HMPNN_init 1 [1] 1 2 (7 / 10) (1 / 2))) \<lparr>nrows = 1, ncols = 1, entry = (\<lambda>i j. Num 1)\<rparr> = Inr ha
           \<and> run_layers (linear_forward exact (\<lambda>p i j. Num 0)) (hmpnn_to_hidden_linear (HMPNN_init 1 [1] 1 2 (7 / 10) (1 / 2))) \<lparr>nrows = 1, ncols = 1, entry = (\<lambda>i j. Num 1)\<rparr> = Inr hb
           \<and> fed_in_sequence (\<lambda>layer xs. (\<lambda>st l x a. Inr x) (\<lambda>p i j. Num 0) layer xs ())
                   (items (hmpnn_layers (HMPNN_init 1 [1] 1 2 (7 / 10) (1 / 2)))) (ha, hb) (xa, xb)
           \<and> linear_forward exact (\<lambda>p i j. Num 0) (hmpnn_to_categories_linear (HMPNN_init 1 [1] 1 2 (7 / 10) (1 / 2))) xa = Inr \<lparr>nrows = 1, ncols = 1, entry = (\<lambda>i j. Num 0)\<rparr>)"
    using t by (elim conjE) assumption
  note r_scone = iffD1[OF i_scone scone_forward_example]
  note r_scn = iffD1[OF i_scn scn2_forward_example]
  note r_amp = iffD1[OF i_amp ampssca_forward_example]
  note r_can = iffD1[OF i_can can_forward_example]
  note r_hm = iffD1[OF i_hm hmpnn_forward_example]
  show ?thesis
    using m a ampssca_init_example scone_forward_example r_scone scn2_forward_example r_scn
      ampssca_forward_example r_amp can_forward_example r_can hmpnn_forward_example r_hm
    by (intro conjI) assumption+
qed

section \<open>Which parameters the optimizer trains\<close>

lemma apply_event_frame:
  "p \<notin> set params \<Longrightarrow> apply_event update params st ev p = st p"
  by (cases ev) (simp_all add: optimizer_step_def)

lemma run_training_frame:
  "p \<notin> set params \<Longrightarrow> run_training update params tr st p = st p"
  unfolding run_training_def
  by (induction tr arbitrary: st) (simp_all add: apply_event_frame)

lemma SCoNeNN_init_parameters:
  "SCoNeNN_parameters np (SCoNeNN_init channels n_layers)
    = [LinearP ''linear'' 0 0, LinearP ''linear'' 0 1]"
  by (simp add: SCoNeNN_parameters_def SCoNeNN_init_def linear_params_def)

lemma CAN_init_parameters:
  "CAN_parameters np (CAN_init ca cb cc nc n_layers att)
    = [LinearP ''lin_0'' 0 0, LinearP ''lin_0'' 0 1, LinearP ''lin_1'' 0 0,
       LinearP ''lin_1'' 0 1, LinearP ''lin_2'' 0 0, LinearP ''lin_2'' 0 1]"
  by (simp add: CAN_parameters_def CAN_init_def linear_params_def)

lemma SCN2_layers_are_parameters:
  "l \<in> set (items (scn2_layers (SCN2_init ca cb cc nc n_layers))) \<Longrightarrow> k < np (ctor_args l)
    \<Longrightarrow> LayerP (obj_id l) k \<in> set (SCN2_parameters np (SCN2_init ca cb cc nc n_layers))"
proof -
  assume "l \<in> set (items (scn2_layers (SCN2_init ca cb cc nc n_layers)))" "k < np (ctor_args l)"
  then have "LayerP (obj_id l) k
      \<in> set (container_params np (scn2_layers (SCN2_init ca cb cc nc n_layers)))"
    by (force simp: SCN2_init_def layer_params_def)
  then show ?thesis by (simp add: SCN2_parameters_def)
qed

text \<open>
  C4: SCoNeNN and CAN keep their layers in a Python list, so \<^verbatim>\<open>model.parameters()\<close> is the
  weight and bias of the final linear layers only, and whatever the optimizer's updates are,
  a run of any sequence of training events leaves every parameter tensor outside that list,
  the parameters of every message-passing layer among them, as it was.
\<close>

theorem C4_plain_list_layers_not_trained:
  "SCoNeNN_parameters np (SCoNeNN_init channels n_layers)
     = [LinearP ''linear'' 0 0, LinearP ''linear'' 0 1]
   \<and> CAN_parameters np' (CAN_init ca cb cc nc n_layers att)
     = [LinearP ''lin_0'' 0 0, LinearP ''lin_0'' 0 1, LinearP ''lin_1'' 0 0,
        LinearP ''lin_1'' 0 1, LinearP ''lin_2'' 0 0, LinearP ''lin_2'' 0 1]
   \<and> run_training update (SCoNeNN_parameters np (SCoNeNN_init channels n_layers)) tr st
        (LayerP i k) = st (LayerP i k)
   \<and> run_training update (CAN_parameters np' (CAN_init ca cb cc nc n_layers att)) tr st
        (LayerP i k) = st (LayerP i k)
   \<and> (p \<notin> set (SCoNeNN_parameters np (SCoNeNN_init channels n_layers)) \<longrightarrow>
        run_training update (SCoNeNN_parameters np (SCoNeNN_init channels n_layers)) tr st p = st p)
   \<and> (p \<notin> set (CAN_parameters np' (CAN_init ca cb cc nc n_layers att)) \<longrightarrow>
        run_training update (CAN_parameters np' (CAN_init ca cb cc nc n_layers att)) tr st p = st p)"
proof -
  have "LayerP i k \<notin> set (SCoNeNN_parameters np (SCoNeNN_init channels n_layers))"
    by (simp add: SCoNeNN_init_parameters)
  moreover have "LayerP i k \<notin> set (CAN_parameters np' (CAN_init ca cb cc nc n_layers att))"
    by (simp add: CAN_init_parameters)
  ultimately show ?thesis
    using run_training_frame[of _ _ update tr st] SCoNeNN_init_parameters CAN_init_parameters
    by simp
qed

lemma TrainStep_in_loop_iff:
  "TrainStep e k \<in> set (training_loop ti n nt ns) \<longleftrightarrow> 1 \<le> e \<and> e \<le> n \<and> k < nt"
  by (auto simp: training_loop_def epoch_events_def test_block_def)

lemma run_training_snoc:
  "run_training update params (tr @ [ev]) st
    = apply_event update params (run_training update params tr st) ev"
  by (simp add: run_training_def)

lemma run_training_trained:
  assumes "p \<in> set params" "\<And>e k st. update e k st p = v" "TrainStep e k \<in> set tr"
  shows "run_training update params tr st p = v"
  using assms(3)
proof (induction tr rule: rev_induct)
  case Nil
  then show ?case by simp
next
  case (snoc ev tr)
  show ?case
  proof (cases "\<exists>e' k'. ev = TrainStep e' k'")
    case True
    then show ?thesis
      using assms(1,2) by (auto simp: run_training_snoc optimizer_step_def)
  next
    case False
    then have "TrainStep e k \<in> set tr" using snoc.prems by auto
    from snoc.IH[OF this] False show ?thesis
      by (cases ev) (auto simp: run_training_snoc)
  qed
qed

lemma scone_linear_is_trained:
  "run_training (\<lambda>e k st p i j. Num 1) (SCoNeNN_parameters (\<lambda>c. 3) (SCoNeNN_init 1 10))
      scone_notebook (\<lambda>p i j. Num 0) (LinearP ''linear'' 0 0) = (\<lambda>i j. Num 1)"
proof (rule run_training_trained[of _ _ _ _ 1 0])
  show "LinearP ''linear'' 0 0 \<in> set (SCoNeNN_parameters (\<lambda>c. 3) (SCoNeNN_init 1 10))"
    by (simp add: SCoNeNN_init_parameters)
  show "TrainStep 1 0 \<in> set scone_notebook"
    by (simp add: scone_run scone_cells_def TrainStep_in_loop_iff)
qed simp

theorem C4_plain_list_layers_not_trained_witness:
  "LayerP 0 0 \<notin> set (SCoNeNN_parameters (\<lambda>c. 3) (SCoNeNN_init 1 10))
   \<and> run_training (\<lambda>e k st p i j. Num 1) (SCoNeNN_parameters (\<lambda>c. 3) (SCoNeNN_init 1 10))
        scone_notebook (\<lambda>p i j. Num 0) (LayerP 0 0) = (\<lambda>i j. Num 0)
   \<and> LayerP 0 0 \<notin> set (CAN_parameters (\<lambda>c. 3) (CAN_init 6 10 7 1 2 False))
   \<and> run_training (\<lambda>e k st p i j. Num 1) (CAN_parameters (\<lambda>c. 3) (CAN_init 6 10 7 1 2 False))
        (can_notebook 80 20) (\<lambda>p i j. Num 0) (LayerP 0 0) = (\<lambda>i j. Num 0)"
proof -
  have a: "LayerP 0 0 \<notin> set (SCoNeNN_parameters (\<lambda>c. 3) (SCoNeNN_init 1 10))"
    by (simp add: SCoNeNN_parameters_def SCoNeNN_init_def linear_params_def)
  have b: "LayerP 0 0 \<notin> set (CAN_parameters (\<lambda>c. 3) (CAN_init 6 10 7 1 2 False))"
    by (simp add: CAN_parameters_def CAN_init_def linear_params_def)
  note t = C4_plain_list_layers_not_trained[where np = "\<lambda>c. 3" and channels = 1
      and np' = "\<lambda>c. 3" and ca = 6 and cb = 10 and cc = 7 and nc = 1
      and att = False and update = "\<lambda>e k st p i j. Num 1" and st = "\<lambda>p i j. Num 0"
      and p = "LayerP 0 0"]
  have c: "run_training (\<lambda>e k st p i j. Num 1) (SCoNeNN_parameters (\<lambda>c. 3) (SCoNeNN_init 1 10))
        scone_notebook (\<lambda>p i j. Num 0) (LayerP 0 0) = (\<lambda>i j. Num 0)"
    using t[where n_layers = 10 and tr = scone_notebook] a by blast
  have d: "run_training (\<lambda>e k st p i j. Num 1) (CAN_parameters (\<lambda>c. 3) (CAN_init 6 10 7 1 2 False))
        (can_notebook 80 20) (\<lambda>p i j. Num 0) (LayerP 0 0) = (\<lambda>i j. Num 0)"
    using t[where n_layers = 2 and tr = "can_notebook 80 20"] b by blast
  from a b c d show ?thesis by blast
qed

section \<open>Shapes of the Laplacians\<close>

lemma incidence_matrix_shape:
  "incidence_matrix K r = Inr B \<Longrightarrow> nrows B = n_cells K (r - 1) \<and> ncols B = n_cells K r"
  by (auto simp: incidence_matrix_def split: if_splits)

lemma up_laplacian_shape:
  "up_laplacian_matrix K r = Inr L \<Longrightarrow> nrows L = n_cells K r \<and> ncols L = n_cells K r"
  by (auto simp: up_laplacian_matrix_def matmul_def transpose_t_def
      dest!: incidence_matrix_shape split: sum.splits if_splits)

lemma down_laplacian_shape:
  "down_laplacian_matrix K r = Inr L \<Longrightarrow> nrows L = n_cells K r \<and> ncols L = n_cells K r"
  by (auto simp: down_laplacian_matrix_def matmul_def transpose_t_def
      dest!: incidence_matrix_shape split: sum.splits if_splits)

lemma hodge_laplacian_shape:
  "hodge_laplacian_matrix K r = Inr L \<Longrightarrow> nrows L = n_cells K r \<and> ncols L = n_cells K r"
  by (auto simp: hodge_laplacian_matrix_def matadd_def
      dest: up_laplacian_shape down_laplacian_shape split: sum.splits if_splits)

lemma normalized_laplacian_shape:
  "normalized_laplacian_matrix scale K r = Inr L
    \<Longrightarrow> nrows L = n_cells K r \<and> ncols L = n_cells K r"
  by (auto simp: normalized_laplacian_matrix_def dest: hodge_laplacian_shape split: sum.splits)

lemma up_laplacian_defined:
  "r < dim K \<Longrightarrow> \<exists>L. up_laplacian_matrix K r = Inr L"
  by (simp add: up_laplacian_matrix_def incidence_matrix_def matmul_def transpose_t_def)

lemma down_laplacian_defined:
  "1 \<le> r \<Longrightarrow> r \<le> dim K \<Longrightarrow> \<exists>L. down_laplacian_matrix K r = Inr L"
  by (simp add: down_laplacian_matrix_def incidence_matrix_def matmul_def transpose_t_def)

lemma hodge_laplacian_defined:
  assumes "r \<le> dim K" "1 \<le> dim K"
  shows "\<exists>L. hodge_laplacian_matrix K r = Inr L"
proof (cases "r = 0")
  case True
  then show ?thesis
    using up_laplacian_defined[of 0 K] assms by (simp add: hodge_laplacian_matrix_def)
next
  case False
  show ?thesis
  proof (cases "r < dim K")
    case True
    obtain U where U: "up_laplacian_matrix K r = Inr U"
      using up_laplacian_defined[OF True] by blast
    obtain D where D: "down_laplacian_matrix K r = Inr D"
      using down_laplacian_defined[of r K] False True by auto
    show ?thesis
      using U D up_laplacian_shape[OF U] down_laplacian_shape[OF D] False True
      by (simp add: hodge_laplacian_matrix_def matadd_def)
  next
    case r: False
    then show ?thesis
      using down_laplacian_defined[of r K] False assms by (simp add: hodge_laplacian_matrix_def)
  qed
qed

text \<open>
  C8: every Laplacian a notebook builds at rank \<open>r\<close> (up, down or normalized) is square,
  with as many rows and as many columns as the complex has cells of rank \<open>r\<close>; at rank 1
  that is \<open>[n_edges, n_edges]\<close>.  The up Laplacian exists below the highest rank, the down
  Laplacian above rank 0, the normalized one at every rank of a complex of rank at least 1.
\<close>

theorem C8_laplacians_are_square:
  "(build_laplacian scale kind K r = Inr L \<longrightarrow>
       nrows L = n_cells K r \<and> ncols L = n_cells K r)
   \<and> (build_laplacian scale kind K 1 = Inr L \<longrightarrow>
       nrows L = n_cells K 1 \<and> ncols L = n_cells K 1)
   \<and> (r < dim K \<longrightarrow> (\<exists>M. build_laplacian scale Up K r = Inr M))
   \<and> (1 \<le> r \<and> r \<le> dim K \<longrightarrow> (\<exists>M. build_laplacian scale Down K r = Inr M))
   \<and> (r \<le> dim K \<and> 1 \<le> dim K \<longrightarrow> (\<exists>M. build_laplacian scale Normalized K r = Inr M))"
proof -
  have shape: "build_laplacian scale kind K r' = Inr L \<longrightarrow>
       nrows L = n_cells K r' \<and> ncols L = n_cells K r'" for r'
    by (cases kind)
      (auto simp: to_sparse_tensor_def split: sum.splits
        dest: up_laplacian_shape down_laplacian_shape normalized_laplacian_shape)
  have up: "r < dim K \<longrightarrow> (\<exists>M. build_laplacian scale Up K r = Inr M)"
    using up_laplacian_defined[of r K] by (auto simp: to_sparse_tensor_def)
  have down: "1 \<le> r \<and> r \<le> dim K \<longrightarrow> (\<exists>M. build_laplacian scale Down K r = Inr M)"
    using down_laplacian_defined[of r K] by (auto simp: to_sparse_tensor_def)
  have norm: "r \<le> dim K \<and> 1 \<le> dim K \<longrightarrow> (\<exists>M. build_laplacian scale Normalized K r = Inr M)"
    using hodge_laplacian_defined[of r K]
    by (auto simp: to_sparse_tensor_def normalized_laplacian_matrix_def)
  from shape[of r] shape[of 1] up down norm show ?thesis by blast
qed


theorem C8_laplacians_are_square_witness:
  "(1::nat) < 2 \<and> (1::nat) \<le> 1 \<and> (1::nat) \<le> 2
   \<and> (\<exists>U D N. build_laplacian (\<lambda>L. entry L) Up \<lparr>dim = 2, n_cells = (\<lambda>r. if r = 2 then 1 else 3),
      boundary = (\<lambda>r i j. if r = 1 then [[- 1, - 1, 0], [1, 0, - 1], [0, 1, 1]] ! i ! j
                            else [[1], [- 1], [1]] ! i ! j)\<rparr> 1 = Inr U
        \<and> build_laplacian (\<lambda>L. entry L) Down \<lparr>dim = 2, n_cells = (\<lambda>r. if r = 2 then 1 else 3),
      boundary = (\<lambda>r i j. if r = 1 then [[- 1, - 1, 0], [1, 0, - 1], [0, 1, 1]] ! i ! j
                            else [[1], [- 1], [1]] ! i ! j)\<rparr> 1 = Inr D
        \<and> build_laplacian (\<lambda>L. entry L) Normalized \<lparr>dim = 2, n_cells = (\<lambda>r. if r = 2 then 1 else 3),
      boundary = (\<lambda>r i j. if r = 1 then [[- 1, - 1, 0], [1, 0, - 1], [0, 1, 1]] ! i ! j
                            else [[1], [- 1], [1]] ! i ! j)\<rparr> 1 = Inr N
        \<and> nrows U = 3 \<and> ncols U = 3 \<and> nrows D = 3 \<and> ncols D = 3
        \<and> nrows N = 3 \<and> ncols N = 3)"
proof -
  let ?K = "\<lparr>dim = 2, n_cells = (\<lambda>r. if r = 2 then 1 else 3),
      boundary = (\<lambda>r i j. if r = 1 then [[- 1, - 1, 0], [1, 0, - 1], [0, 1, 1]] ! i ! j
                            else [[1], [- 1], [1]] ! i ! j)\<rparr>"
  have d: "dim ?K = 2" and n: "n_cells ?K 1 = 3"
    by simp_all
  have h: "(1::nat) < 2" "(1::nat) \<le> 1" "(1::nat) \<le> 2"
    by simp_all
  note t = C8_laplacians_are_square[where scale = "\<lambda>L. entry L" and K = ?K and r = 1]
  obtain U where U: "build_laplacian (\<lambda>L. entry L) Up ?K 1 = Inr U"
    using t[where kind = Up] d h by auto
  obtain D where D: "build_laplacian (\<lambda>L. entry L) Down ?K 1 = Inr D"
    using t[where kind = Down] d h by auto
  obtain N where N: "build_laplacian (\<lambda>L. entry L) Normalized ?K 1 = Inr N"
    using t[where kind = Normalized] d h by auto
  have "nrows U = 3 \<and> ncols U = 3"
    using t[where kind = Up and L = U] U n by simp
  moreover have "nrows D = 3 \<and> ncols D = 3"
    using t[where kind = Down and L = D] D n by simp
  moreover have "nrows N = 3 \<and> ncols N = 3"
    using t[where kind = Normalized and L = N] N n by simp
  ultimately show ?thesis using U D N h by blast
qed

section \<open>The reported loss\<close>

lemma round_half_even_bounds: "\<lfloor>x\<rfloor> \<le> round_half_even x \<and> round_half_even x \<le> \<lfloor>x\<rfloor> + 1"
  by (simp add: round_half_even_def Let_def)

lemma round_half_even_mono: "x \<le> y \<Longrightarrow> round_half_even x \<le> round_half_even y"
proof -
  assume le: "x \<le> y"
  have fl: "\<lfloor>x\<rfloor> \<le> \<lfloor>y\<rfloor>" using le by (rule floor_mono)
  show ?thesis
  proof (cases "\<lfloor>x\<rfloor> = \<lfloor>y\<rfloor>")
    case True
    then have "x - of_int \<lfloor>x\<rfloor> \<le> y - of_int \<lfloor>y\<rfloor>" using le by simp
    then show ?thesis using True by (auto simp: round_half_even_def Let_def)
  next
    case False
    then have "\<lfloor>x\<rfloor> + 1 \<le> \<lfloor>y\<rfloor>" using fl by simp
    then show ?thesis
      using round_half_even_bounds[of x] round_half_even_bounds[of y] by linarith
  qed
qed

lemma fmt4_mono: "x \<le> y \<Longrightarrow> fmt4 x \<le> fmt4 y"
  using round_half_even_mono[of "x * 10000" "y * 10000"]
  by (simp add: fmt4_def divide_right_mono)

lemma sum_list_mono2:
  fixes xs ys :: "real list"
  shows "list_all2 (\<le>) xs ys \<Longrightarrow> sum_list xs \<le> sum_list ys"
  by (induction rule: list_all2_induct) auto

lemma exact_mean_monotone: "monotone_mean exact_mean"
  unfolding monotone_mean_def exact_mean_def
proof (intro allI impI)
  fix xs ys :: "real list"
  assume a: "list_all2 (\<le>) xs ys"
  have "length xs = length ys" using a by (rule list_all2_lengthD)
  then show "sum_list xs / real (length xs) \<le> sum_list ys / real (length ys)"
    using sum_list_mono2[OF a] by (simp add: divide_right_mono)
qed

lemma reported_nth:
  "0 < n_train \<Longrightarrow> i < num_epochs
    \<Longrightarrow> reported_losses fmt mean loss_item num_epochs n_train ! i
        = Some (fmt (mean (epoch_loss loss_item n_train (i + 1))))"
  by (simp add: reported_losses_def np_mean_def epoch_loss_def del: upt_Suc)

text \<open>
  C5, as stated: the reported mean loss decreases from every epoch to the next.  The run
  recorded in the SCoNe notebook reports 0.7185 for epoch 2 and 0.7205 for epoch 3.
\<close>

theorem C5_counterexample:
  "\<not> decreasing (reported_losses fmt4 exact_mean scone_recorded_loss 6 1)"
proof -
  have u: "[1..<6 + 1] = [1, 2, 3, 4, 5, 6::nat]"
    by code_simp
  have r: "reported_losses fmt4 exact_mean scone_recorded_loss 6 1
      = [Some (7211 / 10000), Some (7185 / 10000), Some (7205 / 10000),
         Some (7210 / 10000), Some (7205 / 10000), Some (7194 / 10000)]"
    unfolding reported_losses_def u
    by (simp add: epoch_loss_def np_mean_def scone_recorded_loss_def exact_mean_def fmt4_def
        round_half_even_def)
  show ?thesis unfolding r by simp
qed

text \<open>Step losses that all decrease can print as the same value.\<close>

lemma close_losses_reported:
  "reported_losses fmt4 exact_mean close_losses 2 2 = [Some (7211 / 10000), Some (7211 / 10000)]"
proof -
  have u: "[1..<2 + 1] = [1, 2::nat]" "[0..<2] = [0, 1::nat]"
    by code_simp+
  show ?thesis
    unfolding reported_losses_def epoch_loss_def u
    by (simp add: np_mean_def close_losses_def exact_mean_def fmt4_def round_half_even_def)
qed

text \<open>
  C5, amended: nothing in a training loop makes the reported loss decrease.  The value
  reported for an epoch is the mean of the losses of that epoch's steps, printed with four
  decimals by SCoNe, SCN2 and CAN and in full by AMPSSCA; it is at most the value reported
  for the epoch before whenever every step loss of the later epoch is at most every step
  loss of the earlier one (both epochs having at least one step; \<^verbatim>\<open>np.mean\<close> being
  monotone).
\<close>

theorem C5_reported_loss_not_above_when_step_losses_are_not:
  assumes "monotone_mean mean" "1 \<le> e" "e < num_epochs" "0 < n_train"
    and "\<forall>a\<in>set (epoch_loss loss_item n_train e).
           \<forall>b\<in>set (epoch_loss loss_item n_train (e + 1)). b \<le> a"
  shows "reported_losses fmt4 mean loss_item num_epochs n_train ! (e - 1)
        = Some (fmt4 (mean (epoch_loss loss_item n_train e)))
    \<and> reported_losses fmt4 mean loss_item num_epochs n_train ! e
        = Some (fmt4 (mean (epoch_loss loss_item n_train (e + 1))))
    \<and> fmt4 (mean (epoch_loss loss_item n_train (e + 1)))
        \<le> fmt4 (mean (epoch_loss loss_item n_train e))
    \<and> reported_losses fmt_full mean loss_item num_epochs n_train ! (e - 1)
        = Some (mean (epoch_loss loss_item n_train e))
    \<and> reported_losses fmt_full mean loss_item num_epochs n_train ! e
        = Some (mean (epoch_loss loss_item n_train (e + 1)))
    \<and> mean (epoch_loss loss_item n_train (e + 1)) \<le> mean (epoch_loss loss_item n_train e)"
proof -
  have "loss_item (e + 1) i \<le> loss_item e i" if "i < n_train" for i
    using assms(5) that by (simp add: epoch_loss_def)
  then have "list_all2 (\<le>) (epoch_loss loss_item n_train (e + 1)) (epoch_loss loss_item n_train e)"
    by (simp add: list_all2_conv_all_nth epoch_loss_def)
  then have m: "mean (epoch_loss loss_item n_train (e + 1)) \<le> mean (epoch_loss loss_item n_train e)"
    using assms(1) by (simp add: monotone_mean_def)
  have i1: "reported_losses fmt mean loss_item num_epochs n_train ! (e - 1)
      = Some (fmt (mean (epoch_loss loss_item n_train e)))" for fmt
    using reported_nth[where n_train = n_train and i = "e - 1" and num_epochs = num_epochs
        and fmt = fmt and mean = mean and loss_item = loss_item] assms(2,3,4) by simp
  have i2: "reported_losses fmt mean loss_item num_epochs n_train ! e
      = Some (fmt (mean (epoch_loss loss_item n_train (e + 1))))" for fmt
    using reported_nth[where n_train = n_train and i = e and num_epochs = num_epochs
        and fmt = fmt and mean = mean and loss_item = loss_item] assms(3,4) by simp
  show ?thesis
    using i1[of fmt4] i2[of fmt4] fmt4_mono[OF m] i1[of fmt_full] i2[of fmt_full] m
    by (simp add: fmt_full_def)
qed

theorem C5_reported_loss_not_above_when_step_losses_are_not_witness:
  "monotone_mean exact_mean \<and> (1::nat) \<le> 1 \<and> (1::nat) < 2 \<and> (0::nat) < 2
   \<and> epoch_loss close_losses 2 1 = [72113 / 100000, 72115 / 100000]
   \<and> epoch_loss close_losses 2 (1 + 1) = [72112 / 100000, 72110 / 100000]
   \<and> reported_losses fmt4 exact_mean close_losses 2 2 ! (1 - 1) = Some (7211 / 10000)
   \<and> reported_losses fmt4 exact_mean close_losses 2 2 ! 1 = Some (7211 / 10000)
   \<and> fmt4 (exact_mean (epoch_loss close_losses 2 (1 + 1)))
        \<le> fmt4 (exact_mean (epoch_loss close_losses 2 1))
   \<and> exact_mean (epoch_loss close_losses 2 (1 + 1)) \<le> exact_mean (epoch_loss close_losses 2 1)"
proof -
  have h1: "(1::nat) \<le> 1" and h2: "(1::nat) < 2" and h3: "(0::nat) < 2"
    by simp_all
  have u: "[0..<2] = [0, 1::nat]"
    by code_simp
  have e1: "epoch_loss close_losses 2 1 = [72113 / 100000, 72115 / 100000]"
    and e2: "epoch_loss close_losses 2 (1 + 1) = [72112 / 100000, 72110 / 100000]"
    unfolding epoch_loss_def u by (simp_all add: close_losses_def)
  have h4: "\<forall>a\<in>set (epoch_loss close_losses 2 1).
         \<forall>b\<in>set (epoch_loss close_losses 2 (1 + 1)). b \<le> a"
    unfolding e1 e2 by simp
  note t = C5_reported_loss_not_above_when_step_losses_are_not[OF exact_mean_monotone h1 h2 h3 h4]
  have r1: "reported_losses fmt4 exact_mean close_losses 2 2 ! (1 - 1) = Some (7211 / 10000)"
    and r2: "reported_losses fmt4 exact_mean close_losses 2 2 ! 1 = Some (7211 / 10000)"
    unfolding close_losses_reported by simp_all
  have t3: "fmt4 (exact_mean (epoch_loss close_losses 2 (1 + 1)))
        \<le> fmt4 (exact_mean (epoch_loss close_losses 2 1))"
    using t by (elim conjE) assumption
  have t6: "exact_mean (epoch_loss close_losses 2 (1 + 1)) \<le> exact_mean (epoch_loss close_losses 2 1)"
    using t by (elim conjE) assumption
  show ?thesis
    using exact_mean_monotone h1 h2 h3 e1 e2 r1 r2 t3 t6 by (intro conjI) assumption+
qed

section \<open>The output of SCoNeNN\<close>



lemma linear_forward_shape:
  "linear_forward ar st lin x = Inr y \<Longrightarrow> nrows y = nrows x \<and> ncols y = out_features lin"
  by (auto simp: linear_forward_def split: if_splits)

lemma linear_forward_returns:
  "(\<exists>y. linear_forward ar st lin x = Inr y) \<longleftrightarrow> ncols x = in_features lin"
  by (auto simp: linear_forward_def)


text \<open>
  Logits that have overflowed to infinity give a NaN row as well.
\<close>

lemma softmax_overflow_example: "lib_softmax exact [PInf, PInf] = [NaN, NaN]"
  by (simp add: exact_def softmax_def)



section \<open>NaN means\<close>

lemma nan_to_zero_no_nan: "\<not> list_ex is_nan (nan_to_zero v)"
  by (induction v) (auto simp: nan_to_zero_def)

lemma cells_mean_no_nan: "\<not> list_ex is_nan (cells_mean ar x)"
  by (simp add: cells_mean_def nan_to_zero_no_nan)

lemma cells_mean_length: "length (cells_mean ar x) = ncols x"
  by (simp add: cells_mean_def nan_to_zero_def nanmean_dim0_def)

lemma cells_mean_empty:
  "is_nan (lib_nanmean ar []) \<Longrightarrow> nrows x = 0 \<Longrightarrow> cells_mean ar x = replicate (ncols x) (Num 0)"
  by (simp add: cells_mean_def nan_to_zero_def nanmean_dim0_def col_def map_replicate_const)

lemma cells_mean_linear_empty:
  "is_nan (lib_nanmean ar []) \<Longrightarrow> nrows x = 0 \<Longrightarrow> linear_forward ar st lin x = Inr y
    \<Longrightarrow> cells_mean ar y = replicate (out_features lin) (Num 0)"
  using cells_mean_empty[of ar y] linear_forward_shape[of ar st lin x y] by simp

lemma map2_add_zero_right:
  "\<forall>a. f a z = a \<Longrightarrow> map2 f u (replicate (length u) z) = u"
  by (induction u) auto

lemma map2_add_zero_left:
  "\<forall>a. f z a = a \<Longrightarrow> map2 f (replicate (length u) z) u = u"
  by (induction u) auto

lemma vadd_zeros:
  assumes "\<forall>a. lib_add ar a (Num 0) = a \<and> lib_add ar (Num 0) a = a"
  shows "vadd ar u (replicate (length u) (Num 0)) = Inr u"
    and "vadd ar (replicate (length u) (Num 0)) u = Inr u"
  using assms map2_add_zero_right[of "lib_add ar" "Num 0" u]
    map2_add_zero_left[of "lib_add ar" "Num 0" u]
  by (simp_all add: vadd_def)

lemma vadd_same_length: "length u = length v \<Longrightarrow> vadd ar u v = Inr (map2 (lib_add ar) u v)"
  by (simp add: vadd_def)

lemma vadd3_zeros_last:
  assumes "\<forall>a. lib_add ar a (Num 0) = a \<and> lib_add ar (Num 0) a = a" "length u = n" "length v = n"
  shows "vadd3 ar u v (replicate n (Num 0)) = Inr (map2 (lib_add ar) u v)"
proof -
  have "length (map2 (lib_add ar) u v) = n" using assms(2,3) by simp
  then show ?thesis
    using vadd_zeros(1)[OF assms(1), of "map2 (lib_add ar) u v"] assms(2,3)
    by (simp add: vadd3_def vadd_same_length)
qed

lemma vadd3_zeros_first:
  assumes "\<forall>a. lib_add ar a (Num 0) = a \<and> lib_add ar (Num 0) a = a" "length u = n" "length v = n"
  shows "vadd3 ar (replicate n (Num 0)) u v = Inr (map2 (lib_add ar) u v)"
  using vadd_zeros(2)[OF assms(1), of u] assms(2,3)
  by (simp add: vadd3_def vadd_same_length)

lemma linear_forward_value:
  "ncols x = in_features lin \<Longrightarrow> \<exists>y. linear_forward ar st lin x = Inr y \<and> nrows y = nrows x
      \<and> ncols y = out_features lin"
  by (simp add: linear_forward_def)

text \<open>
  C10: in the forward passes of SCN2, AMPSSCA and CAN each per-dimension mean has its NaN
  entries replaced by 0 before the three means are summed: a mean that enters the sum has
  no NaN entry, and the forward pass returns exactly the sum of the three means so
  treated.  The mean of a dimension without cells is the zero vector (the library's
  \<^verbatim>\<open>nanmean\<close> of no entries being NaN), and adding it changes nothing (adding 0 to a float
  giving that float): on a complex without faces the three forward passes return the sum
  of the means of the two other dimensions.
\<close>

theorem C10_nan_means_replaced_by_zero:
  "\<not> list_ex is_nan (cells_mean ar x)
   \<and> length (cells_mean ar x) = ncols x
   \<and> (is_nan (lib_nanmean ar []) \<and> nrows x = 0
        \<longrightarrow> cells_mean ar x = replicate (ncols x) (Num 0))
   \<and> (is_nan (lib_nanmean ar []) \<and> nrows x = 0 \<and> linear_forward ar st lin x = Inr y
        \<longrightarrow> cells_mean ar y = replicate (out_features lin) (Num 0))
   \<and> ((\<forall>a. lib_add ar a (Num 0) = a \<and> lib_add ar (Num 0) a = a)
        \<longrightarrow> vadd ar u (replicate (length u) (Num 0)) = Inr u
          \<and> vadd ar (replicate (length u) (Num 0)) u = Inr u)
   \<and> (SCN2_forward ar SCN2Layer st m_scn xn xe xf la lb lc = Inr out_scn \<longleftrightarrow>
        (\<exists>xa xb xc ya yb yc.
           fed_in_sequence (\<lambda>layer xs. SCN2Layer st layer xs la lb lc)
                   (items (scn2_layers m_scn)) (xn, xe, xf) (xa, xb, xc)
           \<and> linear_forward ar st (scn2_lin_0 m_scn) xa = Inr ya
           \<and> linear_forward ar st (scn2_lin_1 m_scn) xb = Inr yb
           \<and> linear_forward ar st (scn2_lin_2 m_scn) xc = Inr yc
           \<and> vadd3 ar (cells_mean ar yc) (cells_mean ar yb) (cells_mean ar ya) = Inr out_scn))
   \<and> (AMPSSCA_init cl cd nc n_layers att = Inr m_amp \<longrightarrow>
       (AMPSSCA_forward ar SCACMPSLayer st m_amp x_list dl il = Inr out_ampssca \<longleftrightarrow>
        (\<exists>xl ya yb yc.
           fed_in_sequence (\<lambda>layer xs. SCACMPSLayer st layer xs dl il)
                   (items (ampssca_layers m_amp)) x_list xl
           \<and> 3 \<le> length xl
           \<and> linear_forward ar st (ampssca_lin0 m_amp) (xl ! 0) = Inr ya
           \<and> linear_forward ar st (ampssca_lin1 m_amp) (xl ! 1) = Inr yb
           \<and> linear_forward ar st (ampssca_lin2 m_amp) (xl ! 2) = Inr yc
           \<and> vadd3 ar (cells_mean ar ya) (cells_mean ar yb) (cells_mean ar yc) = Inr out_ampssca)))
   \<and> (CAN_forward ar CANLayer st m_can xn xe xf down_lap up_lap = Inr out_can \<longleftrightarrow>
        (\<exists>xb ya yb yc.
           fed_in_sequence (\<lambda>layer x. CANLayer st layer x down_lap up_lap)
                   (items (can_layers m_can)) xe xb
           \<and> linear_forward ar st (can_lin_0 m_can) xn = Inr ya
           \<and> linear_forward ar st (can_lin_1 m_can) xb = Inr yb
           \<and> linear_forward ar st (can_lin_2 m_can) xf = Inr yc
           \<and> vadd3 ar (cells_mean ar yb) (cells_mean ar ya) (cells_mean ar yc) = Inr out_can))
   \<and> (is_nan (lib_nanmean ar []) \<and> (\<forall>a. lib_add ar a (Num 0) = a \<and> lib_add ar (Num 0) a = a)
        \<and> fed_in_sequence (\<lambda>layer xs. SCN2Layer st layer xs la lb lc)
              (items (scn2_layers (SCN2_init ca cb cc nc n_layers))) (xn, xe, xf) (xa, xb, xc)
        \<and> linear_forward ar st (scn2_lin_0 (SCN2_init ca cb cc nc n_layers)) xa = Inr ya
        \<and> linear_forward ar st (scn2_lin_1 (SCN2_init ca cb cc nc n_layers)) xb = Inr yb
        \<and> nrows xc = 0 \<and> ncols xc = cc
        \<longrightarrow> SCN2_forward ar SCN2Layer st (SCN2_init ca cb cc nc n_layers) xn xe xf la lb lc
              = Inr (map2 (lib_add ar) (cells_mean ar yb) (cells_mean ar ya)))
   \<and> (is_nan (lib_nanmean ar []) \<and> (\<forall>a. lib_add ar a (Num 0) = a \<and> lib_add ar (Num 0) a = a)
        \<and> AMPSSCA_init cl cd nc n_layers att = Inr m_amp
        \<and> fed_in_sequence (\<lambda>layer xs. SCACMPSLayer st layer xs dl il)
              (items (ampssca_layers m_amp)) x_list xl
        \<and> 3 \<le> length xl
        \<and> linear_forward ar st (ampssca_lin0 m_amp) (xl ! 0) = Inr ya
        \<and> linear_forward ar st (ampssca_lin1 m_amp) (xl ! 1) = Inr yb
        \<and> nrows (xl ! 2) = 0 \<and> ncols (xl ! 2) = cl ! 2
        \<longrightarrow> AMPSSCA_forward ar SCACMPSLayer st m_amp x_list dl il
              = Inr (map2 (lib_add ar) (cells_mean ar ya) (cells_mean ar yb)))
   \<and> (is_nan (lib_nanmean ar []) \<and> (\<forall>a. lib_add ar a (Num 0) = a \<and> lib_add ar (Num 0) a = a)
        \<and> fed_in_sequence (\<lambda>layer x. CANLayer st layer x down_lap up_lap)
              (items (can_layers (CAN_init ca cb cc nc n_layers att))) xe xb
        \<and> linear_forward ar st (can_lin_0 (CAN_init ca cb cc nc n_layers att)) xn = Inr ya
        \<and> linear_forward ar st (can_lin_1 (CAN_init ca cb cc nc n_layers att)) xb = Inr yb
        \<and> nrows xf = 0 \<and> ncols xf = cc
        \<longrightarrow> CAN_forward ar CANLayer st (CAN_init ca cb cc nc n_layers att) xn xe xf down_lap up_lap
              = Inr (map2 (lib_add ar) (cells_mean ar yb) (cells_mean ar ya)))"
proof -
  have a: "\<not> list_ex is_nan (cells_mean ar x)
   \<and> length (cells_mean ar x) = ncols x
   \<and> (is_nan (lib_nanmean ar []) \<and> nrows x = 0
        \<longrightarrow> cells_mean ar x = replicate (ncols x) (Num 0))
   \<and> (is_nan (lib_nanmean ar []) \<and> nrows x = 0 \<and> linear_forward ar st lin x = Inr y
        \<longrightarrow> cells_mean ar y = replicate (out_features lin) (Num 0))
   \<and> ((\<forall>a. lib_add ar a (Num 0) = a \<and> lib_add ar (Num 0) a = a)
        \<longrightarrow> vadd ar u (replicate (length u) (Num 0)) = Inr u
          \<and> vadd ar (replicate (length u) (Num 0)) u = Inr u)"
    using cells_mean_no_nan[of ar x] cells_mean_length[of ar x] cells_mean_empty[of ar x]
      cells_mean_linear_empty[of ar x st lin y] vadd_zeros[of ar u]
    by simp
  have m_scn: "SCN2_forward ar SCN2Layer st m_scn xn xe xf la lb lc = Inr out_scn \<longleftrightarrow>
        (\<exists>xa xb xc ya yb yc.
           fed_in_sequence (\<lambda>layer xs. SCN2Layer st layer xs la lb lc)
                   (items (scn2_layers m_scn)) (xn, xe, xf) (xa, xb, xc)
           \<and> linear_forward ar st (scn2_lin_0 m_scn) xa = Inr ya
           \<and> linear_forward ar st (scn2_lin_1 m_scn) xb = Inr yb
           \<and> linear_forward ar st (scn2_lin_2 m_scn) xc = Inr yc
           \<and> vadd3 ar (cells_mean ar yc) (cells_mean ar yb) (cells_mean ar ya) = Inr out_scn)"
    unfolding SCN2_forward_def run_layers_chain[symmetric]
    by (auto simp: Let_def split: sum.splits prod.splits)
  have amp: "AMPSSCA_init cl cd nc n_layers att = Inr m_amp \<longrightarrow>
       (AMPSSCA_forward ar SCACMPSLayer st m_amp x_list dl il = Inr out_ampssca \<longleftrightarrow>
        (\<exists>xl ya yb yc.
           fed_in_sequence (\<lambda>layer xs. SCACMPSLayer st layer xs dl il)
                   (items (ampssca_layers m_amp)) x_list xl
           \<and> 3 \<le> length xl
           \<and> linear_forward ar st (ampssca_lin0 m_amp) (xl ! 0) = Inr ya
           \<and> linear_forward ar st (ampssca_lin1 m_amp) (xl ! 1) = Inr yb
           \<and> linear_forward ar st (ampssca_lin2 m_amp) (xl ! 2) = Inr yc
           \<and> vadd3 ar (cells_mean ar ya) (cells_mean ar yb) (cells_mean ar yc) = Inr out_ampssca))"
  proof (intro impI)
    assume i: "AMPSSCA_init cl cd nc n_layers att = Inr m_amp"
    from i have "nat (ampssca_n_layers m_amp) = length (items (ampssca_layers m_amp))"
      by (auto simp: AMPSSCA_init_def new_layers_def split: if_splits)
    then have idx: "run_indexed call (items (ampssca_layers m_amp))
        [0..<nat (ampssca_n_layers m_amp)] x
        = run_layers call (items (ampssca_layers m_amp)) x" for call x
      using run_indexed_all[of call "items (ampssca_layers m_amp)" x] by simp
    show "AMPSSCA_forward ar SCACMPSLayer st m_amp x_list dl il = Inr out_ampssca \<longleftrightarrow>
        (\<exists>xl ya yb yc.
           fed_in_sequence (\<lambda>layer xs. SCACMPSLayer st layer xs dl il)
                   (items (ampssca_layers m_amp)) x_list xl
           \<and> 3 \<le> length xl
           \<and> linear_forward ar st (ampssca_lin0 m_amp) (xl ! 0) = Inr ya
           \<and> linear_forward ar st (ampssca_lin1 m_amp) (xl ! 1) = Inr yb
           \<and> linear_forward ar st (ampssca_lin2 m_amp) (xl ! 2) = Inr yc
           \<and> vadd3 ar (cells_mean ar ya) (cells_mean ar yb) (cells_mean ar yc) = Inr out_ampssca)"
      unfolding AMPSSCA_forward_def idx run_layers_chain[symmetric]
      by (auto simp: Let_def split: sum.splits if_splits)
  qed
  have m_can: "CAN_forward ar CANLayer st m_can xn xe xf down_lap up_lap = Inr out_can \<longleftrightarrow>
        (\<exists>xb ya yb yc.
           fed_in_sequence (\<lambda>layer x. CANLayer st layer x down_lap up_lap)
                   (items (can_layers m_can)) xe xb
           \<and> linear_forward ar st (can_lin_0 m_can) xn = Inr ya
           \<and> linear_forward ar st (can_lin_1 m_can) xb = Inr yb
           \<and> linear_forward ar st (can_lin_2 m_can) xf = Inr yc
           \<and> vadd3 ar (cells_mean ar yb) (cells_mean ar ya) (cells_mean ar yc) = Inr out_can)"
    unfolding CAN_forward_def run_layers_chain[symmetric]
    by (auto simp: Let_def split: sum.splits)
  have e_scn: "is_nan (lib_nanmean ar []) \<and> (\<forall>a. lib_add ar a (Num 0) = a \<and> lib_add ar (Num 0) a = a)
        \<and> fed_in_sequence (\<lambda>layer xs. SCN2Layer st layer xs la lb lc)
              (items (scn2_layers (SCN2_init ca cb cc nc n_layers))) (xn, xe, xf) (xa, xb, xc)
        \<and> linear_forward ar st (scn2_lin_0 (SCN2_init ca cb cc nc n_layers)) xa = Inr ya
        \<and> linear_forward ar st (scn2_lin_1 (SCN2_init ca cb cc nc n_layers)) xb = Inr yb
        \<and> nrows xc = 0 \<and> ncols xc = cc
        \<longrightarrow> SCN2_forward ar SCN2Layer st (SCN2_init ca cb cc nc n_layers) xn xe xf la lb lc
              = Inr (map2 (lib_add ar) (cells_mean ar yb) (cells_mean ar ya))"
  proof (intro impI, elim conjE)
    let ?m = "SCN2_init ca cb cc nc n_layers"
    assume nm: "is_nan (lib_nanmean ar [])"
      and az: "\<forall>a. lib_add ar a (Num 0) = a \<and> lib_add ar (Num 0) a = a"
      and ch: "fed_in_sequence (\<lambda>layer xs. SCN2Layer st layer xs la lb lc)
              (items (scn2_layers ?m)) (xn, xe, xf) (xa, xb, xc)"
      and ya: "linear_forward ar st (scn2_lin_0 ?m) xa = Inr ya"
      and yb: "linear_forward ar st (scn2_lin_1 ?m) xb = Inr yb"
      and r0: "nrows xc = 0" and c0: "ncols xc = cc"
    have "ncols xc = in_features (scn2_lin_2 ?m)" using c0 by (simp add: SCN2_init_def)
    from linear_forward_value[OF this, of ar st] obtain yc where
      yc: "linear_forward ar st (scn2_lin_2 ?m) xc = Inr yc" by blast
    have mc: "cells_mean ar yc = replicate nc (Num 0)"
      using cells_mean_linear_empty[OF nm r0 yc] by (simp add: SCN2_init_def)
    have la: "length (cells_mean ar ya) = nc"
      using linear_forward_shape[OF ya] by (simp add: cells_mean_length SCN2_init_def)
    have lb: "length (cells_mean ar yb) = nc"
      using linear_forward_shape[OF yb] by (simp add: cells_mean_length SCN2_init_def)
    have "vadd3 ar (cells_mean ar yc) (cells_mean ar yb) (cells_mean ar ya)
        = Inr (map2 (lib_add ar) (cells_mean ar yb) (cells_mean ar ya))"
      unfolding mc using vadd3_zeros_first[OF az lb la] .
    with ch ya yb yc
    show "SCN2_forward ar SCN2Layer st ?m xn xe xf la lb lc
        = Inr (map2 (lib_add ar) (cells_mean ar yb) (cells_mean ar ya))"
      unfolding SCN2_forward_def run_layers_chain[symmetric] by (simp add: Let_def)
  qed
  have e_amp: "is_nan (lib_nanmean ar []) \<and> (\<forall>a. lib_add ar a (Num 0) = a \<and> lib_add ar (Num 0) a = a)
        \<and> AMPSSCA_init cl cd nc n_layers att = Inr m_amp
        \<and> fed_in_sequence (\<lambda>layer xs. SCACMPSLayer st layer xs dl il)
              (items (ampssca_layers m_amp)) x_list xl
        \<and> 3 \<le> length xl
        \<and> linear_forward ar st (ampssca_lin0 m_amp) (xl ! 0) = Inr ya
        \<and> linear_forward ar st (ampssca_lin1 m_amp) (xl ! 1) = Inr yb
        \<and> nrows (xl ! 2) = 0 \<and> ncols (xl ! 2) = cl ! 2
        \<longrightarrow> AMPSSCA_forward ar SCACMPSLayer st m_amp x_list dl il
              = Inr (map2 (lib_add ar) (cells_mean ar ya) (cells_mean ar yb))"
  proof (intro impI, elim conjE)
    assume nm: "is_nan (lib_nanmean ar [])"
      and az: "\<forall>a. lib_add ar a (Num 0) = a \<and> lib_add ar (Num 0) a = a"
      and i: "AMPSSCA_init cl cd nc n_layers att = Inr m_amp"
      and ch: "fed_in_sequence (\<lambda>layer xs. SCACMPSLayer st layer xs dl il)
              (items (ampssca_layers m_amp)) x_list xl"
      and len: "3 \<le> length xl"
      and ya: "linear_forward ar st (ampssca_lin0 m_amp) (xl ! 0) = Inr ya"
      and yb: "linear_forward ar st (ampssca_lin1 m_amp) (xl ! 1) = Inr yb"
      and r0: "nrows (xl ! 2) = 0" and c0: "ncols (xl ! 2) = cl ! 2"
    from i have fields: "out_features (ampssca_lin0 m_amp) = nc"
      "out_features (ampssca_lin1 m_amp) = nc" "out_features (ampssca_lin2 m_amp) = nc"
      "in_features (ampssca_lin2 m_amp) = cl ! 2"
      "nat (ampssca_n_layers m_amp) = length (items (ampssca_layers m_amp))"
      by (auto simp: AMPSSCA_init_def new_layers_def split: if_splits)
    have idx: "run_indexed call (items (ampssca_layers m_amp))
        [0..<nat (ampssca_n_layers m_amp)] x
        = run_layers call (items (ampssca_layers m_amp)) x" for call x
      using run_indexed_all[of call "items (ampssca_layers m_amp)" x] fields(5) by simp
    have "ncols (xl ! 2) = in_features (ampssca_lin2 m_amp)" using c0 fields(4) by simp
    from linear_forward_value[OF this, of ar st] obtain yc where
      yc: "linear_forward ar st (ampssca_lin2 m_amp) (xl ! 2) = Inr yc" by blast
    have mc: "cells_mean ar yc = replicate nc (Num 0)"
      using cells_mean_linear_empty[OF nm r0 yc] fields(3) by simp
    have la: "length (cells_mean ar ya) = nc"
      using linear_forward_shape[OF ya] fields(1) by (simp add: cells_mean_length)
    have lb: "length (cells_mean ar yb) = nc"
      using linear_forward_shape[OF yb] fields(2) by (simp add: cells_mean_length)
    have "vadd3 ar (cells_mean ar ya) (cells_mean ar yb) (cells_mean ar yc)
        = Inr (map2 (lib_add ar) (cells_mean ar ya) (cells_mean ar yb))"
      unfolding mc using vadd3_zeros_last[OF az la lb] .
    with ch ya yb yc len
    show "AMPSSCA_forward ar SCACMPSLayer st m_amp x_list dl il
        = Inr (map2 (lib_add ar) (cells_mean ar ya) (cells_mean ar yb))"
      unfolding AMPSSCA_forward_def idx run_layers_chain[symmetric] by (auto simp: Let_def)
  qed
  have e_can: "is_nan (lib_nanmean ar []) \<and> (\<forall>a. lib_add ar a (Num 0) = a \<and> lib_add ar (Num 0) a = a)
        \<and> fed_in_sequence (\<lambda>layer x. CANLayer st layer x down_lap up_lap)
              (items (can_layers (CAN_init ca cb cc nc n_layers att))) xe xb
        \<and> linear_forward ar st (can_lin_0 (CAN_init ca cb cc nc n_layers att)) xn = Inr ya
        \<and> linear_forward ar st (can_lin_1 (CAN_init ca cb cc nc n_layers att)) xb = Inr yb
        \<and> nrows xf = 0 \<and> ncols xf = cc
        \<longrightarrow> CAN_forward ar CANLayer st (CAN_init ca cb cc nc n_layers att) xn xe xf down_lap up_lap
              = Inr (map2 (lib_add ar) (cells_mean ar yb) (cells_mean ar ya))"
  proof (intro impI, elim conjE)
    let ?m = "CAN_init ca cb cc nc n_layers att"
    assume nm: "is_nan (lib_nanmean ar [])"
      and az: "\<forall>a. lib_add ar a (Num 0) = a \<and> lib_add ar (Num 0) a = a"
      and ch: "fed_in_sequence (\<lambda>layer x. CANLayer st layer x down_lap up_lap)
              (items (can_layers ?m)) xe xb"
      and ya: "linear_forward ar st (can_lin_0 ?m) xn = Inr ya"
      and yb: "linear_forward ar st (can_lin_1 ?m) xb = Inr yb"
      and r0: "nrows xf = 0" and c0: "ncols xf = cc"
    have "ncols xf = in_features (can_lin_2 ?m)" using c0 by (simp add: CAN_init_def)
    from linear_forward_value[OF this, of ar st] obtain yc where
      yc: "linear_forward ar st (can_lin_2 ?m) xf = Inr yc" by blast
    have mc: "cells_mean ar yc = replicate nc (Num 0)"
      using cells_mean_linear_empty[OF nm r0 yc] by (simp add: CAN_init_def)
    have la: "length (cells_mean ar ya) = nc"
      using linear_forward_shape[OF ya] by (simp add: cells_mean_length CAN_init_def)
    have lb: "length (cells_mean ar yb) = nc"
      using linear_forward_shape[OF yb] by (simp add: cells_mean_length CAN_init_def)
    have "vadd3 ar (cells_mean ar yb) (cells_mean ar ya) (cells_mean ar yc)
        = Inr (map2 (lib_add ar) (cells_mean ar yb) (cells_mean ar ya))"
      unfolding mc using vadd3_zeros_last[OF az lb la] .
    with ch ya yb yc
    show "CAN_forward ar CANLayer st ?m xn xe xf down_lap up_lap
        = Inr (map2 (lib_add ar) (cells_mean ar yb) (cells_mean ar ya))"
      unfolding CAN_forward_def run_layers_chain[symmetric] by (simp add: Let_def)
  qed
  from a m_scn amp m_can e_scn e_amp e_can show ?thesis
    by (intro conjI) (elim conjE, assumption)+
qed

text \<open>
  A complex with one node, one edge and no face, features 1, one channel, all weights and
  biases 1, layers that return their input: the means of the nodes and of the edges are 2,
  the mean of the faces is replaced by 0.
\<close>

lemma exact_facts:
  "is_nan (lib_nanmean exact [])"
  "\<forall>a. lib_add exact a (Num 0) = a \<and> lib_add exact (Num 0) a = a"
proof -
  show "is_nan (lib_nanmean exact [])" by (simp add: exact_def nanmean_def)
  have "fadd a (Num 0) = a \<and> fadd (Num 0) a = a" for a by (cases a) simp_all
  then show "\<forall>a. lib_add exact a (Num 0) = a \<and> lib_add exact (Num 0) a = a"
    by (simp add: exact_def)
qed

lemma linear_ones_example:
  "linear_forward exact (\<lambda>p i j. Num 1) (can_lin_0 (CAN_init 1 1 1 1 2 False)) \<lparr>nrows = 1, ncols = 1, entry = (\<lambda>i j. Num 1)\<rparr>
    = Inr \<lparr>nrows = 1, ncols = 1, entry = (\<lambda>i j. Num 2)\<rparr>"
  "linear_forward exact (\<lambda>p i j. Num 1) (can_lin_1 (CAN_init 1 1 1 1 2 False)) \<lparr>nrows = 1, ncols = 1, entry = (\<lambda>i j. Num 1)\<rparr>
    = Inr \<lparr>nrows = 1, ncols = 1, entry = (\<lambda>i j. Num 2)\<rparr>"
  by (simp_all add: linear_forward_def CAN_init_def row_def exact_def fsum_def)

lemma cells_mean_example:
  "cells_mean exact \<lparr>nrows = 1, ncols = 1, entry = (\<lambda>i j. Num 2)\<rparr> = [Num 2]"
  "cells_mean exact \<lparr>nrows = 0, ncols = 1, entry = (\<lambda>i j. Num 1)\<rparr> = [Num 0]"
  "cells_mean exact \<lparr>nrows = 2, ncols = 1, entry = (\<lambda>i j. if i = 0 then NaN else Num 3)\<rparr> = [Num 3]"
  "cells_mean exact \<lparr>nrows = 1, ncols = 1, entry = (\<lambda>i j. NaN)\<rparr> = [Num 0]"
  by (simp_all add: cells_mean_def nan_to_zero_def nanmean_dim0_def col_def exact_def nanmean_def
      fsum_def numeral_2_eq_2)

lemma can_chain_example:
  "fed_in_sequence (\<lambda>layer x. (\<lambda>st l x a b. Inr x) (\<lambda>p i j. Num 1) layer x () ())
     (items (can_layers (CAN_init 1 1 1 1 2 False))) \<lparr>nrows = 1, ncols = 1, entry = (\<lambda>i j. Num 1)\<rparr> \<lparr>nrows = 1, ncols = 1, entry = (\<lambda>i j. Num 1)\<rparr>"
  unfolding run_layers_chain[symmetric]
  by (simp add: CAN_init_def new_layers_def numeral_2_eq_2)

theorem C10_nan_means_replaced_by_zero_witness:
  "is_nan (lib_nanmean exact [])
   \<and> (\<forall>a. lib_add exact a (Num 0) = a \<and> lib_add exact (Num 0) a = a)
   \<and> nrows \<lparr>nrows = 0, ncols = 1, entry = (\<lambda>i j. Num 1)\<rparr> = 0
   \<and> cells_mean exact \<lparr>nrows = 0, ncols = 1, entry = (\<lambda>i j. Num 1)\<rparr> = replicate (ncols \<lparr>nrows = 0, ncols = 1, entry = (\<lambda>i j. Num 1)\<rparr>) (Num 0)
   \<and> cells_mean exact \<lparr>nrows = 1, ncols = 1, entry = (\<lambda>i j. NaN)\<rparr> = [Num 0]
   \<and> CAN_forward exact (\<lambda>st l x a b. Inr x) (\<lambda>p i j. Num 1) (CAN_init 1 1 1 1 2 False) \<lparr>nrows = 1, ncols = 1, entry = (\<lambda>i j. Num 1)\<rparr> \<lparr>nrows = 1, ncols = 1, entry = (\<lambda>i j. Num 1)\<rparr> \<lparr>nrows = 0, ncols = 1, entry = (\<lambda>i j. Num 1)\<rparr> () ()
       = Inr [Num 4]"
proof -
  note t = C10_nan_means_replaced_by_zero[where ar = exact and x = "\<lparr>nrows = 0, ncols = 1, entry = (\<lambda>i j. Num 1)\<rparr>"
      and CANLayer = "\<lambda>st l x a b. Inr x" and st = "(\<lambda>p i j. Num 1)" and ca = 1 and cb = 1 and cc = 1 and nc = 1
      and n_layers = 2 and att = False and xn = "\<lparr>nrows = 1, ncols = 1, entry = (\<lambda>i j. Num 1)\<rparr>" and xe = "\<lparr>nrows = 1, ncols = 1, entry = (\<lambda>i j. Num 1)\<rparr>" and xf = "\<lparr>nrows = 0, ncols = 1, entry = (\<lambda>i j. Num 1)\<rparr>"
      and xb = "\<lparr>nrows = 1, ncols = 1, entry = (\<lambda>i j. Num 1)\<rparr>" and down_lap = "()" and up_lap = "()"
      and ya = "\<lparr>nrows = 1, ncols = 1, entry = (\<lambda>i j. Num 2)\<rparr>"
      and yb = "\<lparr>nrows = 1, ncols = 1, entry = (\<lambda>i j. Num 2)\<rparr>"]
  have n0: "nrows \<lparr>nrows = 0, ncols = 1, entry = (\<lambda>i j. Num 1)\<rparr> = 0" by simp
  have e: "is_nan (lib_nanmean exact []) \<and> nrows \<lparr>nrows = 0, ncols = 1, entry = (\<lambda>i j. Num 1)\<rparr> = 0
        \<longrightarrow> cells_mean exact \<lparr>nrows = 0, ncols = 1, entry = (\<lambda>i j. Num 1)\<rparr> = replicate (ncols \<lparr>nrows = 0, ncols = 1, entry = (\<lambda>i j. Num 1)\<rparr>) (Num 0)"
    by (rule t[THEN conjunct2, THEN conjunct2, THEN conjunct1])
  have m0: "cells_mean exact \<lparr>nrows = 0, ncols = 1, entry = (\<lambda>i j. Num 1)\<rparr> = replicate (ncols \<lparr>nrows = 0, ncols = 1, entry = (\<lambda>i j. Num 1)\<rparr>) (Num 0)"
    using e exact_facts(1) n0 by blast
  have c: "is_nan (lib_nanmean exact []) \<and> (\<forall>a. lib_add exact a (Num 0) = a \<and> lib_add exact (Num 0) a = a)
        \<and> fed_in_sequence (\<lambda>layer x. (\<lambda>st l x a b. Inr x) (\<lambda>p i j. Num 1) layer x () ())
              (items (can_layers (CAN_init 1 1 1 1 2 False))) \<lparr>nrows = 1, ncols = 1, entry = (\<lambda>i j. Num 1)\<rparr> \<lparr>nrows = 1, ncols = 1, entry = (\<lambda>i j. Num 1)\<rparr>
        \<and> linear_forward exact (\<lambda>p i j. Num 1) (can_lin_0 (CAN_init 1 1 1 1 2 False)) \<lparr>nrows = 1, ncols = 1, entry = (\<lambda>i j. Num 1)\<rparr>
            = Inr \<lparr>nrows = 1, ncols = 1, entry = (\<lambda>i j. Num 2)\<rparr>
        \<and> linear_forward exact (\<lambda>p i j. Num 1) (can_lin_1 (CAN_init 1 1 1 1 2 False)) \<lparr>nrows = 1, ncols = 1, entry = (\<lambda>i j. Num 1)\<rparr>
            = Inr \<lparr>nrows = 1, ncols = 1, entry = (\<lambda>i j. Num 2)\<rparr>
        \<and> nrows \<lparr>nrows = 0, ncols = 1, entry = (\<lambda>i j. Num 1)\<rparr> = 0 \<and> ncols \<lparr>nrows = 0, ncols = 1, entry = (\<lambda>i j. Num 1)\<rparr> = 1
        \<longrightarrow> CAN_forward exact (\<lambda>st l x a b. Inr x) (\<lambda>p i j. Num 1) (CAN_init 1 1 1 1 2 False) \<lparr>nrows = 1, ncols = 1, entry = (\<lambda>i j. Num 1)\<rparr> \<lparr>nrows = 1, ncols = 1, entry = (\<lambda>i j. Num 1)\<rparr> \<lparr>nrows = 0, ncols = 1, entry = (\<lambda>i j. Num 1)\<rparr> () ()
              = Inr (map2 (lib_add exact)
                       (cells_mean exact \<lparr>nrows = 1, ncols = 1, entry = (\<lambda>i j. Num 2)\<rparr>)
                       (cells_mean exact \<lparr>nrows = 1, ncols = 1, entry = (\<lambda>i j. Num 2)\<rparr>))"
    by (rule t[THEN conjunct2, THEN conjunct2, THEN conjunct2, THEN conjunct2, THEN conjunct2,
          THEN conjunct2, THEN conjunct2, THEN conjunct2, THEN conjunct2, THEN conjunct2])
  have f: "CAN_forward exact (\<lambda>st l x a b. Inr x) (\<lambda>p i j. Num 1) (CAN_init 1 1 1 1 2 False) \<lparr>nrows = 1, ncols = 1, entry = (\<lambda>i j. Num 1)\<rparr> \<lparr>nrows = 1, ncols = 1, entry = (\<lambda>i j. Num 1)\<rparr> \<lparr>nrows = 0, ncols = 1, entry = (\<lambda>i j. Num 1)\<rparr> () ()
              = Inr (map2 (lib_add exact)
                       (cells_mean exact \<lparr>nrows = 1, ncols = 1, entry = (\<lambda>i j. Num 2)\<rparr>)
                       (cells_mean exact \<lparr>nrows = 1, ncols = 1, entry = (\<lambda>i j. Num 2)\<rparr>))"
    using c exact_facts can_chain_example linear_ones_example by simp
  have f4: "CAN_forward exact (\<lambda>st l x a b. Inr x) (\<lambda>p i j. Num 1) (CAN_init 1 1 1 1 2 False) \<lparr>nrows = 1, ncols = 1, entry = (\<lambda>i j. Num 1)\<rparr> \<lparr>nrows = 1, ncols = 1, entry = (\<lambda>i j. Num 1)\<rparr> \<lparr>nrows = 0, ncols = 1, entry = (\<lambda>i j. Num 1)\<rparr> () ()
       = Inr [Num 4]"
    unfolding f cells_mean_example by (simp add: exact_def)
  show ?thesis
    using exact_facts n0 m0 cells_mean_example(4) f4 by (intro conjI) assumption+
qed

end
